theory Spec2Isabelle
  imports Complex_Main
begin

section \<open>Common data model\<close>

text \<open>
  The library is a family of C++ templates.  A template type parameter is modelled by a tag
  of \<open>elem_type\<close> where the host code branches on it (\<open>std::is_same_v\<close>, \<open>sizeof\<close>), and
  by a HOL type variable where device code computes with it.  Machine integers
  (\<open>rocblas_int\<close>, \<open>int64_t\<close>, \<open>rocblas_stride\<close>) are modelled by \<open>int\<close>: signed overflow is
  undefined behaviour in C++, so the model speaks about the executions that are defined.
\<close>

datatype elem_type = Half | Bfloat16 | Float | Double | Float_complex | Double_complex

fun sizeof :: "elem_type \<Rightarrow> nat" where
  "sizeof Half = 2"
| "sizeof Bfloat16 = 2"
| "sizeof Float = 4"
| "sizeof Double = 8"
| "sizeof Float_complex = 8"
| "sizeof Double_complex = 16"

datatype rocblas_pointer_mode = Pointer_mode_host | Pointer_mode_device

datatype rocblas_status = Status_success | Status_size_unchanged | Status_hip_error | Status_assert_failed

text \<open>
  The fields of the handle that the launchers read.  \<open>getBatchGridDim\<close> is a member function
  whose body is not part of the sources at hand, so it is a field of the record.
\<close>

record rocblas_handle =
  pointer_mode :: rocblas_pointer_mode
  is_device_memory_size_query :: bool
  getArch :: int
  getWarpSize :: int
  getBatchGridDim :: "int \<Rightarrow> int"

text \<open>
  Compile-time constants and macros that the sources use and do not define:
  \<open>sddot_gfx942_lower_threshold\<close>, the macro \<open>DEVICE_GRID_YZ_16BIT\<close> and the stride
  \<open>c_YZ_grid_launch_limit\<close> of the batch loop that the macro switches on.
\<close>

record build_config =
  sddot_gfx942_lower_threshold :: int
  DEVICE_GRID_YZ_16BIT :: bool
  c_YZ_grid_launch_limit :: int

text \<open>The outcome of the three runtime calls the dot launcher checks with \<open>RETURN_IF_HIP_ERROR\<close>.\<close>

record hip_runtime =
  hipMemsetAsync_ok :: bool
  hipMemcpyAsync_ok :: bool
  hipStreamSynchronize_ok :: bool

definition WARP_32 :: int where "WARP_32 = 32"
definition WARP_64 :: int where "WARP_64 = 64"

text \<open>
  An operand of type \<open>U\<close>: a pointer to elements (\<open>const T*\<close>, an element address) or a
  pointer to an array of such pointers (\<open>const T* const*\<close>, the address of the array and its
  contents).  The launcher compares operands as pointers, that is by address.
\<close>

datatype operand = Ptr int | Ptr_array int "int list"

fun operand_addr :: "operand \<Rightarrow> int" where
  "operand_addr (Ptr a) = a"
| "operand_addr (Ptr_array a ps) = a"

text \<open>
  Modelled from the spec: \<open>load_ptr_batch\<close> (not in the sources at hand), section 4.2: for a
  single buffer the effective base is \<open>base + batch_index * stride + offset\<close>; for an array of
  pointers \<open>base[batch_index]\<close> supplies the per-batch base and the offset is applied on top.
\<close>

fun load_ptr_batch :: "operand \<Rightarrow> int \<Rightarrow> int \<Rightarrow> int \<Rightarrow> int" where
  "load_ptr_batch (Ptr p) batch offset stride = p + batch * stride + offset"
| "load_ptr_batch (Ptr_array a ps) batch offset stride = ps ! nat batch + offset"

section \<open>Dot product: host side\<close>

definition rocblas_dot_one_block_threshold :: "elem_type \<Rightarrow> int" where
  "rocblas_dot_one_block_threshold T =
     (if T = Float then 31000
      else if T = Float_complex then 16000
      else if T = Double then 13000
      else if T = Double_complex then 10000
      else 32768)"

definition rocblas_dot_WIN_nb :: "nat \<Rightarrow> int" where
  "rocblas_dot_WIN_nb nb = (if nb \<ge> 8 then 2 else if nb \<ge> 4 then 4 else 8)"

definition rocblas_dot_WIN :: "elem_type \<Rightarrow> int" where
  "rocblas_dot_WIN T = rocblas_dot_WIN_nb (sizeof T)"

text \<open>
  Modelled from the spec: \<open>rocblas_reduction_kernel_block_count\<close> (not in the sources at
  hand), section 4.3: block count = ceil(n / (group_size * WIN)); the second argument is the
  product \<open>group_size * WIN\<close>.
\<close>

definition rocblas_reduction_kernel_block_count :: "int \<Rightarrow> int \<Rightarrow> int" where
  "rocblas_reduction_kernel_block_count n nb = (n + nb - 1) div nb"

text \<open>
  The kernels the launcher can start, with their template arguments: \<open>ONE_BLOCK\<close>, \<open>NB\<close> and
  \<open>WIN\<close> (for the batched kernel \<open>WARP\<close> and \<open>NB_Y\<close>).
\<close>

datatype dot_kernel_id =
    Dot_batched_4_kernel int int
  | Dot_kernel_inc1 bool int int
  | Dot_kernel_inc1by2 bool int int
  | Dot_kernel bool int int
  | Dot_kernel_gfx942_float_double int
  | Dot_kernel_magsq bool int int

text \<open>Where a kernel writes final values: \<open>results\<close> itself, or \<open>(T*)(workspace + offset)\<close>.\<close>

datatype out_ptr = Out_results | Out_workspace int

record dot_args =
  a_T :: elem_type
  a_CONJ :: bool
  a_n :: int
  a_xa :: operand
  a_shiftx :: int
  a_incx :: int
  a_stridex :: int
  a_ya :: operand
  a_shifty :: int
  a_incy :: int
  a_stridey :: int
  a_batch_count :: int
  a_out :: out_ptr

text \<open>
  What the host code does, in program order: kernel launches with grid and block dimensions,
  and the runtime calls on \<open>results\<close>.
\<close>

datatype host_action =
    Launch_dot dot_kernel_id "int \<times> int \<times> int" "int \<times> int \<times> int" dot_args
  | Launch_reduction_kernel_part2 int int "int \<times> int \<times> int" "int \<times> int \<times> int" int out_ptr
  | Memset_results_zero int
  | Host_store_results_zero int
  | Memcpy_results_from out_ptr int
  | Stream_synchronize

text \<open>
  The copy back to the host at the end of every branch that launched kernels:
  \<open>hipMemcpyAsync\<close> and \<open>hipStreamSynchronize\<close>, each under \<open>RETURN_IF_HIP_ERROR\<close>.
\<close>

definition dot_copy_back ::
  "rocblas_handle \<Rightarrow> hip_runtime \<Rightarrow> out_ptr \<Rightarrow> int \<Rightarrow> host_action list
     \<Rightarrow> rocblas_status \<times> host_action list" where
  "dot_copy_back handle hip output batch_count acts =
     (if pointer_mode handle = Pointer_mode_host then
        (if \<not> hipMemcpyAsync_ok hip then (Status_hip_error, acts)
         else if \<not> hipStreamSynchronize_ok hip
           then (Status_hip_error, acts @ [Memcpy_results_from output batch_count])
         else (Status_success,
               acts @ [Memcpy_results_from output batch_count, Stream_synchronize]))
      else (Status_success, acts))"

definition dot_output :: "rocblas_handle \<Rightarrow> int \<Rightarrow> out_ptr" where
  "dot_output handle offset =
     (if pointer_mode handle = Pointer_mode_host then Out_workspace offset else Out_results)"

text \<open>
  \<open>rocblas_internal_dot_launcher<API_INT, NB, CONJ, T, U, V>\<close>.  The result is the status
  and the actions performed up to the return.  \<open>assert(blocks == 1)\<close> is a branch of its own.
\<close>

definition rocblas_internal_dot_launcher ::
  "build_config \<Rightarrow> hip_runtime \<Rightarrow> int \<Rightarrow> bool \<Rightarrow> elem_type \<Rightarrow> elem_type \<Rightarrow> rocblas_handle
     \<Rightarrow> int \<Rightarrow> operand \<Rightarrow> int \<Rightarrow> int \<Rightarrow> int \<Rightarrow> operand \<Rightarrow> int \<Rightarrow> int \<Rightarrow> int \<Rightarrow> int
     \<Rightarrow> rocblas_status \<times> host_action list" where
  "rocblas_internal_dot_launcher cfg hip NB CONJ T V handle
       n x offsetx incx stridex y offsety incy stridey batch_count =
    (if n \<le> 0 \<or> batch_count = 0 then
       (if is_device_memory_size_query handle then (Status_size_unchanged, [])
        else if pointer_mode handle = Pointer_mode_device \<and> batch_count > 0 then
          (if hipMemsetAsync_ok hip then (Status_success, [Memset_results_zero batch_count])
           else (Status_hip_error, []))
        else (Status_success, [Host_store_results_zero batch_count]))
     else
       let is_float = (V = Float \<and> T = Float);
           is_double = (V = Double \<and> T = Double);
           is_gfx942 = (getArch handle = 942);
           WIN = rocblas_dot_WIN T;
           shiftx = (if incx < 0 then offsetx - incx * (n - 1) else offsetx);
           shifty = (if incy < 0 then offsety - incy * (n - 1) else offsety);
           single_block_threshold = rocblas_dot_one_block_threshold T;
           distinct_operands = (operand_addr x \<noteq> operand_addr y \<or> incx \<noteq> incy
                                  \<or> offsetx \<noteq> offsety \<or> stridex \<noteq> stridey);
           args = (\<lambda>output. \<lparr>a_T = T, a_CONJ = CONJ, a_n = n,
                     a_xa = x, a_shiftx = shiftx, a_incx = incx, a_stridex = stridex,
                     a_ya = y, a_shifty = shifty, a_incy = incy, a_stridey = stridey,
                     a_batch_count = batch_count, a_out = output\<rparr>)
       in
       if n \<le> 1024 \<and> batch_count \<ge> 256 then
         let NB_Y = 4;
             grid = ((batch_count - 1) div NB_Y + 1, 1, 1);
             output = dot_output handle batch_count;
             WARP = (if getWarpSize handle = WARP_32 then WARP_32 else WARP_64)
         in dot_copy_back handle hip output batch_count
              [Launch_dot (Dot_batched_4_kernel WARP NB_Y) grid (WARP, NB_Y, 1) (args output)]
       else if n \<le> single_block_threshold then
         let NB_OB = 1024;
             WIN_OB = 32;
             blocks = rocblas_reduction_kernel_block_count n (NB_OB * WIN_OB)
         in
         if blocks \<noteq> 1 then (Status_assert_failed, [])
         else
           let batches = getBatchGridDim handle batch_count;
               grid = (blocks, 1, batches);
               threads = (NB_OB, 1, 1);
               output = dot_output handle (batch_count * blocks);
               kernel = (if distinct_operands then
                           (if incx = 1 \<and> incy = 1 then Dot_kernel_inc1by2 True NB_OB WIN_OB
                            else Dot_kernel True NB_OB WIN_OB)
                         else Dot_kernel_magsq True NB_OB WIN_OB)
           in dot_copy_back handle hip output batch_count
                [Launch_dot kernel grid threads (args output)]
       else if is_gfx942 \<and> (is_float \<or> is_double) \<and> n > sddot_gfx942_lower_threshold cfg
               \<and> distinct_operands then
         let DOT_NB = 1024;
             DOT_NELEM = 4;
             blocks = rocblas_reduction_kernel_block_count n (DOT_NB * DOT_NELEM);
             output = dot_output handle (batch_count * blocks);
             grid = (blocks, 1, batch_count);
             threads = (DOT_NB, 1, 1)
         in dot_copy_back handle hip output batch_count
              [Launch_dot (Dot_kernel_gfx942_float_double DOT_NB) grid threads (args output),
               Launch_reduction_kernel_part2 DOT_NB DOT_NELEM (batch_count, 1, 1) threads
                 blocks output]
       else
         let blocks = rocblas_reduction_kernel_block_count n (NB * WIN);
             batches = getBatchGridDim handle batch_count;
             grid = (blocks, 1, batches);
             threads = (NB, 1, 1);
             output = dot_output handle (batch_count * blocks);
             kernel = (if distinct_operands then
                         (if incx = 1 \<and> incy = 1 then Dot_kernel_inc1 False NB WIN
                          else Dot_kernel False NB WIN)
                       else Dot_kernel_magsq False NB WIN)
         in dot_copy_back handle hip output batch_count
              ([Launch_dot kernel grid threads (args output)]
               @ (if blocks > 1
                  then [Launch_reduction_kernel_part2 NB WIN (batch_count, 1, 1) threads
                          blocks output]
                  else [])))"

section \<open>Dot product: device side\<close>

text \<open>
  Device code computes with a type \<open>'a\<close> that has a zero, an addition and a multiplication and
  nothing else: no law of arithmetic is built into the model.  Conjugation \<open>conj\<close> is the
  parameter \<open>cj\<close>.  The conversions \<open>V(...)\<close> and \<open>T(...)\<close> between the element type and
  the accumulator type are the identity (\<open>T = V\<close>).  Device memory holding \<open>x\<close> and \<open>y\<close> is
  a function \<open>mem\<close> from element addresses to values; the kernels only read it.
\<close>

datatype loc = Results int | Workspace int

type_synonym 'a dot_state = "loc \<Rightarrow> 'a"

fun out_loc :: "out_ptr \<Rightarrow> int \<Rightarrow> loc" where
  "out_loc Out_results b = Results b"
| "out_loc (Out_workspace off) b = Workspace (off + b)"

definition apply_write :: "'a dot_state \<Rightarrow> loc \<times> 'a \<Rightarrow> 'a dot_state" where
  "apply_write st w = st(fst w := snd w)"

text \<open>
  \<open>rocblas_dot_save_sum<ONE_BLOCK>\<close>, executed by thread 0 of a block with the block's sum:
  the store to \<open>out[batch]\<close> or to \<open>workspace[blockIdx.x + batch * gridDim.x]\<close>.
\<close>

definition rocblas_dot_save_sum ::
  "bool \<Rightarrow> int \<Rightarrow> int \<Rightarrow> out_ptr \<Rightarrow> 'a \<Rightarrow> int \<Rightarrow> loc \<times> 'a" where
  "rocblas_dot_save_sum ONE_BLOCK gridDim_x blockIdx_x out acc batch =
     (if ONE_BLOCK \<or> gridDim_x = 1 then (out_loc out batch, acc)
      else (Workspace (blockIdx_x + batch * gridDim_x), acc))"

text \<open>
  Modelled from the spec: \<open>rocblas_wavefront_reduce\<close> and \<open>rocblas_dot_block_reduce\<close> (not in
  the sources at hand), section 4.1: a logarithmic tree reduction in which each lane combines
  its value with a partner at a fixed offset, halving the offset each step, the sum being
  visible to lane 0; block-wide, the group sums are written to shared scratch and a second
  logarithmic reduction combines them.  The argument lists the lanes' values in lane order.
\<close>

function wavefront_reduce :: "'a::{zero,plus} list \<Rightarrow> 'a" where
  "wavefront_reduce [] = 0"
| "wavefront_reduce [v] = v"
| "wavefront_reduce (v # w # vs) =
     wavefront_reduce (map (\<lambda>l. (v # w # vs) ! l + (v # w # vs) ! (l + length (v # w # vs) div 2))
                           [0..<length (v # w # vs) div 2])"
  by pat_completeness auto
termination
  by (relation "measure length") auto

definition rocblas_dot_block_reduce :: "int \<Rightarrow> 'a::{zero,plus} list \<Rightarrow> 'a" where
  "rocblas_dot_block_reduce WARP vals =
     wavefront_reduce
       (map (\<lambda>w. wavefront_reduce (take (nat WARP) (drop (w * nat WARP) vals)))
            [0..<length vals div nat WARP])"

text \<open>
  The loop \<open>for(int j = 0; j < WIN && i < bound; j++, i += inc) body\<close> shared by the kernels;
  the first numeric argument counts the iterations left.  The final \<open>i\<close> is part of the
  result because \<open>i\<close> is declared outside the batch loop of the kernels.
\<close>

fun win_loop :: "(int \<Rightarrow> 'a \<Rightarrow> 'a) \<Rightarrow> int \<Rightarrow> int \<Rightarrow> nat \<Rightarrow> int \<Rightarrow> 'a \<Rightarrow> int \<times> 'a" where
  "win_loop body bound inc 0 i acc = (i, acc)"
| "win_loop body bound inc (Suc k) i acc =
     (if i < bound then win_loop body bound inc k (i + inc) (body i acc) else (i, acc))"

text \<open>The batch loop under \<open>DEVICE_GRID_YZ_16BIT\<close>; without the macro the body runs once.\<close>

function yz_batches :: "int \<Rightarrow> int \<Rightarrow> int \<Rightarrow> int list" where
  "yz_batches limit batch_count batch =
     (if batch < batch_count \<and> 0 < limit
      then batch # yz_batches limit batch_count (batch + limit) else [])"
  by pat_completeness auto
termination
  by (relation "measure (\<lambda>(limit, batch_count, batch). nat (batch_count - batch))") auto

definition block_batches :: "build_config \<Rightarrow> int \<Rightarrow> int \<Rightarrow> int list" where
  "block_batches cfg batch_count blockIdx_z =
     (if DEVICE_GRID_YZ_16BIT cfg
      then yz_batches (c_YZ_grid_launch_limit cfg) batch_count blockIdx_z
      else [blockIdx_z])"

text \<open>
  One thread of \<open>rocblas_dot_kernel_inc1\<close>, \<open>rocblas_dot_kernel_inc1by2\<close>, \<open>rocblas_dot_kernel\<close>
  and \<open>rocblas_dot_kernel_magsq\<close> in one pass of the batch loop, from the value of \<open>i\<close> it
  enters with to the pair of \<open>i\<close> and \<open>sum\<close> (here \<open>acc\<close>) it hands to the block reduction.
\<close>

definition dot_kernel_inc1_thread ::
  "('a \<Rightarrow> 'a) \<Rightarrow> (int \<Rightarrow> 'a::{zero,plus,times}) \<Rightarrow> bool \<Rightarrow> int \<Rightarrow> int \<Rightarrow> dot_args \<Rightarrow> int \<Rightarrow> int
     \<Rightarrow> int \<Rightarrow> int \<times> 'a" where
  "dot_kernel_inc1_thread cj mem ONE_BLOCK NB WIN a gridDim_x batch i =
     (let x = load_ptr_batch (a_xa a) batch (a_shiftx a) (a_stridex a);
          y = load_ptr_batch (a_ya a) batch (a_shifty a) (a_stridey a);
          inc = (if \<not> ONE_BLOCK then NB * gridDim_x else NB)
      in win_loop (\<lambda>i acc. acc + mem (y + i) * (if a_CONJ a then cj (mem (x + i)) else mem (x + i)))
           (a_n a) inc (nat WIN) i 0)"

definition dot_kernel_inc1by2_thread ::
  "('a \<Rightarrow> 'a) \<Rightarrow> (int \<Rightarrow> 'a::{zero,plus,times}) \<Rightarrow> bool \<Rightarrow> int \<Rightarrow> int \<Rightarrow> dot_args \<Rightarrow> int \<Rightarrow> int
     \<Rightarrow> int \<Rightarrow> int \<times> 'a" where
  "dot_kernel_inc1by2_thread cj mem ONE_BLOCK NB WIN a gridDim_x batch i =
     (let x = load_ptr_batch (a_xa a) batch (a_shiftx a) (a_stridex a);
          y = load_ptr_batch (a_ya a) batch (a_shifty a) (a_stridey a);
          inc = (if \<not> ONE_BLOCK then NB * gridDim_x else NB);
          term = (\<lambda>i. mem (y + i) * (if a_CONJ a then cj (mem (x + i)) else mem (x + i)))
      in if a_T a = Half \<or> a_T a = Bfloat16 \<or> a_T a = Float then
           (case win_loop (\<lambda>i acc. acc + term (i + 0) + term (i + 1))
                   (a_n a - 1) (inc * 2) (nat WIN) (i * 2) 0 of
              (i', acc) \<Rightarrow>
                (i', if a_n a mod 2 \<noteq> 0 \<and> i' = a_n a - 1 then acc + term i' else acc))
         else win_loop (\<lambda>i acc. acc + term i) (a_n a) inc (nat WIN) i 0)"

definition dot_kernel_thread ::
  "('a \<Rightarrow> 'a) \<Rightarrow> (int \<Rightarrow> 'a::{zero,plus,times}) \<Rightarrow> bool \<Rightarrow> int \<Rightarrow> int \<Rightarrow> dot_args \<Rightarrow> int \<Rightarrow> int
     \<Rightarrow> int \<Rightarrow> int \<times> 'a" where
  "dot_kernel_thread cj mem ONE_BLOCK NB WIN a gridDim_x batch i =
     (let x = load_ptr_batch (a_xa a) batch (a_shiftx a) (a_stridex a);
          y = load_ptr_batch (a_ya a) batch (a_shifty a) (a_stridey a);
          inc = NB * gridDim_x
      in win_loop (\<lambda>i acc. acc + mem (y + i * a_incy a)
                             * (if a_CONJ a then cj (mem (x + i * a_incx a))
                                else mem (x + i * a_incx a)))
           (a_n a) inc (nat WIN) i 0)"

definition dot_kernel_magsq_thread ::
  "('a \<Rightarrow> 'a) \<Rightarrow> (int \<Rightarrow> 'a::{zero,plus,times}) \<Rightarrow> bool \<Rightarrow> int \<Rightarrow> int \<Rightarrow> dot_args \<Rightarrow> int \<Rightarrow> int
     \<Rightarrow> int \<Rightarrow> int \<times> 'a" where
  "dot_kernel_magsq_thread cj mem ONE_BLOCK NB WIN a gridDim_x batch i =
     (let x = load_ptr_batch (a_xa a) batch (a_shiftx a) (a_stridex a);
          inc = NB * gridDim_x
      in win_loop (\<lambda>i acc. let idx = i * a_incx a
                           in acc + mem (x + idx) * (if a_CONJ a then cj (mem (x + idx))
                                                     else mem (x + idx)))
           (a_n a) inc (nat WIN) i 0)"

text \<open>
  A block of these kernels: every thread starts from its \<open>i\<close>, and for each batch of the
  block's batch loop the threads' sums are reduced and thread 0 saves the result.  The list
  \<open>is\<close> holds the current \<open>i\<close> of the threads in thread order.
\<close>

fun dot_block_batches ::
  "(int \<Rightarrow> int \<Rightarrow> int \<times> 'a) \<Rightarrow> ('a list \<Rightarrow> 'a) \<Rightarrow> ('a \<Rightarrow> int \<Rightarrow> loc \<times> 'a) \<Rightarrow> int list
     \<Rightarrow> int list \<Rightarrow> (loc \<times> 'a) list" where
  "dot_block_batches thread reduce save [] is = []"
| "dot_block_batches thread reduce save (batch # batches) is =
     (let rs = map (thread batch) is
      in save (reduce (map snd rs)) batch
         # dot_block_batches thread reduce save batches (map fst rs))"

definition dot_loop_block ::
  "build_config \<Rightarrow> int \<Rightarrow> (int \<Rightarrow> int \<Rightarrow> int \<Rightarrow> int \<times> 'a::{zero,plus}) \<Rightarrow> bool \<Rightarrow> int \<Rightarrow> dot_args
     \<Rightarrow> int \<Rightarrow> int \<Rightarrow> int \<Rightarrow> int \<Rightarrow> (loc \<times> 'a) list" where
  "dot_loop_block cfg warpSize thread ONE_BLOCK NB a gridDim_x blockDim_x
       blockIdx_x blockIdx_z =
     dot_block_batches (thread gridDim_x)
       (rocblas_dot_block_reduce (if warpSize = WARP_32 then WARP_32 else WARP_64))
       (rocblas_dot_save_sum ONE_BLOCK gridDim_x blockIdx_x (a_out a))
       (block_batches cfg (a_batch_count a) blockIdx_z)
       (map (\<lambda>threadIdx_x. if \<not> ONE_BLOCK then blockIdx_x * NB + threadIdx_x else threadIdx_x)
            [0..blockDim_x - 1])"

text \<open>
  \<open>rocblas_dot_kernel_gfx942_float_double\<close>: no batch loop, the first four strides unrolled,
  then the loop for the threads that did not take the unrolled branch.  The stride
  \<open>NB * gridDim.x\<close> is positive in every launch; the loop is guarded by that.
\<close>

function gfx942_tail_loop :: "(int \<Rightarrow> 'a) \<Rightarrow> int \<Rightarrow> int \<Rightarrow> int \<Rightarrow> 'a::plus \<Rightarrow> 'a" where
  "gfx942_tail_loop term n stride i acc =
     (if i < 4 * stride \<and> i < n \<and> 0 < stride
      then gfx942_tail_loop term n stride (i + stride) (acc + term i) else acc)"
  by pat_completeness auto
termination
  by (relation "measure (\<lambda>(term, n, stride, i, acc). nat (n - i))") auto

definition dot_kernel_gfx942_thread ::
  "(int \<Rightarrow> 'a::{zero,plus,times}) \<Rightarrow> int \<Rightarrow> dot_args \<Rightarrow> int \<Rightarrow> int \<Rightarrow> int \<Rightarrow> 'a" where
  "dot_kernel_gfx942_thread mem NB a gridDim_x batch i =
     (let x = load_ptr_batch (a_xa a) batch (a_shiftx a) (a_stridex a);
          y = load_ptr_batch (a_ya a) batch (a_shifty a) (a_stridey a);
          stride = NB * gridDim_x;
          term = (\<lambda>i. mem (y + i * a_incy a) * mem (x + i * a_incx a))
      in if i + 3 * stride < a_n a
         then gfx942_tail_loop term (a_n a) stride (i + 4 * stride)
                (0 + term i + term (i + stride) + term (i + 2 * stride) + term (i + 3 * stride))
         else gfx942_tail_loop term (a_n a) stride i 0)"

definition dot_gfx942_block ::
  "int \<Rightarrow> (int \<Rightarrow> 'a::{zero,plus,times}) \<Rightarrow> int \<Rightarrow> dot_args \<Rightarrow> int \<Rightarrow> int \<Rightarrow> int \<Rightarrow> int
     \<Rightarrow> (loc \<times> 'a) list" where
  "dot_gfx942_block warpSize mem NB a gridDim_x blockDim_x blockIdx_x blockIdx_z =
     [rocblas_dot_save_sum False gridDim_x blockIdx_x (a_out a)
        (rocblas_dot_block_reduce (if warpSize = WARP_32 then WARP_32 else WARP_64)
           (map (\<lambda>threadIdx_x. dot_kernel_gfx942_thread mem NB a gridDim_x blockIdx_z
                                 (blockIdx_x * NB + threadIdx_x))
                [0..blockDim_x - 1]))
        blockIdx_z]"

text \<open>
  \<open>rocblas_dot_batched_4_kernel\<close>: the threads with the same \<open>threadIdx.y\<close> form one wavefront
  and work on batch \<open>blockIdx.x * NB_Y + threadIdx.y\<close>; rows whose batch is out of range return.
\<close>

function batched_4_loop :: "(int \<Rightarrow> 'a) \<Rightarrow> int \<Rightarrow> int \<Rightarrow> int \<Rightarrow> 'a::plus \<Rightarrow> 'a" where
  "batched_4_loop term n WARP tid acc =
     (if tid < n \<and> 0 < WARP then batched_4_loop term n WARP (tid + WARP) (acc + term tid)
      else acc)"
  by pat_completeness auto
termination
  by (relation "measure (\<lambda>(term, n, WARP, tid, acc). nat (n - tid))") auto

definition dot_batched_4_thread ::
  "('a \<Rightarrow> 'a) \<Rightarrow> (int \<Rightarrow> 'a::{zero,plus,times}) \<Rightarrow> int \<Rightarrow> dot_args \<Rightarrow> int \<Rightarrow> int \<Rightarrow> 'a" where
  "dot_batched_4_thread cj mem WARP a batch threadIdx_x =
     (let x = load_ptr_batch (a_xa a) batch (a_shiftx a) (a_stridex a);
          y = load_ptr_batch (a_ya a) batch (a_shifty a) (a_stridey a)
      in batched_4_loop
           (\<lambda>tid. (if a_CONJ a then cj (mem (x + tid * a_incx a)) else mem (x + tid * a_incx a))
                   * mem (y + tid * a_incy a))
           (a_n a) WARP threadIdx_x 0)"

definition dot_batched_4_block ::
  "('a \<Rightarrow> 'a) \<Rightarrow> (int \<Rightarrow> 'a::{zero,plus,times}) \<Rightarrow> int \<Rightarrow> int \<Rightarrow> dot_args \<Rightarrow> int \<Rightarrow> int \<Rightarrow> int
     \<Rightarrow> (loc \<times> 'a) list" where
  "dot_batched_4_block cj mem WARP NB_Y a blockDim_x blockDim_y blockIdx_x =
     concat (map (\<lambda>threadIdx_y.
                    let batch = blockIdx_x * NB_Y + threadIdx_y
                    in if batch \<ge> a_batch_count a then []
                       else [(out_loc (a_out a) batch,
                               wavefront_reduce
                                  (map (dot_batched_4_thread cj mem WARP a batch)
                                       [0..blockDim_x - 1]))])
                 [0..blockDim_y - 1])"

text \<open>The writes of a whole launch: the blocks of the grid one after the other.\<close>

definition dot_kernel_writes ::
  "build_config \<Rightarrow> int \<Rightarrow> ('a \<Rightarrow> 'a) \<Rightarrow> (int \<Rightarrow> 'a::{zero,plus,times}) \<Rightarrow> dot_kernel_id
     \<Rightarrow> int \<times> int \<times> int \<Rightarrow> int \<times> int \<times> int \<Rightarrow> dot_args \<Rightarrow> (loc \<times> 'a) list" where
  "dot_kernel_writes cfg warpSize cj mem kern grid threads a =
     (case (grid, threads) of ((gridDim_x, gridDim_y, gridDim_z), (blockDim_x, blockDim_y, blockDim_z)) \<Rightarrow>
        concat (map (\<lambda>blockIdx_z. concat (map (\<lambda>blockIdx_x.
          (case kern of
             Dot_batched_4_kernel WARP NB_Y \<Rightarrow>
               dot_batched_4_block cj mem WARP NB_Y a blockDim_x blockDim_y blockIdx_x
           | Dot_kernel_inc1 ONE_BLOCK NB WIN \<Rightarrow>
               dot_loop_block cfg warpSize (dot_kernel_inc1_thread cj mem ONE_BLOCK NB WIN a)
                 ONE_BLOCK NB a gridDim_x blockDim_x blockIdx_x blockIdx_z
           | Dot_kernel_inc1by2 ONE_BLOCK NB WIN \<Rightarrow>
               dot_loop_block cfg warpSize (dot_kernel_inc1by2_thread cj mem ONE_BLOCK NB WIN a)
                 ONE_BLOCK NB a gridDim_x blockDim_x blockIdx_x blockIdx_z
           | Dot_kernel ONE_BLOCK NB WIN \<Rightarrow>
               dot_loop_block cfg warpSize (dot_kernel_thread cj mem ONE_BLOCK NB WIN a)
                 ONE_BLOCK NB a gridDim_x blockDim_x blockIdx_x blockIdx_z
           | Dot_kernel_gfx942_float_double NB \<Rightarrow>
               dot_gfx942_block warpSize mem NB a gridDim_x blockDim_x blockIdx_x blockIdx_z
           | Dot_kernel_magsq ONE_BLOCK NB WIN \<Rightarrow>
               dot_loop_block cfg warpSize (dot_kernel_magsq_thread cj mem ONE_BLOCK NB WIN a)
                 ONE_BLOCK NB a gridDim_x blockDim_x blockIdx_x blockIdx_z))
          [0..gridDim_x - 1])) [0..gridDim_z - 1]))"

text \<open>
  Modelled from the spec: \<open>rocblas_reduction_kernel_part2\<close> (not in the sources at hand),
  section 4.3, phase 2: a second kern sums the per-group partials for each batch element
  into the final scalar.  Block \<open>blockIdx.x\<close> of its grid finalizes batch \<open>blockIdx.x\<close>; the
  partials of a batch are the \<open>blocks\<close> consecutive workspace entries that
  \<open>rocblas_dot_save_sum\<close> wrote.
\<close>

definition reduction_kernel_part2_writes ::
  "'a::{zero,plus} dot_state \<Rightarrow> int \<Rightarrow> int \<Rightarrow> out_ptr \<Rightarrow> (loc \<times> 'a) list" where
  "reduction_kernel_part2_writes st gridDim_x blocks out =
     map (\<lambda>batch. (out_loc out batch,
                     foldl (+) 0 (map (\<lambda>k. st (Workspace (k + batch * blocks))) [0..blocks - 1])))
         [0..gridDim_x - 1]"

text \<open>
  The effect of the host actions on \<open>results\<close> and \<open>workspace\<close>.  The memset and the host
  loop of the quick return store zero in \<open>results[0 .. batch_count - 1]\<close>; the copy back reads
  \<open>output[0 .. batch_count - 1]\<close>.
\<close>

fun exec_action ::
  "build_config \<Rightarrow> int \<Rightarrow> ('a \<Rightarrow> 'a) \<Rightarrow> (int \<Rightarrow> 'a::{zero,plus,times}) \<Rightarrow> 'a dot_state
     \<Rightarrow> host_action \<Rightarrow> 'a dot_state" where
  "exec_action cfg warpSize cj mem st (Launch_dot kern grid threads a) =
     foldl apply_write st (dot_kernel_writes cfg warpSize cj mem kern grid threads a)"
| "exec_action cfg warpSize cj mem st (Launch_reduction_kernel_part2 NB WIN grid threads blocks out) =
     foldl apply_write st (reduction_kernel_part2_writes st (fst grid) blocks out)"
| "exec_action cfg warpSize cj mem st (Memset_results_zero batch_count) =
     (\<lambda>l. case l of Results i \<Rightarrow> if 0 \<le> i \<and> i < batch_count then 0 else st l
               | Workspace k \<Rightarrow> st l)"
| "exec_action cfg warpSize cj mem st (Host_store_results_zero batch_count) =
     (\<lambda>l. case l of Results i \<Rightarrow> if 0 \<le> i \<and> i < batch_count then 0 else st l
               | Workspace k \<Rightarrow> st l)"
| "exec_action cfg warpSize cj mem st (Memcpy_results_from out batch_count) =
     (\<lambda>l. case l of Results i \<Rightarrow> if 0 \<le> i \<and> i < batch_count then st (out_loc out i) else st l
               | Workspace k \<Rightarrow> st l)"
| "exec_action cfg warpSize cj mem st Stream_synchronize = st"

text \<open>
  A call of the launcher: the status it returns and the state its actions leave.  The device
  runs with the warp size the handle reports.
\<close>

definition rocblas_dot ::
  "build_config \<Rightarrow> hip_runtime \<Rightarrow> ('a \<Rightarrow> 'a) \<Rightarrow> (int \<Rightarrow> 'a::{zero,plus,times}) \<Rightarrow> int \<Rightarrow> bool
     \<Rightarrow> elem_type \<Rightarrow> elem_type \<Rightarrow> rocblas_handle
     \<Rightarrow> int \<Rightarrow> operand \<Rightarrow> int \<Rightarrow> int \<Rightarrow> int \<Rightarrow> operand \<Rightarrow> int \<Rightarrow> int \<Rightarrow> int \<Rightarrow> int
     \<Rightarrow> 'a dot_state \<Rightarrow> rocblas_status \<times> 'a dot_state" where
  "rocblas_dot cfg hip cj mem NB CONJ T V handle
       n x offsetx incx stridex y offsety incy stridey batch_count st =
     (case rocblas_internal_dot_launcher cfg hip NB CONJ T V handle
             n x offsetx incx stridex y offsety incy stridey batch_count of
        (status, acts) \<Rightarrow>
          (status, foldl (exec_action cfg (getWarpSize handle) cj mem) st acts))"

text \<open>Observers of the action list used to state the dispatch properties.\<close>

fun is_launch :: "host_action \<Rightarrow> bool" where
  "is_launch (Launch_dot kern grid threads a) = True"
| "is_launch (Launch_reduction_kernel_part2 NB WIN grid threads blocks out) = True"
| "is_launch _ = False"

fun is_part2 :: "host_action \<Rightarrow> bool" where
  "is_part2 (Launch_reduction_kernel_part2 NB WIN grid threads blocks out) = True"
| "is_part2 _ = False"

section \<open>Matrix kernels: memory, scalars and effects\<close>

text \<open>
  The matrix kernels (ger, gemv, hbmv, hpmv) read and write one device memory \<open>mem\<close>, a
  function from element addresses to values, which holds \<open>A\<close>, \<open>x\<close>, \<open>y\<close> and the scalars
  that live on the device.  A thread is modelled by the list of writes it performs, in
  program order; a plain store and \<open>atomicAdd\<close> are different effects.  Every value a thread
  reads is read from the memory as it is when the kernel starts: in each kernel below a
  thread reads only cells that no other thread of the launch writes, provided the operands
  do not overlap.
\<close>

datatype 'a effect = Store int 'a | Atomic_add int 'a

fun apply_effect :: "(int \<Rightarrow> 'a::plus) \<Rightarrow> 'a effect \<Rightarrow> (int \<Rightarrow> 'a)" where
  "apply_effect mem (Store a v) = mem(a := v)"
| "apply_effect mem (Atomic_add a v) = mem(a := mem a + v)"


fun effect_addr :: "'a effect \<Rightarrow> int" where
  "effect_addr (Store a v) = a"
| "effect_addr (Atomic_add a v) = a"

text \<open>
  A scalar argument \<open>alpha_device_host\<close>: the value itself (host pointer mode, the launcher
  passes \<open>*alpha\<close>) or a device pointer (device pointer mode).

  Modelled from the spec: \<open>load_scalar\<close> (not in the sources at hand), section 3: a scalar is
  resolved into a single effective value, or, when it lives on the device with a stride, into
  one value per batch element.
\<close>

datatype 'a scalar_arg = Scalar_value 'a | Scalar_ptr int

fun load_scalar :: "(int \<Rightarrow> 'a) \<Rightarrow> 'a scalar_arg \<Rightarrow> int \<Rightarrow> int \<Rightarrow> 'a" where
  "load_scalar mem (Scalar_value v) batch stride = v"
| "load_scalar mem (Scalar_ptr p) batch stride = mem (p + batch * stride)"

text \<open>
  The threads of a launch, block after block: \<open>f\<close> gives the effects of the thread
  \<open>(threadIdx.x, threadIdx.y)\<close> of block \<open>(blockIdx.x, blockIdx.y, blockIdx.z)\<close>.
\<close>

definition launch_effects ::
  "int \<times> int \<times> int \<Rightarrow> int \<times> int \<Rightarrow> (int \<times> int \<times> int \<Rightarrow> int \<times> int \<Rightarrow> 'e list) \<Rightarrow> 'e list" where
  "launch_effects grid threads f =
     (case (grid, threads) of ((gridDim_x, gridDim_y, gridDim_z), (blockDim_x, blockDim_y)) \<Rightarrow>
        concat (map (\<lambda>blockIdx_z. concat (map (\<lambda>blockIdx_y. concat (map (\<lambda>blockIdx_x.
          concat (map (\<lambda>threadIdx_y. concat (map (\<lambda>threadIdx_x.
            f (blockIdx_x, blockIdx_y, blockIdx_z) (threadIdx_x, threadIdx_y))
          [0..blockDim_x - 1])) [0..blockDim_y - 1]))
        [0..gridDim_x - 1])) [0..gridDim_y - 1])) [0..gridDim_z - 1]))"

section \<open>Rank-1 update (ger)\<close>

record 'a ger_args =
  g_m :: int
  g_n :: int
  g_alpha :: "'a scalar_arg"
  g_stride_alpha :: int
  g_xa :: operand
  g_shiftx :: int
  g_incx :: int
  g_stridex :: int
  g_ya :: operand
  g_shifty :: int
  g_incy :: int
  g_stridey :: int
  g_Aa :: operand
  g_shifta :: int
  g_lda :: int
  g_strideA :: int
  g_batch_count :: int






datatype ger_kernel_id =
    Ger_double_buffered_kernel int int int
  | Sger_gfx942_kernel int
  | Sger_kernel int
  | Ger_kernel int int int

datatype 'a ger_launch = Launch_ger ger_kernel_id "int \<times> int \<times> int" "int \<times> int" "'a ger_args"

text \<open>
  \<open>rocblas_internal_ger_launcher<CONJ, T, U, V, W>\<close>.  \<open>alpha\<close> is a pointer: in device pointer
  mode the kernels get it, in host pointer mode they get \<open>*alpha\<close>, read from host memory
  \<open>host_mem\<close>.
\<close>

definition rocblas_internal_ger_launcher ::
  "(int \<Rightarrow> 'a) \<Rightarrow> elem_type \<Rightarrow> rocblas_handle \<Rightarrow> int \<Rightarrow> int \<Rightarrow> int \<Rightarrow> int
     \<Rightarrow> operand \<Rightarrow> int \<Rightarrow> int \<Rightarrow> int \<Rightarrow> operand \<Rightarrow> int \<Rightarrow> int \<Rightarrow> int
     \<Rightarrow> operand \<Rightarrow> int \<Rightarrow> int \<Rightarrow> int \<Rightarrow> int \<Rightarrow> rocblas_status \<times> 'a ger_launch list" where
  "rocblas_internal_ger_launcher host_mem T handle m n alpha stride_alpha
       x offsetx incx stridex y offsety incy stridey A offsetA lda strideA batch_count =
     (if m = 0 \<or> n = 0 \<or> batch_count = 0 then (Status_success, [])
      else
        let shiftx = (if incx < 0 then offsetx - incx * (m - 1) else offsetx);
            shifty = (if incy < 0 then offsety - incy * (n - 1) else offsety);
            is_float = (T = Float);
            is_double = (T = Double);
            is_complex_float = (T = Float_complex);
            batches = getBatchGridDim handle batch_count;
            is_gfx90a = (getArch handle = 910);
            is_gfx942 = (getArch handle = 942);
            alpha_arg = (if pointer_mode handle = Pointer_mode_device then Scalar_ptr alpha
                         else Scalar_value (host_mem alpha));
            args = \<lparr>g_m = m, g_n = n, g_alpha = alpha_arg, g_stride_alpha = stride_alpha,
                     g_xa = x, g_shiftx = shiftx, g_incx = incx, g_stridex = stridex,
                     g_ya = y, g_shifty = shifty, g_incy = incy, g_stridey = stridey,
                     g_Aa = A, g_shifta = offsetA, g_lda = lda, g_strideA = strideA,
                     g_batch_count = batch_count\<rparr>
        in
        if is_gfx90a \<and> m > 2000 \<and> m = n
           \<and> ((m mod 64 = 0 \<and> (is_double \<or> is_complex_float)) \<or> (m mod 128 = 0 \<and> is_float)) then
          let DIM_X = (if is_float then 128 else 64);
              DIM_Y = (if is_float then 8 else 16);
              elements_per_thread = DIM_X div (2 * DIM_Y);
              block_x = m div DIM_X;
              block_y = n div DIM_X
          in (Status_success,
              [Launch_ger (Ger_double_buffered_kernel DIM_X DIM_Y elements_per_thread)
                 (block_x, block_y, batches) (DIM_X, DIM_Y) args])
        else if is_float \<and> m > 1024 then
          (if is_gfx942 then
             let DIM_X = 256;
                 blocksX = (m - 1) div (DIM_X * 2) + 1
             in (Status_success,
                 [Launch_ger (Sger_gfx942_kernel DIM_X) (blocksX, n, batch_count) (DIM_X, 1) args])
           else
             let DIM_X = 1024
             in (Status_success,
                 [Launch_ger (Sger_kernel DIM_X) (n, 1, batches) (DIM_X, 1) args]))
        else
          let DIM_X = 32;
              DIM_Y = 32;
              WIN = 2;
              blocksX = (m - 1) div DIM_X + 1;
              blocksY = (n - 1) div (DIM_Y * WIN) + 1
          in (Status_success,
              [Launch_ger (Ger_kernel DIM_X DIM_Y WIN) (blocksX * blocksY, 1, batches)
                 (DIM_X, DIM_Y) args]))"



section \<open>Matrix-vector product (gemv)\<close>

text \<open>
  The kernels of \<open>gemv_device.hpp\<close> that the claims are about; their launcher is not part of
  the sources at hand, so grid and block dimensions are parameters.  The conversions between
  \<open>Ti\<close>, \<open>Tex\<close> and \<open>To\<close> are the identity.  \<open>cond_load_ptr_batch\<close> is not in the sources either:
  it is the parameter \<open>cond_ptr\<close> of the kernels that call it.
\<close>

record 'a gemv_args =
  v_m :: int
  v_n :: int
  v_alpha :: "'a scalar_arg"
  v_stride_alpha :: int
  v_Aa :: operand
  v_shifta :: int
  v_lda :: int
  v_strideA :: int
  v_xa :: operand
  v_shiftx :: int
  v_incx :: int
  v_stridex :: int
  v_beta :: "'a scalar_arg"
  v_stride_beta :: int
  v_ya :: operand
  v_shifty :: int
  v_incy :: int
  v_stridey :: int
  v_batch_count :: int

text \<open>
  The accumulation groups of \<open>rocblas_gemvn_kernel_calc\<close>: for \<open>k = 0..3\<close>, \<open>res_A[k]\<close> gets the
  four products of one column group, inside the nested tests \<open>ind < m\<close>,
  \<open>ind + DIM_X < m\<close>, ..., \<open>ind + k * DIM_X < m\<close>.  \<open>coloff c\<close> is the offset of column \<open>col + c\<close>
  and \<open>res_x c\<close> the value of \<open>res_x[c]\<close>.
\<close>

definition gemvn_accumulate ::
  "(int \<Rightarrow> 'a::{zero,plus,times}) \<Rightarrow> int \<Rightarrow> int \<Rightarrow> int \<Rightarrow> int \<Rightarrow> (int \<Rightarrow> int) \<Rightarrow> (int \<Rightarrow> 'a)
     \<Rightarrow> 'a list \<Rightarrow> 'a list" where
  "gemvn_accumulate mem A ind DIM_X m coloff res_x res_A =
     map (\<lambda>k. if list_all (\<lambda>j. ind + j * DIM_X < m) [0..k]
               then foldl (\<lambda>r c. r + mem (A + (ind + k * DIM_X + coloff c)) * res_x c)
                      (res_A ! nat k) [0..3]
               else res_A ! nat k)
         [0..3]"

function gemvn_main_loop ::
  "(int \<Rightarrow> 'a::{zero,plus,times}) \<Rightarrow> int \<Rightarrow> int \<Rightarrow> int \<Rightarrow> int \<Rightarrow> int \<Rightarrow> int \<Rightarrow> int \<Rightarrow> int \<Rightarrow> int
     \<Rightarrow> int \<Rightarrow> 'a list \<Rightarrow> int \<times> 'a list" where
  "gemvn_main_loop mem DIM_X DIM_Y m bound A lda x incx ind col res_A =
     (if col < bound \<and> 0 < DIM_Y
      then gemvn_main_loop mem DIM_X DIM_Y m bound A lda x incx ind (col + 4 * DIM_Y)
             (gemvn_accumulate mem A ind DIM_X m (\<lambda>c. (col + c) * lda)
                (\<lambda>c. mem (x + (col + c) * incx)) res_A)
      else (col, res_A))"
  by pat_completeness auto
termination
  by (relation "measure (\<lambda>(mem, DIM_X, DIM_Y, m, bound, A, lda, x, incx, ind, col, res_A).
                           nat (bound - col))") auto

text \<open>
  The four partial sums \<open>res_A[0..3]\<close> of thread \<open>(tx, ty)\<close> before it writes them to shared
  memory (the branch \<open>alpha != 0\<close>).
\<close>

definition gemvn_res_A ::
  "(int \<Rightarrow> 'a::{zero,plus,times}) \<Rightarrow> int \<Rightarrow> int \<Rightarrow> int \<Rightarrow> int \<Rightarrow> int \<Rightarrow> int \<Rightarrow> int \<Rightarrow> int \<Rightarrow> int
     \<Rightarrow> int \<Rightarrow> int \<Rightarrow> 'a list" where
  "gemvn_res_A mem DIM_X DIM_Y m n A lda x incx blockIdx_x tx ty =
     (let ind = blockIdx_x * DIM_X * 4 + tx;
          n_tail = n mod (4 * DIM_Y)
      in case gemvn_main_loop mem DIM_X DIM_Y m (n - n_tail) A lda x incx ind (ty * 4) [0, 0, 0, 0] of
           (col, res_A) \<Rightarrow>
             if n_tail > 0
             then gemvn_accumulate mem A ind DIM_X m
                    (\<lambda>c. (col + c) * lda * (if col + c < n then 1 else 0))
                    (\<lambda>c. if list_all (\<lambda>j. col + j < n) [0..c] then mem (x + (col + c) * incx) else 0)
                    res_A
             else res_A)"

text \<open>
  \<open>rocblas_gemvn_kernel_calc<DIM_X, DIM_Y, T_Index>\<close> (the overload for the types other than
  \<open>rocblas_double_complex\<close>), thread \<open>(threadIdx.x, threadIdx.y)\<close> of block \<open>blockIdx.x\<close>.  After
  the barrier, \<open>sdata[thread_id + DIM_X * 4 * i]\<close> is entry \<open>thread_id / DIM_X\<close> of the partial
  sums of thread \<open>(thread_id % DIM_X, i)\<close>.
\<close>

definition rocblas_gemvn_kernel_calc ::
  "(int \<Rightarrow> 'a::{zero,plus,times}) \<Rightarrow> int \<Rightarrow> int \<Rightarrow> int \<Rightarrow> int \<Rightarrow> 'a \<Rightarrow> int \<Rightarrow> int \<Rightarrow> int \<Rightarrow> int
     \<Rightarrow> 'a \<Rightarrow> int \<Rightarrow> int \<Rightarrow> int \<Rightarrow> int \<Rightarrow> int \<Rightarrow> 'a effect list" where
  "rocblas_gemvn_kernel_calc mem DIM_X DIM_Y m n alpha A lda x incx beta y incy
       blockIdx_x threadIdx_x threadIdx_y =
     (let thread_id = threadIdx_x + threadIdx_y * DIM_X
      in if alpha = 0 then
           (if thread_id < DIM_X * 4 then
              (let ind = blockIdx_x * DIM_X * 4 + thread_id
               in if ind < m
                  then [Store (y + ind * incy)
                          (if beta \<noteq> 0 then beta * mem (y + ind * incy) else 0)]
                  else [])
            else [])
         else
           (if thread_id < DIM_X * 4 then
              (let sdata = (\<lambda>i. gemvn_res_A mem DIM_X DIM_Y m n A lda x incx blockIdx_x
                                   (thread_id mod DIM_X) i ! nat (thread_id div DIM_X));
                   total = foldl (\<lambda>r i. r + sdata i) (sdata 0) [1..DIM_Y - 1];
                   ind = blockIdx_x * DIM_X * 4 + thread_id
               in if ind < m
                  then [Store (y + ind * incy)
                          (if beta \<noteq> 0 then alpha * total + beta * mem (y + ind * incy)
                           else alpha * total)]
                  else [])
            else []))"

text \<open>
  \<open>rocblas_gemvn_kernel<DIM_X, DIM_Y, T_Index>\<close>, one thread in one pass of the batch loop.
\<close>

definition rocblas_gemvn_kernel ::
  "('a \<Rightarrow> operand \<Rightarrow> int \<Rightarrow> int \<Rightarrow> int \<Rightarrow> int) \<Rightarrow> (int \<Rightarrow> 'a::{zero,one,plus,times}) \<Rightarrow> int \<Rightarrow> int
     \<Rightarrow> 'a gemv_args \<Rightarrow> int \<times> int \<Rightarrow> int \<Rightarrow> int \<Rightarrow> int \<Rightarrow> int \<Rightarrow> 'a effect list" where
  "rocblas_gemvn_kernel cond_ptr mem DIM_X DIM_Y v blockDim blockIdx_x threadIdx_x threadIdx_y batch =
     (if DIM_X * DIM_Y \<noteq> fst blockDim * snd blockDim then []
      else
        let alpha = load_scalar mem (v_alpha v) batch (v_stride_alpha v);
            beta = load_scalar mem (v_beta v) batch (v_stride_beta v)
        in if alpha = 0 \<and> beta = 1 then []
           else
             let A = cond_ptr alpha (v_Aa v) batch (v_shifta v) (v_strideA v);
                 x = cond_ptr alpha (v_xa v) batch (v_shiftx v) (v_stridex v);
                 y = load_ptr_batch (v_ya v) batch (v_shifty v) (v_stridey v)
             in rocblas_gemvn_kernel_calc mem DIM_X DIM_Y (v_m v) (v_n v) alpha A (v_lda v)
                  x (v_incx v) beta y (v_incy v) blockIdx_x threadIdx_x threadIdx_y)"

text \<open>
  Modelled from the spec: \<open>rocblas_sum_reduce\<close> (not in the sources at hand), section 4.1, the
  logarithmic tree reduction over the block's shared array; its sum ends in \<open>sdata[0]\<close>.
\<close>

definition rocblas_sum_reduce :: "'a::{zero,plus} list \<Rightarrow> 'a" where
  "rocblas_sum_reduce sdata = wavefront_reduce sdata"

text \<open>
  \<open>rocblas_gemvt_kernel_calc<CONJ, NB_X>\<close>: block \<open>blockIdx.x\<close> computes column \<open>col\<close>; thread
  \<open>tx\<close> forms the partial sum \<open>res\<close>, the block reduces the partial sums, thread 0 writes.
\<close>

definition gemvt_res ::
  "('a \<Rightarrow> 'a) \<Rightarrow> (int \<Rightarrow> 'a::{zero,plus,times}) \<Rightarrow> bool \<Rightarrow> int \<Rightarrow> int \<Rightarrow> int \<Rightarrow> int \<Rightarrow> int \<Rightarrow> int
     \<Rightarrow> int \<Rightarrow> int \<Rightarrow> 'a" where
  "gemvt_res cj mem CONJ NB_X m A0 lda x incx col tx =
     (let A = (if tx < m then A0 + tx else A0) + col * lda;
          m_full = (m div NB_X) * NB_X;
          term = (\<lambda>i. (if CONJ then cj (mem (A + i)) else mem (A + i)) * mem (x + (tx + i) * incx));
          res = foldl (\<lambda>r k. r + term (k * NB_X)) 0 [0..m div NB_X - 1]
      in if tx + m_full < m then res + term m_full else res)"

definition rocblas_gemvt_kernel_calc ::
  "('a \<Rightarrow> 'a) \<Rightarrow> (int \<Rightarrow> 'a::{zero,plus,times}) \<Rightarrow> bool \<Rightarrow> int \<Rightarrow> int \<Rightarrow> int \<Rightarrow> 'a \<Rightarrow> int \<Rightarrow> int
     \<Rightarrow> int \<Rightarrow> int \<Rightarrow> 'a \<Rightarrow> int \<Rightarrow> int \<Rightarrow> int \<Rightarrow> int \<Rightarrow> int \<Rightarrow> 'a effect list" where
  "rocblas_gemvt_kernel_calc cj mem CONJ NB_X m n alpha A lda x incx beta y incy
       blockDim_x blockIdx_x threadIdx_x =
     (let tx = threadIdx_x; col = blockIdx_x
      in if alpha = 0 then
           (if tx = 0
            then [Store (y + col * incy) (if beta \<noteq> 0 then beta * mem (y + col * incy) else 0)]
            else [])
         else
           (let sdata = (\<lambda>t. gemvt_res cj mem CONJ NB_X m A lda x incx col t);
                sdata0 = (if NB_X > 16 then rocblas_sum_reduce (map sdata [0..blockDim_x - 1])
                          else foldl (\<lambda>r i. r + sdata i) (sdata 0) [1..min m NB_X - 1])
            in if tx = 0
               then [Store (y + col * incy)
                       (if beta \<noteq> 0 then alpha * sdata0 + beta * mem (y + col * incy)
                        else alpha * sdata0)]
               else []))"

definition rocblas_gemvt_kernel ::
  "('a \<Rightarrow> operand \<Rightarrow> int \<Rightarrow> int \<Rightarrow> int \<Rightarrow> int) \<Rightarrow> ('a \<Rightarrow> 'a) \<Rightarrow> (int \<Rightarrow> 'a::{zero,one,plus,times})
     \<Rightarrow> bool \<Rightarrow> int \<Rightarrow> 'a gemv_args \<Rightarrow> int \<Rightarrow> int \<Rightarrow> int \<Rightarrow> int \<Rightarrow> 'a effect list" where
  "rocblas_gemvt_kernel cond_ptr cj mem CONJ NB_X v blockDim_x blockIdx_x threadIdx_x batch =
     (let alpha = load_scalar mem (v_alpha v) batch (v_stride_alpha v);
          beta = load_scalar mem (v_beta v) batch (v_stride_beta v)
      in if alpha = 0 \<and> beta = 1 then []
         else
           let A = cond_ptr alpha (v_Aa v) batch (v_shifta v) (v_strideA v);
               x = cond_ptr alpha (v_xa v) batch (v_shiftx v) (v_stridex v);
               y = load_ptr_batch (v_ya v) batch (v_shifty v) (v_stridey v)
           in rocblas_gemvt_kernel_calc cj mem CONJ NB_X (v_m v) (v_n v) alpha A (v_lda v)
                x (v_incx v) beta y (v_incy v) blockDim_x blockIdx_x threadIdx_x)"

text \<open>
  The launches of the two kernels for one batch: the threads of the grid one after the
  other, each with the effects of its pass for that batch.
\<close>

definition gemvn_kernel_effects ::
  "('a \<Rightarrow> operand \<Rightarrow> int \<Rightarrow> int \<Rightarrow> int \<Rightarrow> int) \<Rightarrow> (int \<Rightarrow> 'a::{zero,one,plus,times}) \<Rightarrow> int \<Rightarrow> int
     \<Rightarrow> 'a gemv_args \<Rightarrow> int \<Rightarrow> int \<times> int \<Rightarrow> int \<Rightarrow> 'a effect list" where
  "gemvn_kernel_effects cond_ptr mem DIM_X DIM_Y v gridDim_x blockDim batch =
     launch_effects (gridDim_x, 1, 1) blockDim
       (\<lambda>(blockIdx_x, blockIdx_y, blockIdx_z) (threadIdx_x, threadIdx_y).
          rocblas_gemvn_kernel cond_ptr mem DIM_X DIM_Y v blockDim blockIdx_x threadIdx_x
            threadIdx_y batch)"

definition gemvt_kernel_effects ::
  "('a \<Rightarrow> operand \<Rightarrow> int \<Rightarrow> int \<Rightarrow> int \<Rightarrow> int) \<Rightarrow> ('a \<Rightarrow> 'a) \<Rightarrow> (int \<Rightarrow> 'a::{zero,one,plus,times})
     \<Rightarrow> bool \<Rightarrow> int \<Rightarrow> 'a gemv_args \<Rightarrow> int \<Rightarrow> int \<Rightarrow> int \<Rightarrow> 'a effect list" where
  "gemvt_kernel_effects cond_ptr cj mem CONJ NB_X v gridDim_x blockDim_x batch =
     launch_effects (gridDim_x, 1, 1) (blockDim_x, 1)
       (\<lambda>(blockIdx_x, blockIdx_y, blockIdx_z) (threadIdx_x, threadIdx_y).
          rocblas_gemvt_kernel cond_ptr cj mem CONJ NB_X v blockDim_x blockIdx_x threadIdx_x batch)"

text \<open>
  What the claims call scaling \<open>y\<close> by \<open>beta\<close>: of the memory \<open>mem\<close>, the cells
  \<open>y[ind * incy]\<close>, \<open>0 \<le> ind < rows\<close>, become \<open>beta * y[ind * incy]\<close>, or zero when \<open>beta\<close> is
  zero, and nothing at all changes when \<open>beta\<close> is one.
\<close>

definition scaled_y :: "(int \<Rightarrow> 'a::{zero,one,times}) \<Rightarrow> 'a \<Rightarrow> int \<Rightarrow> int \<Rightarrow> int \<Rightarrow> (int \<Rightarrow> 'a)" where
  "scaled_y mem beta y incy rows =
     (\<lambda>a. if beta \<noteq> 1 \<and> (\<exists>ind. 0 \<le> ind \<and> ind < rows \<and> a = y + ind * incy)
          then (if beta \<noteq> 0 then beta * mem a else 0)
          else mem a)"







section \<open>Hermitian banded and packed matrix-vector products (hbmv, hpmv)\<close>

text \<open>
  The element type of these kernels is complex; \<open>std::real\<close> is \<open>Re\<close> and \<open>conj\<close> is \<open>cnj\<close>.
  Both kernels run the loop \<open>for(col = ty; col < n; col += DIM_Y)\<close>, whose step \<open>DIM_Y\<close> is
  positive in every instance.
\<close>

function col_loop :: "(int \<Rightarrow> 'a \<Rightarrow> 'a) \<Rightarrow> int \<Rightarrow> int \<Rightarrow> int \<Rightarrow> 'a \<Rightarrow> 'a" where
  "col_loop step bound DIM_Y col res_A =
     (if col < bound \<and> 0 < DIM_Y then col_loop step bound DIM_Y (col + DIM_Y) (step col res_A)
      else res_A)"
  by pat_completeness auto
termination
  by (relation "measure (\<lambda>(step, bound, DIM_Y, col, res_A). nat (bound - col))") auto

text \<open>The body of the loop of \<open>rocblas_hbmvn_kernel_helper\<close> for one column.\<close>

definition hbmvn_step ::
  "(int \<Rightarrow> complex) \<Rightarrow> bool \<Rightarrow> int \<Rightarrow> int \<Rightarrow> int \<Rightarrow> int \<Rightarrow> int \<Rightarrow> int \<Rightarrow> int \<Rightarrow> int \<Rightarrow> complex
     \<Rightarrow> complex" where
  "hbmvn_step mem is_upper m k A lda x incx ind col res_A =
     (let row = (if is_upper then ind + (k - col) else ind - col)
      in if ind < m then
           (if (ind \<le> col \<and> is_upper) \<or> (ind \<ge> col \<and> \<not> is_upper) then
              (if row < k \<and> row > 0 then
                 res_A + mem (A + (row + col * lda)) * mem (x + col * incx)
               else if row = 0 then
                 (if \<not> is_upper \<or> (k = 0 \<and> is_upper)
                  then res_A + complex_of_real (Re (mem (A + (row + col * lda)))) * mem (x + col * incx)
                  else res_A + mem (A + (row + col * lda)) * mem (x + col * incx))
               else if row = k then
                 (if is_upper
                  then res_A + complex_of_real (Re (mem (A + (row + col * lda)))) * mem (x + col * incx)
                  else res_A + mem (A + (row + col * lda)) * mem (x + col * incx))
               else res_A)
            else
              (let trans_row = col;
                   trans_col = ind;
                   trans_row = (if is_upper then trans_row + (k - trans_col) else trans_row - trans_col)
               in if trans_row \<le> k \<and> trans_row \<ge> 0
                  then res_A + cnj (mem (A + (trans_row + trans_col * lda))) * mem (x + col * incx)
                  else res_A))
         else res_A)"

definition rocblas_hbmvn_kernel_helper ::
  "(int \<Rightarrow> complex) \<Rightarrow> int \<Rightarrow> int \<Rightarrow> int \<Rightarrow> bool \<Rightarrow> int \<Rightarrow> int \<Rightarrow> int \<Rightarrow> int \<Rightarrow> int \<Rightarrow> int
     \<Rightarrow> complex" where
  "rocblas_hbmvn_kernel_helper mem DIM_Y ty ind is_upper m k A lda x incx =
     col_loop (hbmvn_step mem is_upper m k A lda x incx ind) m DIM_Y ty 0"


text \<open>The body of the column loop of \<open>rocblas_hpmv_kernel_calc\<close> for one column.\<close>

definition hpmv_step ::
  "(int \<Rightarrow> complex) \<Rightarrow> bool \<Rightarrow> int \<Rightarrow> int \<Rightarrow> int \<Rightarrow> int \<Rightarrow> int \<Rightarrow> int \<Rightarrow> complex \<Rightarrow> complex" where
  "hpmv_step mem is_upper n AP x incx ind col res_A =
     (if ind < n then
        (let opposite = ((ind > col \<and> is_upper) \<or> (ind < col \<and> \<not> is_upper));
             ind_x = (if opposite then col else ind);
             ind_y = (if opposite then ind else col);
             CONJ = opposite;
             index = (if is_upper then (ind_y * (ind_y + 1)) div 2 + ind_x
                      else (ind_y * (2 * n - ind_y + 1)) div 2 + (ind_x - ind_y))
         in res_A + (if ind_x = ind_y then complex_of_real (Re (mem (AP + index)))
                     else if CONJ then cnj (mem (AP + index))
                     else mem (AP + index))
                    * mem (x + col * incx))
      else res_A)"

definition hpmv_res_A ::
  "(int \<Rightarrow> complex) \<Rightarrow> int \<Rightarrow> bool \<Rightarrow> int \<Rightarrow> int \<Rightarrow> int \<Rightarrow> int \<Rightarrow> int \<Rightarrow> int \<Rightarrow> complex" where
  "hpmv_res_A mem DIM_Y is_upper n AP x incx ind ty =
     col_loop (hpmv_step mem is_upper n AP x incx ind) n DIM_Y ty 0"


text \<open>
  The remapping formulas in the words of the specification, and the logical element
  \<open>(row, col)\<close> of the Hermitian matrix that the stored triangle stands for: an element of the
  stored triangle is read at its remapped position, an element of the opposite triangle is
  the conjugate of its mirror image, an element outside the band is zero, and a diagonal
  element is the real part of what is stored.
\<close>

definition spec_banded_row :: "bool \<Rightarrow> int \<Rightarrow> int \<Rightarrow> int \<Rightarrow> int" where
  "spec_banded_row upper k ind col = (if upper then ind + (k - col) else ind - col)"

definition spec_packed_index :: "bool \<Rightarrow> int \<Rightarrow> int \<Rightarrow> int \<Rightarrow> int" where
  "spec_packed_index upper n row col =
     (if upper then col * (col + 1) div 2 + row else col * (2 * n - col + 1) div 2 + (row - col))"

definition in_stored_triangle :: "bool \<Rightarrow> int \<Rightarrow> int \<Rightarrow> bool" where
  "in_stored_triangle upper row col = (if upper then row \<le> col else row \<ge> col)"

definition spec_hb_element ::
  "(int \<Rightarrow> complex) \<Rightarrow> bool \<Rightarrow> int \<Rightarrow> int \<Rightarrow> int \<Rightarrow> int \<Rightarrow> int \<Rightarrow> complex" where
  "spec_hb_element mem upper k A lda row col =
     (if \<bar>row - col\<bar> > k then 0
      else if row = col
        then complex_of_real (Re (mem (A + (spec_banded_row upper k row col + col * lda))))
      else if in_stored_triangle upper row col
        then mem (A + (spec_banded_row upper k row col + col * lda))
      else cnj (mem (A + (spec_banded_row upper k col row + row * lda))))"

definition spec_hp_element ::
  "(int \<Rightarrow> complex) \<Rightarrow> bool \<Rightarrow> int \<Rightarrow> int \<Rightarrow> int \<Rightarrow> int \<Rightarrow> complex" where
  "spec_hp_element mem upper n AP row col =
     (if row = col then complex_of_real (Re (mem (AP + spec_packed_index upper n row col)))
      else if in_stored_triangle upper row col then mem (AP + spec_packed_index upper n row col)
      else cnj (mem (AP + spec_packed_index upper n col row)))"

text \<open>
  The columns the loop \<open>for(col = ty; col < n; col += DIM_Y)\<close> visits, in order.
\<close>

function thread_cols :: "int \<Rightarrow> int \<Rightarrow> int \<Rightarrow> int list" where
  "thread_cols DIM_Y col n =
     (if col < n \<and> 0 < DIM_Y then col # thread_cols DIM_Y (col + DIM_Y) n else [])"
  by pat_completeness auto
termination
  by (relation "measure (\<lambda>(DIM_Y, col, n). nat (n - col))") auto

text \<open>
  The argument record the launcher passes to its kernels, written out once for the statements
  below: the fields are the launcher's expressions, the shifts included.
\<close>

definition dot_call_args ::
  "bool \<Rightarrow> elem_type \<Rightarrow> int \<Rightarrow> operand \<Rightarrow> int \<Rightarrow> int \<Rightarrow> int \<Rightarrow> operand \<Rightarrow> int \<Rightarrow> int \<Rightarrow> int
     \<Rightarrow> int \<Rightarrow> out_ptr \<Rightarrow> dot_args" where
  "dot_call_args CONJ T n x offsetx incx stridex y offsety incy stridey batch_count output =
     \<lparr>a_T = T, a_CONJ = CONJ, a_n = n,
      a_xa = x, a_shiftx = (if incx < 0 then offsetx - incx * (n - 1) else offsetx),
      a_incx = incx, a_stridex = stridex,
      a_ya = y, a_shifty = (if incy < 0 then offsety - incy * (n - 1) else offsety),
      a_incy = incy, a_stridey = stridey,
      a_batch_count = batch_count, a_out = output\<rparr>"

definition ger_call_args ::
  "(int \<Rightarrow> 'a) \<Rightarrow> rocblas_handle \<Rightarrow> int \<Rightarrow> int \<Rightarrow> int \<Rightarrow> int \<Rightarrow> operand \<Rightarrow> int \<Rightarrow> int \<Rightarrow> int
     \<Rightarrow> operand \<Rightarrow> int \<Rightarrow> int \<Rightarrow> int \<Rightarrow> operand \<Rightarrow> int \<Rightarrow> int \<Rightarrow> int \<Rightarrow> int \<Rightarrow> 'a ger_args" where
  "ger_call_args host_mem handle m n alpha stride_alpha
       x offsetx incx stridex y offsety incy stridey A offsetA lda strideA batch_count =
     \<lparr>g_m = m, g_n = n,
      g_alpha = (if pointer_mode handle = Pointer_mode_device then Scalar_ptr alpha
                 else Scalar_value (host_mem alpha)),
      g_stride_alpha = stride_alpha,
      g_xa = x, g_shiftx = (if incx < 0 then offsetx - incx * (m - 1) else offsetx),
      g_incx = incx, g_stridex = stridex,
      g_ya = y, g_shifty = (if incy < 0 then offsety - incy * (n - 1) else offsety),
      g_incy = incy, g_stridey = stridey,
      g_Aa = A, g_shifta = offsetA, g_lda = lda, g_strideA = strideA,
      g_batch_count = batch_count\<rparr>"

fun launch_dot_args :: "host_action \<Rightarrow> dot_args list" where
  "launch_dot_args (Launch_dot kern grid threads a) = [a]"
| "launch_dot_args _ = []"

fun launch_dot_kernel :: "host_action \<Rightarrow> dot_kernel_id list" where
  "launch_dot_kernel (Launch_dot kern grid threads a) = [kern]"
| "launch_dot_kernel _ = []"

fun ger_launch_args :: "'a ger_launch \<Rightarrow> 'a ger_args" where
  "ger_launch_args (Launch_ger kern grid threads g) = g"






text \<open>
  A store and the store that undoes it: the first adds \<open>v\<close> to a cell of \<open>W\<close> as it is in
  \<open>mem\<close>, the second adds \<open>-v\<close> to the same cell as it is in \<open>mem1\<close>.
\<close>

definition undone_by :: "(int \<Rightarrow> 'a::ring) \<Rightarrow> (int \<Rightarrow> 'a) \<Rightarrow> int set \<Rightarrow> 'a effect \<Rightarrow> 'a effect \<Rightarrow> bool" where
  "undone_by mem mem1 W e1 e2 \<longleftrightarrow> (\<exists>a v. a \<in> W \<and> e1 = Store a (mem a + v) \<and> e2 = Store a (mem1 a + - v))"




section \<open>Concrete calls used as witnesses\<close>

definition cfg_plain :: build_config where
  "cfg_plain = \<lparr>sddot_gfx942_lower_threshold = 1000000, DEVICE_GRID_YZ_16BIT = False,
                 c_YZ_grid_launch_limit = 65535\<rparr>"

definition hip_ok :: hip_runtime where
  "hip_ok = \<lparr>hipMemsetAsync_ok = True, hipMemcpyAsync_ok = True, hipStreamSynchronize_ok = True\<rparr>"

definition handle_device :: rocblas_handle where
  "handle_device = \<lparr>pointer_mode = Pointer_mode_device, is_device_memory_size_query = False,
                     getArch = 908, getWarpSize = 64, getBatchGridDim = (\<lambda>b. b)\<rparr>"

definition handle_host :: rocblas_handle where
  "handle_host = \<lparr>pointer_mode = Pointer_mode_host, is_device_memory_size_query = False,
                   getArch = 908, getWarpSize = 64, getBatchGridDim = (\<lambda>b. b)\<rparr>"

definition handle_size_query :: rocblas_handle where
  "handle_size_query = \<lparr>pointer_mode = Pointer_mode_device, is_device_memory_size_query = True,
                         getArch = 908, getWarpSize = 64, getBatchGridDim = (\<lambda>b. b)\<rparr>"

definition gemv_example :: "int gemv_args" where
  "gemv_example = \<lparr>v_m = 2, v_n = 2, v_alpha = Scalar_value 0, v_stride_alpha = 0,
      v_Aa = Ptr 0, v_shifta = 0, v_lda = 2, v_strideA = 0,
      v_xa = Ptr 4, v_shiftx = 0, v_incx = 1, v_stridex = 0,
      v_beta = Scalar_value 2, v_stride_beta = 0,
      v_ya = Ptr 10, v_shifty = 0, v_incy = 1, v_stridey = 0, v_batch_count = 1\<rparr>"


definition hermitian_example :: "int \<Rightarrow> complex" where
  "hermitian_example a = (if a = 0 then Complex 2 7 else if a = 1 then Complex 3 4
                          else if a = 2 then Complex 5 9 else if a = 10 then 1
                          else if a = 11 then 1 else 0)"

definition handle_gfx942 :: rocblas_handle where
  "handle_gfx942 = \<lparr>pointer_mode = Pointer_mode_device, is_device_memory_size_query = False,
                     getArch = 942, getWarpSize = 64, getBatchGridDim = (\<lambda>b. b)\<rparr>"

text \<open>
  A build for a device whose grid is limited to 16 bits in \<open>y\<close> and \<open>z\<close>: the macro
  \<open>DEVICE_GRID_YZ_16BIT\<close> is set, the kernels loop over the batches with stride
  \<open>c_YZ_grid_launch_limit\<close>, and \<open>getBatchGridDim\<close> caps the grid at that limit.  The call
  \<open>dot_ones_args\<close> belongs to has \<open>n = 1025\<close>, unit increments, \<open>batch_count = 65536\<close>,
  the batches of \<open>x\<close> and of \<open>y\<close> stored one after the other, double precision.
\<close>

definition cfg_yz16 :: build_config where
  "cfg_yz16 = \<lparr>sddot_gfx942_lower_threshold = 1000000, DEVICE_GRID_YZ_16BIT = True,
                c_YZ_grid_launch_limit = 65535\<rparr>"

definition handle_yz16 :: rocblas_handle where
  "handle_yz16 = \<lparr>pointer_mode = Pointer_mode_device, is_device_memory_size_query = False,
                   getArch = 1201, getWarpSize = 32, getBatchGridDim = (\<lambda>b. min b 65535)\<rparr>"

definition dot_ones_args :: dot_args where
  "dot_ones_args = dot_call_args False Double 1025 (Ptr 0) 0 1 1025 (Ptr 67174400) 0 1 1025 65536
                     Out_results"

section \<open>Properties\<close>

lemma rocblas_dot_one_block_threshold_le: "rocblas_dot_one_block_threshold T \<le> 1024 * 32"
  by (simp add: rocblas_dot_one_block_threshold_def)

lemma block_count_one:
  "0 < n \<Longrightarrow> n \<le> nb \<Longrightarrow> rocblas_reduction_kernel_block_count n nb = 1"
proof -
  assume a: "0 < n" "n \<le> nb"
  have "n + nb - 1 = (n - 1) + 1 * nb" by simp
  then have "(n + nb - 1) div nb = (n - 1) div nb + 1"
    using a by (metis div_mult_self1 not_less order_less_irrefl less_le_trans mult.commute
                 add.commute)
  moreover have "(n - 1) div nb = 0" using a by (simp add: div_pos_pos_trivial)
  ultimately show ?thesis by (simp add: rocblas_reduction_kernel_block_count_def)
qed

lemma launcher_quick_return:
  "n \<le> 0 \<or> batch_count = 0 \<Longrightarrow>
   rocblas_internal_dot_launcher cfg hip NB CONJ T V handle
       n x offsetx incx stridex y offsety incy stridey batch_count =
     (if is_device_memory_size_query handle then (Status_size_unchanged, [])
      else if pointer_mode handle = Pointer_mode_device \<and> batch_count > 0 then
        (if hipMemsetAsync_ok hip then (Status_success, [Memset_results_zero batch_count])
         else (Status_hip_error, []))
      else (Status_success, [Host_store_results_zero batch_count]))"
  unfolding rocblas_internal_dot_launcher_def by (simp only: if_True)

lemma launcher_batched_4:
  "0 < n \<Longrightarrow> batch_count \<noteq> 0 \<Longrightarrow> n \<le> 1024 \<Longrightarrow> batch_count \<ge> 256 \<Longrightarrow>
   rocblas_internal_dot_launcher cfg hip NB CONJ T V handle
       n x offsetx incx stridex y offsety incy stridey batch_count =
     dot_copy_back handle hip (dot_output handle batch_count) batch_count
       [Launch_dot (Dot_batched_4_kernel (if getWarpSize handle = WARP_32 then WARP_32 else WARP_64) 4)
          ((batch_count - 1) div 4 + 1, 1, 1)
          (if getWarpSize handle = WARP_32 then WARP_32 else WARP_64, 4, 1)
          (dot_call_args CONJ T n x offsetx incx stridex y offsety incy stridey batch_count
             (dot_output handle batch_count))]"
  unfolding rocblas_internal_dot_launcher_def dot_call_args_def Let_def by simp

lemma launcher_one_block:
  "0 < n \<Longrightarrow> batch_count \<noteq> 0 \<Longrightarrow> \<not> (n \<le> 1024 \<and> batch_count \<ge> 256) \<Longrightarrow>
   n \<le> rocblas_dot_one_block_threshold T \<Longrightarrow>
   rocblas_internal_dot_launcher cfg hip NB CONJ T V handle
       n x offsetx incx stridex y offsety incy stridey batch_count =
     dot_copy_back handle hip (dot_output handle batch_count) batch_count
       [Launch_dot
          (if operand_addr x \<noteq> operand_addr y \<or> incx \<noteq> incy \<or> offsetx \<noteq> offsety \<or> stridex \<noteq> stridey
           then (if incx = 1 \<and> incy = 1 then Dot_kernel_inc1by2 True 1024 32 else Dot_kernel True 1024 32)
           else Dot_kernel_magsq True 1024 32)
          (1, 1, getBatchGridDim handle batch_count) (1024, 1, 1)
          (dot_call_args CONJ T n x offsetx incx stridex y offsety incy stridey batch_count
             (dot_output handle batch_count))]"
proof -
  assume a: "0 < n" "batch_count \<noteq> 0" "\<not> (n \<le> 1024 \<and> batch_count \<ge> 256)"
    "n \<le> rocblas_dot_one_block_threshold T"
  have "n \<le> 32768" using a(4) rocblas_dot_one_block_threshold_le[of T] by linarith
  then have b: "rocblas_reduction_kernel_block_count n 32768 = 1"
    using a(1) block_count_one by blast
  have c: "(n \<le> 1024 \<and> 256 \<le> batch_count) = False" "(n \<le> 0) = False"
    "(batch_count = 0) = False"
    using a by auto
  show ?thesis
    unfolding rocblas_internal_dot_launcher_def dot_call_args_def Let_def
    by (simp add: a(4) b c)
qed


lemma launcher_gfx942:
  "0 < n \<Longrightarrow> batch_count \<noteq> 0 \<Longrightarrow> \<not> (n \<le> 1024 \<and> batch_count \<ge> 256) \<Longrightarrow>
   \<not> n \<le> rocblas_dot_one_block_threshold T \<Longrightarrow>
   getArch handle = 942 \<and> ((V = Float \<and> T = Float) \<or> (V = Double \<and> T = Double))
     \<and> n > sddot_gfx942_lower_threshold cfg
     \<and> (operand_addr x \<noteq> operand_addr y \<or> incx \<noteq> incy \<or> offsetx \<noteq> offsety \<or> stridex \<noteq> stridey) \<Longrightarrow>
   rocblas_internal_dot_launcher cfg hip NB CONJ T V handle
       n x offsetx incx stridex y offsety incy stridey batch_count =
     dot_copy_back handle hip
       (dot_output handle (batch_count * rocblas_reduction_kernel_block_count n 4096)) batch_count
       [Launch_dot (Dot_kernel_gfx942_float_double 1024)
          (rocblas_reduction_kernel_block_count n 4096, 1, batch_count) (1024, 1, 1)
          (dot_call_args CONJ T n x offsetx incx stridex y offsety incy stridey batch_count
             (dot_output handle (batch_count * rocblas_reduction_kernel_block_count n 4096))),
        Launch_reduction_kernel_part2 1024 4 (batch_count, 1, 1) (1024, 1, 1)
          (rocblas_reduction_kernel_block_count n 4096)
          (dot_output handle (batch_count * rocblas_reduction_kernel_block_count n 4096))]"
proof -
  assume a: "0 < n" "batch_count \<noteq> 0" "\<not> (n \<le> 1024 \<and> batch_count \<ge> 256)"
    "\<not> n \<le> rocblas_dot_one_block_threshold T"
    and g: "getArch handle = 942 \<and> ((V = Float \<and> T = Float) \<or> (V = Double \<and> T = Double))
     \<and> n > sddot_gfx942_lower_threshold cfg
     \<and> (operand_addr x \<noteq> operand_addr y \<or> incx \<noteq> incy \<or> offsetx \<noteq> offsety \<or> stridex \<noteq> stridey)"
  have c: "(n \<le> 1024 \<and> 256 \<le> batch_count) = False" "(n \<le> 0) = False"
    "(batch_count = 0) = False" "(n \<le> rocblas_dot_one_block_threshold T) = False"
    using a by auto
  have d: "(getArch handle = 942 \<and> ((V = Float \<and> T = Float) \<or> (V = Double \<and> T = Double))
     \<and> n > sddot_gfx942_lower_threshold cfg
     \<and> (operand_addr x \<noteq> operand_addr y \<or> incx \<noteq> incy \<or> offsetx \<noteq> offsety \<or> stridex \<noteq> stridey)) = True"
    using g by simp
  show ?thesis
    unfolding rocblas_internal_dot_launcher_def dot_call_args_def Let_def
    by (simp only: c d if_True if_False simp_thms) simp
qed

lemma launcher_two_phase:
  "0 < n \<Longrightarrow> batch_count \<noteq> 0 \<Longrightarrow> \<not> (n \<le> 1024 \<and> batch_count \<ge> 256) \<Longrightarrow>
   \<not> n \<le> rocblas_dot_one_block_threshold T \<Longrightarrow>
   \<not> (getArch handle = 942 \<and> ((V = Float \<and> T = Float) \<or> (V = Double \<and> T = Double))
     \<and> n > sddot_gfx942_lower_threshold cfg
     \<and> (operand_addr x \<noteq> operand_addr y \<or> incx \<noteq> incy \<or> offsetx \<noteq> offsety \<or> stridex \<noteq> stridey)) \<Longrightarrow>
   rocblas_internal_dot_launcher cfg hip NB CONJ T V handle
       n x offsetx incx stridex y offsety incy stridey batch_count =
     dot_copy_back handle hip
       (dot_output handle (batch_count * rocblas_reduction_kernel_block_count n (NB * rocblas_dot_WIN T)))
       batch_count
       ([Launch_dot
          (if operand_addr x \<noteq> operand_addr y \<or> incx \<noteq> incy \<or> offsetx \<noteq> offsety \<or> stridex \<noteq> stridey
           then (if incx = 1 \<and> incy = 1 then Dot_kernel_inc1 False NB (rocblas_dot_WIN T)
                 else Dot_kernel False NB (rocblas_dot_WIN T))
           else Dot_kernel_magsq False NB (rocblas_dot_WIN T))
          (rocblas_reduction_kernel_block_count n (NB * rocblas_dot_WIN T), 1,
           getBatchGridDim handle batch_count) (NB, 1, 1)
          (dot_call_args CONJ T n x offsetx incx stridex y offsety incy stridey batch_count
             (dot_output handle
                (batch_count * rocblas_reduction_kernel_block_count n (NB * rocblas_dot_WIN T))))]
        @ (if rocblas_reduction_kernel_block_count n (NB * rocblas_dot_WIN T) > 1
           then [Launch_reduction_kernel_part2 NB (rocblas_dot_WIN T) (batch_count, 1, 1) (NB, 1, 1)
                   (rocblas_reduction_kernel_block_count n (NB * rocblas_dot_WIN T))
                   (dot_output handle
                      (batch_count * rocblas_reduction_kernel_block_count n (NB * rocblas_dot_WIN T)))]
           else []))"
proof -
  assume a: "0 < n" "batch_count \<noteq> 0" "\<not> (n \<le> 1024 \<and> batch_count \<ge> 256)"
    "\<not> n \<le> rocblas_dot_one_block_threshold T"
    and g: "\<not> (getArch handle = 942 \<and> ((V = Float \<and> T = Float) \<or> (V = Double \<and> T = Double))
     \<and> n > sddot_gfx942_lower_threshold cfg
     \<and> (operand_addr x \<noteq> operand_addr y \<or> incx \<noteq> incy \<or> offsetx \<noteq> offsety \<or> stridex \<noteq> stridey))"
  have c: "(n \<le> 1024 \<and> 256 \<le> batch_count) = False" "(n \<le> 0) = False"
    "(batch_count = 0) = False" "(n \<le> rocblas_dot_one_block_threshold T) = False"
    using a by auto
  have d: "(getArch handle = 942 \<and> ((V = Float \<and> T = Float) \<or> (V = Double \<and> T = Double))
     \<and> n > sddot_gfx942_lower_threshold cfg
     \<and> (operand_addr x \<noteq> operand_addr y \<or> incx \<noteq> incy \<or> offsetx \<noteq> offsety \<or> stridex \<noteq> stridey)) = False"
    using g by simp
  show ?thesis
    unfolding rocblas_internal_dot_launcher_def dot_call_args_def Let_def
    by (simp only: c d if_True if_False simp_thms)
qed


lemma copy_back_launches [simp]:
  "filter is_launch (snd (dot_copy_back handle hip output batch_count acts)) = filter is_launch acts"
  "concat (map launch_dot_args (snd (dot_copy_back handle hip output batch_count acts)))
     = concat (map launch_dot_args acts)"
  "concat (map launch_dot_kernel (snd (dot_copy_back handle hip output batch_count acts)))
     = concat (map launch_dot_kernel acts)"
  by (simp_all add: dot_copy_back_def)

lemma launcher_dot_args:
  assumes "0 < n" "batch_count \<noteq> 0"
  shows "\<exists>output. concat (map launch_dot_args (snd (rocblas_internal_dot_launcher cfg hip NB CONJ T V handle
              n x offsetx incx stridex y offsety incy stridey batch_count)))
      = [dot_call_args CONJ T n x offsetx incx stridex y offsety incy stridey batch_count output]"
proof -
  consider (batched) "n \<le> 1024" "batch_count \<ge> 256"
  | (one_block) "\<not> (n \<le> 1024 \<and> batch_count \<ge> 256)" "n \<le> rocblas_dot_one_block_threshold T"
  | (gfx942) "\<not> (n \<le> 1024 \<and> batch_count \<ge> 256)" "\<not> n \<le> rocblas_dot_one_block_threshold T"
      "getArch handle = 942 \<and> ((V = Float \<and> T = Float) \<or> (V = Double \<and> T = Double))
        \<and> n > sddot_gfx942_lower_threshold cfg
        \<and> (operand_addr x \<noteq> operand_addr y \<or> incx \<noteq> incy \<or> offsetx \<noteq> offsety \<or> stridex \<noteq> stridey)"
  | (two_phase) "\<not> (n \<le> 1024 \<and> batch_count \<ge> 256)" "\<not> n \<le> rocblas_dot_one_block_threshold T"
      "\<not> (getArch handle = 942 \<and> ((V = Float \<and> T = Float) \<or> (V = Double \<and> T = Double))
        \<and> n > sddot_gfx942_lower_threshold cfg
        \<and> (operand_addr x \<noteq> operand_addr y \<or> incx \<noteq> incy \<or> offsetx \<noteq> offsety \<or> stridex \<noteq> stridey))"
    by blast
  then show ?thesis
  proof cases
    case batched
    show ?thesis unfolding launcher_batched_4[OF assms batched] by simp blast
  next
    case one_block
    show ?thesis unfolding launcher_one_block[OF assms one_block] by simp blast
  next
    case gfx942
    show ?thesis unfolding launcher_gfx942[OF assms gfx942] by simp blast
  next
    case two_phase
    show ?thesis unfolding launcher_two_phase[OF assms two_phase] by simp blast
  qed
qed

lemma shift_range:
  fixes inc offset i n :: int
  assumes "0 \<le> i \<and> i < n"
  shows "offset \<le> (if inc < 0 then offset - inc * (n - 1) else offset) + i * inc
    \<and> (if inc < 0 then offset - inc * (n - 1) else offset) + i * inc \<le> offset + \<bar>inc\<bar> * (n - 1)"
proof -
  have a: "inc < 0 \<Longrightarrow> inc * (n - 1) \<le> inc * i"
    using assms by (intro mult_left_mono_neg) auto
  have b: "0 \<le> inc \<Longrightarrow> inc * i \<le> inc * (n - 1)" "0 \<le> inc \<Longrightarrow> 0 \<le> inc * i"
    using assms by (auto intro!: mult_left_mono)
  have c: "inc < 0 \<Longrightarrow> inc * i \<le> 0"
    using assms by (simp add: mult_nonpos_nonneg)
  show ?thesis
    using a b c by (auto simp: mult.commute abs_if)
qed

lemma ger_launcher_args:
  assumes "m \<noteq> 0" "n \<noteq> 0" "batch_count \<noteq> 0"
  shows "\<exists>kern grid threads.
     rocblas_internal_ger_launcher host_mem T handle m n alpha stride_alpha
       x offsetx incx stridex y offsety incy stridey A offsetA lda strideA batch_count
       = (Status_success, [Launch_ger kern grid threads
            (ger_call_args host_mem handle m n alpha stride_alpha
               x offsetx incx stridex y offsety incy stridey A offsetA lda strideA batch_count)])"
proof -
  have q: "(m = 0 \<or> n = 0 \<or> batch_count = 0) = False" using assms by simp
  show ?thesis
    unfolding rocblas_internal_ger_launcher_def Let_def ger_call_args_def[symmetric] q if_False
    by (simp only: split: if_split) blast
qed


subsection \<open>The one-block branch of the dot launcher\<close>

text \<open>
  C10.  In the one-block branch of the dot launcher (the call is not a quick return, not the
  small-n/high-batch case, and \<open>n\<close> is at most the per-type single-block threshold) the block
  count \<open>rocblas_reduction_kernel_block_count(n, 1024 * 32)\<close> is 1, because every threshold
  (32768, 31000, 16000, 13000, 10000) is at most \<open>1024 * 32 = 32768\<close>; so the guard
  \<open>assert(blocks == 1)\<close> holds, and the launcher starts no finalize kernel on this path.
\<close>

theorem dot_one_block_branch_blocks_eq_1:
  assumes "0 < n" and "batch_count \<noteq> 0" and "\<not> (n \<le> 1024 \<and> batch_count \<ge> 256)"
    and "n \<le> rocblas_dot_one_block_threshold T"
  shows "rocblas_dot_one_block_threshold T \<in> {32768, 31000, 16000, 13000, 10000}
    \<and> rocblas_dot_one_block_threshold T \<le> 1024 * 32
    \<and> rocblas_reduction_kernel_block_count n (1024 * 32) = 1
    \<and> fst (rocblas_internal_dot_launcher cfg hip NB CONJ T V handle
              n x offsetx incx stridex y offsety incy stridey batch_count) \<noteq> Status_assert_failed
    \<and> (\<forall>act \<in> set (snd (rocblas_internal_dot_launcher cfg hip NB CONJ T V handle
              n x offsetx incx stridex y offsety incy stridey batch_count)). \<not> is_part2 act)"
proof -
  have t: "rocblas_dot_one_block_threshold T \<in> {32768, 31000, 16000, 13000, 10000}"
    by (simp add: rocblas_dot_one_block_threshold_def)
  have le: "rocblas_dot_one_block_threshold T \<le> 1024 * 32"
    by (rule rocblas_dot_one_block_threshold_le)
  have b: "rocblas_reduction_kernel_block_count n (1024 * 32) = 1"
    using assms(1,4) le by (intro block_count_one) linarith+
  have l: "fst (rocblas_internal_dot_launcher cfg hip NB CONJ T V handle
              n x offsetx incx stridex y offsety incy stridey batch_count) \<noteq> Status_assert_failed
    \<and> (\<forall>act \<in> set (snd (rocblas_internal_dot_launcher cfg hip NB CONJ T V handle
              n x offsetx incx stridex y offsety incy stridey batch_count)). \<not> is_part2 act)"
    unfolding launcher_one_block[OF assms] dot_copy_back_def by simp
  from t le b l show ?thesis by blast
qed

theorem dot_one_block_branch_blocks_eq_1_witness:
  "(0::int) < 13000 \<and> (1::int) \<noteq> 0 \<and> \<not> ((13000::int) \<le> 1024 \<and> (1::int) \<ge> 256)
    \<and> 13000 \<le> rocblas_dot_one_block_threshold Double
    \<and> rocblas_reduction_kernel_block_count 13000 (1024 * 32) = 1
    \<and> fst (rocblas_internal_dot_launcher cfg_plain hip_ok 512 False Double Double handle_host
              13000 (Ptr 0) 0 1 0 (Ptr 20000) 0 1 0 1) \<noteq> Status_assert_failed
    \<and> filter is_part2 (snd (rocblas_internal_dot_launcher cfg_plain hip_ok 512 False Double Double
              handle_host 13000 (Ptr 0) 0 1 0 (Ptr 20000) 0 1 0 1)) = []"
proof -
  have h: "(0::int) < 13000" "(1::int) \<noteq> 0" "\<not> ((13000::int) \<le> 1024 \<and> (1::int) \<ge> 256)"
    "13000 \<le> rocblas_dot_one_block_threshold Double"
    by (simp_all add: rocblas_dot_one_block_threshold_def)
  show ?thesis
    using h dot_one_block_branch_blocks_eq_1[OF h, of cfg_plain hip_ok 512 False Double
        handle_host "Ptr 0" 0 1 0 "Ptr 20000" 0 1 0]
    by (simp add: filter_empty_conv)
qed


subsection \<open>The decision table of the dot launcher\<close>

text \<open>
  C6.  For a call that is not a quick return (\<open>n > 0\<close>, \<open>batch_count \<noteq> 0\<close>) the kernels the dot
  launcher starts follow the decision table.  When \<open>n \<le> 1024\<close> and \<open>batch_count \<ge> 256\<close> the only
  kernel is the small-n/high-batch kernel, on a grid of \<open>(batch_count - 1) / 4 + 1\<close> blocks of
  four wavefronts, so that batch \<open>b\<close> has the wavefront \<open>threadIdx.y = b % 4\<close> of block \<open>b / 4\<close>
  to itself, and no finalize kernel follows.  Otherwise, when \<open>n\<close> is at most the per-type
  single-block threshold (31000 for float, 13000 for double, and for each complex type less
  than for its real type), the only kernel is one of the \<open>ONE_BLOCK\<close> kernels on a grid with
  \<open>gridDim.x = 1\<close>, again without a finalize kernel.  The launched kernels do not depend on
  the outcome of the runtime calls: they are a function of the call's arguments and the
  handle.
\<close>

theorem dot_dispatch_decision_table:
  assumes "0 < n" and "batch_count \<noteq> 0"
  shows "(n \<le> 1024 \<and> batch_count \<ge> 256 \<longrightarrow>
            (\<exists>WARP \<in> {32, 64}.
               filter is_launch (snd (rocblas_internal_dot_launcher cfg hip NB CONJ T V handle
                 n x offsetx incx stridex y offsety incy stridey batch_count))
               = [Launch_dot (Dot_batched_4_kernel WARP 4) ((batch_count - 1) div 4 + 1, 1, 1)
                    (WARP, 4, 1)
                    (dot_call_args CONJ T n x offsetx incx stridex y offsety incy stridey
                       batch_count (dot_output handle batch_count))])
            \<and> (\<forall>b. 0 \<le> b \<and> b < batch_count \<longrightarrow>
                   0 \<le> b div 4 \<and> b div 4 < (batch_count - 1) div 4 + 1
                   \<and> 0 \<le> b mod 4 \<and> b mod 4 < 4 \<and> (b div 4) * 4 + b mod 4 = b))
       \<and> (\<not> (n \<le> 1024 \<and> batch_count \<ge> 256) \<and> n \<le> rocblas_dot_one_block_threshold T \<longrightarrow>
            (\<exists>kern \<in> {Dot_kernel_inc1by2 True 1024 32, Dot_kernel True 1024 32,
                        Dot_kernel_magsq True 1024 32}.
               filter is_launch (snd (rocblas_internal_dot_launcher cfg hip NB CONJ T V handle
                 n x offsetx incx stridex y offsety incy stridey batch_count))
               = [Launch_dot kern (1, 1, getBatchGridDim handle batch_count) (1024, 1, 1)
                    (dot_call_args CONJ T n x offsetx incx stridex y offsety incy stridey
                       batch_count (dot_output handle batch_count))]))
       \<and> rocblas_dot_one_block_threshold Float = 31000
       \<and> rocblas_dot_one_block_threshold Double = 13000
       \<and> rocblas_dot_one_block_threshold Float_complex < rocblas_dot_one_block_threshold Float
       \<and> rocblas_dot_one_block_threshold Double_complex < rocblas_dot_one_block_threshold Double
       \<and> filter is_launch (snd (rocblas_internal_dot_launcher cfg hip NB CONJ T V handle
                 n x offsetx incx stridex y offsety incy stridey batch_count))
         = filter is_launch (snd (rocblas_internal_dot_launcher cfg hip' NB CONJ T V handle
                 n x offsetx incx stridex y offsety incy stridey batch_count))"
proof -
  have batched: "n \<le> 1024 \<and> batch_count \<ge> 256 \<longrightarrow>
            (\<exists>WARP \<in> {32, 64}.
               filter is_launch (snd (rocblas_internal_dot_launcher cfg hip NB CONJ T V handle
                 n x offsetx incx stridex y offsety incy stridey batch_count))
               = [Launch_dot (Dot_batched_4_kernel WARP 4) ((batch_count - 1) div 4 + 1, 1, 1)
                    (WARP, 4, 1)
                    (dot_call_args CONJ T n x offsetx incx stridex y offsety incy stridey
                       batch_count (dot_output handle batch_count))])"
  proof
    assume c: "n \<le> 1024 \<and> batch_count \<ge> 256"
    then have c1: "n \<le> 1024" and c2: "batch_count \<ge> 256" by simp_all
    show "\<exists>WARP \<in> {32, 64}.
               filter is_launch (snd (rocblas_internal_dot_launcher cfg hip NB CONJ T V handle
                 n x offsetx incx stridex y offsety incy stridey batch_count))
               = [Launch_dot (Dot_batched_4_kernel WARP 4) ((batch_count - 1) div 4 + 1, 1, 1)
                    (WARP, 4, 1)
                    (dot_call_args CONJ T n x offsetx incx stridex y offsety incy stridey
                       batch_count (dot_output handle batch_count))]"
      unfolding launcher_batched_4[OF assms c1 c2] by (simp add: WARP_32_def WARP_64_def)
  qed
  have cover: "\<forall>b. 0 \<le> b \<and> b < batch_count \<longrightarrow>
                   0 \<le> b div 4 \<and> b div 4 < (batch_count - 1) div 4 + 1
                   \<and> 0 \<le> b mod 4 \<and> b mod 4 < 4 \<and> (b div 4) * 4 + b mod 4 = b"
  proof (intro allI impI)
    fix b :: int assume b: "0 \<le> b \<and> b < batch_count"
    then have "b div 4 \<le> (batch_count - 1) div 4" by (intro zdiv_mono1) auto
    with b show "0 \<le> b div 4 \<and> b div 4 < (batch_count - 1) div 4 + 1
                   \<and> 0 \<le> b mod 4 \<and> b mod 4 < 4 \<and> (b div 4) * 4 + b mod 4 = b"
      by (simp add: pos_imp_zdiv_nonneg_iff)
  qed
  have one: "\<not> (n \<le> 1024 \<and> batch_count \<ge> 256) \<and> n \<le> rocblas_dot_one_block_threshold T \<longrightarrow>
            (\<exists>kern \<in> {Dot_kernel_inc1by2 True 1024 32, Dot_kernel True 1024 32,
                        Dot_kernel_magsq True 1024 32}.
               filter is_launch (snd (rocblas_internal_dot_launcher cfg hip NB CONJ T V handle
                 n x offsetx incx stridex y offsety incy stridey batch_count))
               = [Launch_dot kern (1, 1, getBatchGridDim handle batch_count) (1024, 1, 1)
                    (dot_call_args CONJ T n x offsetx incx stridex y offsety incy stridey
                       batch_count (dot_output handle batch_count))])"
  proof
    assume c: "\<not> (n \<le> 1024 \<and> batch_count \<ge> 256) \<and> n \<le> rocblas_dot_one_block_threshold T"
    then have c1: "\<not> (n \<le> 1024 \<and> batch_count \<ge> 256)"
      and c2: "n \<le> rocblas_dot_one_block_threshold T" by simp_all
    show "\<exists>kern \<in> {Dot_kernel_inc1by2 True 1024 32, Dot_kernel True 1024 32,
                        Dot_kernel_magsq True 1024 32}.
               filter is_launch (snd (rocblas_internal_dot_launcher cfg hip NB CONJ T V handle
                 n x offsetx incx stridex y offsety incy stridey batch_count))
               = [Launch_dot kern (1, 1, getBatchGridDim handle batch_count) (1024, 1, 1)
                    (dot_call_args CONJ T n x offsetx incx stridex y offsety incy stridey
                       batch_count (dot_output handle batch_count))]"
      unfolding launcher_one_block[OF assms c1 c2] by simp
  qed
  have thr: "rocblas_dot_one_block_threshold Float = 31000"
    "rocblas_dot_one_block_threshold Double = 13000"
    "rocblas_dot_one_block_threshold Float_complex < rocblas_dot_one_block_threshold Float"
    "rocblas_dot_one_block_threshold Double_complex < rocblas_dot_one_block_threshold Double"
    by (simp_all add: rocblas_dot_one_block_threshold_def)
  have pure: "filter is_launch (snd (rocblas_internal_dot_launcher cfg hip NB CONJ T V handle
                 n x offsetx incx stridex y offsety incy stridey batch_count))
         = filter is_launch (snd (rocblas_internal_dot_launcher cfg hip' NB CONJ T V handle
                 n x offsetx incx stridex y offsety incy stridey batch_count))"
  proof -
    consider (batched) "n \<le> 1024" "batch_count \<ge> 256"
    | (one_block) "\<not> (n \<le> 1024 \<and> batch_count \<ge> 256)" "n \<le> rocblas_dot_one_block_threshold T"
    | (gfx942) "\<not> (n \<le> 1024 \<and> batch_count \<ge> 256)" "\<not> n \<le> rocblas_dot_one_block_threshold T"
        "getArch handle = 942 \<and> ((V = Float \<and> T = Float) \<or> (V = Double \<and> T = Double))
          \<and> n > sddot_gfx942_lower_threshold cfg
          \<and> (operand_addr x \<noteq> operand_addr y \<or> incx \<noteq> incy \<or> offsetx \<noteq> offsety \<or> stridex \<noteq> stridey)"
    | (two_phase) "\<not> (n \<le> 1024 \<and> batch_count \<ge> 256)" "\<not> n \<le> rocblas_dot_one_block_threshold T"
        "\<not> (getArch handle = 942 \<and> ((V = Float \<and> T = Float) \<or> (V = Double \<and> T = Double))
          \<and> n > sddot_gfx942_lower_threshold cfg
          \<and> (operand_addr x \<noteq> operand_addr y \<or> incx \<noteq> incy \<or> offsetx \<noteq> offsety \<or> stridex \<noteq> stridey))"
      by blast
    then show ?thesis
    proof cases
      case batched
      show ?thesis unfolding launcher_batched_4[OF assms batched] by simp
    next
      case one_block
      show ?thesis unfolding launcher_one_block[OF assms one_block] by simp
    next
      case gfx942
      show ?thesis unfolding launcher_gfx942[OF assms gfx942] by simp
    next
      case two_phase
      show ?thesis unfolding launcher_two_phase[OF assms two_phase] by simp
    qed
  qed
  from batched cover one thr pure show ?thesis by blast
qed

theorem dot_dispatch_decision_table_witness:
  "(0::int) < 1000 \<and> (256::int) \<noteq> 0
   \<and> filter is_launch (snd (rocblas_internal_dot_launcher cfg_plain hip_ok 512 False Float Float
        handle_device 1000 (Ptr 0) 0 1 1000 (Ptr 500000) 0 1 1000 256))
     = [Launch_dot (Dot_batched_4_kernel 64 4) (64, 1, 1) (64, 4, 1)
          (dot_call_args False Float 1000 (Ptr 0) 0 1 1000 (Ptr 500000) 0 1 1000 256 Out_results)]
   \<and> rocblas_dot_one_block_threshold Float = 31000"
proof -
  have h: "(0::int) < 1000" "(256::int) \<noteq> 0" by simp_all
  have "\<exists>WARP \<in> {32, 64}.
      filter is_launch (snd (rocblas_internal_dot_launcher cfg_plain hip_ok 512 False Float Float
        handle_device 1000 (Ptr 0) 0 1 1000 (Ptr 500000) 0 1 1000 256))
     = [Launch_dot (Dot_batched_4_kernel WARP 4) ((256 - 1) div 4 + 1, 1, 1) (WARP, 4, 1)
          (dot_call_args False Float 1000 (Ptr 0) 0 1 1000 (Ptr 500000) 0 1 1000 256
             (dot_output handle_device 256))]"
    using dot_dispatch_decision_table[OF h, of cfg_plain hip_ok 512 False Float Float handle_device
        "Ptr 0" 0 1 1000 "Ptr 500000" 0 1 1000 hip_ok]
    by simp
  moreover have "filter is_launch (snd (rocblas_internal_dot_launcher cfg_plain hip_ok 512 False Float Float
        handle_device 1000 (Ptr 0) 0 1 1000 (Ptr 500000) 0 1 1000 256))
     \<noteq> [Launch_dot (Dot_batched_4_kernel 32 4) ((256 - 1) div 4 + 1, 1, 1) (32, 4, 1)
          (dot_call_args False Float 1000 (Ptr 0) 0 1 1000 (Ptr 500000) 0 1 1000 256
             (dot_output handle_device 256))]"
    by (simp add: rocblas_internal_dot_launcher_def Let_def dot_copy_back_def handle_device_def
        WARP_32_def WARP_64_def)
  ultimately show ?thesis
    by (auto simp: dot_output_def handle_device_def rocblas_dot_one_block_threshold_def)
qed

subsection \<open>The quick return of the dot launcher\<close>

text \<open>
  C4, as stated, fails in device-memory-size-query mode: the launcher returns
  \<open>rocblas_status_size_unchanged\<close>, which is not the success status, and leaves \<open>results\<close>
  as they were.
\<close>

theorem dot_quick_return_counterexample:
  "fst (rocblas_dot cfg_plain hip_ok (\<lambda>v. v) (\<lambda>a. (1::int)) 512 False Float Float handle_size_query
          0 (Ptr 0) 0 1 0 (Ptr 100) 0 1 0 3 (\<lambda>l. 7)) = Status_size_unchanged
   \<and> snd (rocblas_dot cfg_plain hip_ok (\<lambda>v. v) (\<lambda>a. (1::int)) 512 False Float Float handle_size_query
          0 (Ptr 0) 0 1 0 (Ptr 100) 0 1 0 3 (\<lambda>l. 7)) (Results 0) = 7"
  by (simp add: rocblas_dot_def rocblas_internal_dot_launcher_def handle_size_query_def)

text \<open>
  C4, amended.  For a call with \<open>n \<le> 0\<close> or \<open>batch_count = 0\<close> the launcher starts no kernel and
  its outcome does not depend on \<open>x\<close>, \<open>y\<close> or the device memory.  In
  device-memory-size-query mode it returns \<open>rocblas_status_size_unchanged\<close> and changes
  nothing.  Otherwise, unless the memset of device pointer mode fails, it returns success
  and \<open>results[0 .. batch_count - 1]\<close> are zero (by the memset in device pointer mode with
  \<open>batch_count > 0\<close>, by host stores otherwise); no other entry of \<open>results\<close> changes.
\<close>

theorem dot_quick_return:
  assumes "n \<le> 0 \<or> batch_count = 0"
  shows "filter is_launch (snd (rocblas_internal_dot_launcher cfg hip NB CONJ T V handle
              n x offsetx incx stridex y offsety incy stridey batch_count)) = []
    \<and> (is_device_memory_size_query handle \<longrightarrow>
          rocblas_dot cfg hip cj mem NB CONJ T V handle
              n x offsetx incx stridex y offsety incy stridey batch_count st
            = (Status_size_unchanged, st))
    \<and> (\<not> is_device_memory_size_query handle
        \<and> (pointer_mode handle = Pointer_mode_device \<and> batch_count > 0 \<longrightarrow> hipMemsetAsync_ok hip) \<longrightarrow>
          fst (rocblas_dot cfg hip cj mem NB CONJ T V handle
                 n x offsetx incx stridex y offsety incy stridey batch_count st) = Status_success
          \<and> (\<forall>i. 0 \<le> i \<and> i < batch_count \<longrightarrow>
                 snd (rocblas_dot cfg hip cj mem NB CONJ T V handle
                        n x offsetx incx stridex y offsety incy stridey batch_count st) (Results i)
                 = (0::'a::{zero,plus,times}))
          \<and> (\<forall>i. \<not> (0 \<le> i \<and> i < batch_count) \<longrightarrow>
                 snd (rocblas_dot cfg hip cj mem NB CONJ T V handle
                        n x offsetx incx stridex y offsety incy stridey batch_count st) (Results i)
                 = st (Results i)))
    \<and> rocblas_dot cfg hip cj mem NB CONJ T V handle
          n x offsetx incx stridex y offsety incy stridey batch_count st
      = rocblas_dot cfg hip cj' mem' NB CONJ T V handle
          n x' offsetx' incx' stridex' y' offsety' incy' stridey' batch_count st"
  unfolding rocblas_dot_def launcher_quick_return[OF assms]
  by auto

theorem dot_quick_return_witness:
  "((0::int) \<le> 0 \<or> (3::int) = 0)
   \<and> fst (rocblas_dot cfg_plain hip_ok (\<lambda>v. v) (\<lambda>a. (1::int)) 512 False Float Float handle_device
          0 (Ptr 0) 0 1 0 (Ptr 100) 0 1 0 3 (\<lambda>l. 7)) = Status_success
   \<and> snd (rocblas_dot cfg_plain hip_ok (\<lambda>v. v) (\<lambda>a. (1::int)) 512 False Float Float handle_device
          0 (Ptr 0) 0 1 0 (Ptr 100) 0 1 0 3 (\<lambda>l. 7)) (Results 2) = 0"
proof -
  have h: "(0::int) \<le> 0 \<or> (3::int) = 0" by simp
  show ?thesis
    using dot_quick_return[OF h, of cfg_plain hip_ok 512 False Float Float handle_device
        "Ptr 0" 0 1 0 "Ptr 100" 0 1 0 "\<lambda>v. v" "\<lambda>a. (1::int)" "\<lambda>l. 7"]
    by (simp add: handle_device_def hip_ok_def)
qed

subsection \<open>Negative increments\<close>

text \<open>
  C7.  A call of the dot launcher that is not a quick return launches exactly one dot kernel,
  and passes it the vectors and increments as given and, as offsets of \<open>x\<close> and \<open>y\<close>,
  \<open>offset - inc * (n - 1)\<close> when the increment is negative and the given offset otherwise.  A
  call of the ger launcher that is not a quick return launches exactly one kernel, with the
  same offsets for length \<open>m\<close> of \<open>x\<close> and length \<open>n\<close> of \<open>y\<close>.  With these offsets the
  kernel's forward iteration \<open>shift + i * inc\<close>, \<open>0 \<le> i < length\<close>, stays between the given
  offset and \<open>offset + |inc| * (length - 1)\<close>, and for a negative increment logical index 0 is
  at the highest of these positions.
\<close>

theorem negative_inc_shift:
  "(0 < n \<and> batch_count \<noteq> 0 \<longrightarrow>
      (\<exists>a. concat (map launch_dot_args
               (snd (rocblas_internal_dot_launcher cfg hip NB CONJ T V handle
                       n x offsetx incx stridex y offsety incy stridey batch_count))) = [a]
          \<and> a_n a = n \<and> a_xa a = x \<and> a_incx a = incx \<and> a_ya a = y \<and> a_incy a = incy
          \<and> a_shiftx a = (if incx < 0 then offsetx - incx * (n - 1) else offsetx)
          \<and> a_shifty a = (if incy < 0 then offsety - incy * (n - 1) else offsety)
          \<and> (\<forall>i. 0 \<le> i \<and> i < n \<longrightarrow>
                 offsetx \<le> a_shiftx a + i * incx \<and> a_shiftx a + i * incx \<le> offsetx + \<bar>incx\<bar> * (n - 1)
                 \<and> offsety \<le> a_shifty a + i * incy \<and> a_shifty a + i * incy \<le> offsety + \<bar>incy\<bar> * (n - 1))))
   \<and> (gm \<noteq> 0 \<and> gn \<noteq> 0 \<and> gbatch_count \<noteq> 0 \<longrightarrow>
      (\<exists>l. snd (rocblas_internal_ger_launcher host_mem gT ghandle gm gn alpha stride_alpha
                         gx goffsetx gincx gstridex gy goffsety gincy gstridey A offsetA lda strideA
                         gbatch_count) = [l]
          \<and> g_m (ger_launch_args l) = gm \<and> g_n (ger_launch_args l) = gn
          \<and> g_xa (ger_launch_args l) = gx \<and> g_incx (ger_launch_args l) = gincx
          \<and> g_ya (ger_launch_args l) = gy \<and> g_incy (ger_launch_args l) = gincy
          \<and> g_shiftx (ger_launch_args l) = (if gincx < 0 then goffsetx - gincx * (gm - 1) else goffsetx)
          \<and> g_shifty (ger_launch_args l) = (if gincy < 0 then goffsety - gincy * (gn - 1) else goffsety)
          \<and> (\<forall>i. 0 \<le> i \<and> i < gm \<longrightarrow>
                 goffsetx \<le> g_shiftx (ger_launch_args l) + i * gincx
                 \<and> g_shiftx (ger_launch_args l) + i * gincx \<le> goffsetx + \<bar>gincx\<bar> * (gm - 1))
          \<and> (\<forall>i. 0 \<le> i \<and> i < gn \<longrightarrow>
                 goffsety \<le> g_shifty (ger_launch_args l) + i * gincy
                 \<and> g_shifty (ger_launch_args l) + i * gincy \<le> goffsety + \<bar>gincy\<bar> * (gn - 1))))"
proof (intro conjI impI)
  assume a: "0 < n \<and> batch_count \<noteq> 0"
  then obtain outp where o: "concat (map launch_dot_args
               (snd (rocblas_internal_dot_launcher cfg hip NB CONJ T V handle
                       n x offsetx incx stridex y offsety incy stridey batch_count)))
      = [dot_call_args CONJ T n x offsetx incx stridex y offsety incy stridey batch_count outp]"
    using launcher_dot_args[of n batch_count cfg hip NB CONJ T V handle x offsetx incx stridex
        y offsety incy stridey] by blast
  show "\<exists>a. concat (map launch_dot_args
               (snd (rocblas_internal_dot_launcher cfg hip NB CONJ T V handle
                       n x offsetx incx stridex y offsety incy stridey batch_count))) = [a]
          \<and> a_n a = n \<and> a_xa a = x \<and> a_incx a = incx \<and> a_ya a = y \<and> a_incy a = incy
          \<and> a_shiftx a = (if incx < 0 then offsetx - incx * (n - 1) else offsetx)
          \<and> a_shifty a = (if incy < 0 then offsety - incy * (n - 1) else offsety)
          \<and> (\<forall>i. 0 \<le> i \<and> i < n \<longrightarrow>
                 offsetx \<le> a_shiftx a + i * incx \<and> a_shiftx a + i * incx \<le> offsetx + \<bar>incx\<bar> * (n - 1)
                 \<and> offsety \<le> a_shifty a + i * incy \<and> a_shifty a + i * incy \<le> offsety + \<bar>incy\<bar> * (n - 1))"
    unfolding o using shift_range[where n=n and offset=offsetx and inc=incx]
      shift_range[where n=n and offset=offsety and inc=incy]
    by (simp add: dot_call_args_def)
next
  assume a: "gm \<noteq> 0 \<and> gn \<noteq> 0 \<and> gbatch_count \<noteq> 0"
  then obtain kern grid threads where o:
    "rocblas_internal_ger_launcher host_mem gT ghandle gm gn alpha stride_alpha
       gx goffsetx gincx gstridex gy goffsety gincy gstridey A offsetA lda strideA gbatch_count
       = (Status_success, [Launch_ger kern grid threads
            (ger_call_args host_mem ghandle gm gn alpha stride_alpha
               gx goffsetx gincx gstridex gy goffsety gincy gstridey A offsetA lda strideA gbatch_count)])"
    using ger_launcher_args[of gm gn gbatch_count host_mem gT ghandle alpha stride_alpha
       gx goffsetx gincx gstridex gy goffsety gincy gstridey A offsetA lda strideA] by blast
  show "\<exists>l. snd (rocblas_internal_ger_launcher host_mem gT ghandle gm gn alpha stride_alpha
                         gx goffsetx gincx gstridex gy goffsety gincy gstridey A offsetA lda strideA
                         gbatch_count) = [l]
          \<and> g_m (ger_launch_args l) = gm \<and> g_n (ger_launch_args l) = gn
          \<and> g_xa (ger_launch_args l) = gx \<and> g_incx (ger_launch_args l) = gincx
          \<and> g_ya (ger_launch_args l) = gy \<and> g_incy (ger_launch_args l) = gincy
          \<and> g_shiftx (ger_launch_args l) = (if gincx < 0 then goffsetx - gincx * (gm - 1) else goffsetx)
          \<and> g_shifty (ger_launch_args l) = (if gincy < 0 then goffsety - gincy * (gn - 1) else goffsety)
          \<and> (\<forall>i. 0 \<le> i \<and> i < gm \<longrightarrow>
                 goffsetx \<le> g_shiftx (ger_launch_args l) + i * gincx
                 \<and> g_shiftx (ger_launch_args l) + i * gincx \<le> goffsetx + \<bar>gincx\<bar> * (gm - 1))
          \<and> (\<forall>i. 0 \<le> i \<and> i < gn \<longrightarrow>
                 goffsety \<le> g_shifty (ger_launch_args l) + i * gincy
                 \<and> g_shifty (ger_launch_args l) + i * gincy \<le> goffsety + \<bar>gincy\<bar> * (gn - 1))"
    unfolding o using shift_range[where n=gm and offset=goffsetx and inc=gincx]
      shift_range[where n=gn and offset=goffsety and inc=gincy]
    by (simp add: ger_call_args_def)
qed

theorem negative_inc_shift_witness:
  "map a_shiftx (concat (map launch_dot_args
           (snd (rocblas_internal_dot_launcher cfg_plain hip_ok 512 False Float Float handle_device
                   5 (Ptr 0) 0 (- 2) 0 (Ptr 100) 0 1 0 1)))) = [8]
   \<and> map a_shifty (concat (map launch_dot_args
           (snd (rocblas_internal_dot_launcher cfg_plain hip_ok 512 False Float Float handle_device
                   5 (Ptr 0) 0 (- 2) 0 (Ptr 100) 0 1 0 1)))) = [0]
   \<and> map (\<lambda>l. g_shiftx (ger_launch_args l))
        (snd (rocblas_internal_ger_launcher (\<lambda>p. (1::int)) Float handle_host 3 4 0 0
                 (Ptr 0) 0 (- 1) 0 (Ptr 100) 0 (- 3) 0 (Ptr 200) 0 3 0 1)) = [2]
   \<and> map (\<lambda>l. g_shifty (ger_launch_args l))
        (snd (rocblas_internal_ger_launcher (\<lambda>p. (1::int)) Float handle_host 3 4 0 0
                 (Ptr 0) 0 (- 1) 0 (Ptr 100) 0 (- 3) 0 (Ptr 200) 0 3 0 1)) = [9]"
proof -
  have h: "(0::int) < 5 \<and> (1::int) \<noteq> 0" "(3::int) \<noteq> 0 \<and> (4::int) \<noteq> 0 \<and> (1::int) \<noteq> 0"
    by simp_all
  note t = negative_inc_shift[of 5 1 cfg_plain hip_ok 512 False Float Float handle_device
        "Ptr 0" 0 "- 2" 0 "Ptr 100" 0 1 0 3 4 1 "\<lambda>p. (1::int)" Float handle_host 0 0
        "Ptr 0" 0 "- 1" 0 "Ptr 100" 0 "- 3" 0 "Ptr 200" 0 3 0]
  obtain a where a: "concat (map launch_dot_args
           (snd (rocblas_internal_dot_launcher cfg_plain hip_ok 512 False Float Float handle_device
                   5 (Ptr 0) 0 (- 2) 0 (Ptr 100) 0 1 0 1))) = [a]"
      "a_shiftx a = (if (- 2::int) < 0 then 0 - (- 2) * (5 - 1) else 0)"
      "a_shifty a = (if (1::int) < 0 then 0 - 1 * (5 - 1) else 0)"
    using t[THEN conjunct1, THEN mp, OF h(1)] by blast
  obtain l where l: "snd (rocblas_internal_ger_launcher (\<lambda>p. (1::int)) Float handle_host 3 4 0 0
                 (Ptr 0) 0 (- 1) 0 (Ptr 100) 0 (- 3) 0 (Ptr 200) 0 3 0 1) = [l]"
      "g_shiftx (ger_launch_args l) = (if (- 1::int) < 0 then 0 - (- 1) * (3 - 1) else 0)"
      "g_shifty (ger_launch_args l) = (if (- 3::int) < 0 then 0 - (- 3) * (4 - 1) else 0)"
    using t[THEN conjunct2, THEN mp, OF h(2)] by blast
  show ?thesis unfolding a(1) l(1) using a(2,3) l(2,3) by simp
qed


subsection \<open>The self-dot fast path\<close>

lemma magsq_thread_eq:
  assumes "a_ya a = a_xa a" "a_shifty a = a_shiftx a" "a_stridey a = a_stridex a" "a_incy a = a_incx a"
  shows "dot_kernel_magsq_thread cj mem ONE_BLOCK NB WIN a = dot_kernel_thread cj mem ONE_BLOCK NB WIN a"
  by (intro ext) (simp add: dot_kernel_magsq_thread_def dot_kernel_thread_def Let_def assms)

lemma magsq_thread_reads_x_only:
  "dot_kernel_magsq_thread cj mem ONE_BLOCK NB WIN
     (a\<lparr>a_ya := y', a_shifty := shifty', a_incy := incy', a_stridey := stridey'\<rparr>)
   = dot_kernel_magsq_thread cj mem ONE_BLOCK NB WIN a"
  by (intro ext) (simp add: dot_kernel_magsq_thread_def)

lemma dot_loop_block_cong_a:
  "dot_loop_block cfg warpSize thread ONE_BLOCK NB
     (a\<lparr>a_ya := y', a_shifty := shifty', a_incy := incy', a_stridey := stridey'\<rparr>)
   = dot_loop_block cfg warpSize thread ONE_BLOCK NB a"
  by (intro ext) (simp add: dot_loop_block_def)

lemma magsq_writes_eq:
  assumes "a_ya a = a_xa a" "a_shifty a = a_shiftx a" "a_stridey a = a_stridex a" "a_incy a = a_incx a"
  shows "dot_kernel_writes cfg warpSize cj mem (Dot_kernel_magsq ONE_BLOCK NB WIN) grid threads a
       = dot_kernel_writes cfg warpSize cj mem (Dot_kernel ONE_BLOCK NB WIN) grid threads a"
  by (simp add: dot_kernel_writes_def magsq_thread_eq[OF assms])

lemma magsq_writes_reads_x_only:
  "dot_kernel_writes cfg warpSize cj mem (Dot_kernel_magsq ONE_BLOCK NB WIN) grid threads
     (a\<lparr>a_ya := y', a_shifty := shifty', a_incy := incy', a_stridey := stridey'\<rparr>)
   = dot_kernel_writes cfg warpSize cj mem (Dot_kernel_magsq ONE_BLOCK NB WIN) grid threads a"
  by (simp add: dot_kernel_writes_def magsq_thread_reads_x_only dot_loop_block_cong_a)

lemma inc1_thread_eq:
  assumes "a_ya a = a_xa a" "a_shifty a = a_shiftx a" "a_stridey a = a_stridex a" "a_incx a = 1"
    and "ONE_BLOCK \<longrightarrow> gridDim_x = 1"
  shows "dot_kernel_inc1_thread cj mem ONE_BLOCK NB WIN a gridDim_x
         = dot_kernel_magsq_thread cj mem ONE_BLOCK NB WIN a gridDim_x"
  using assms
  by (intro ext) (auto simp: dot_kernel_magsq_thread_def dot_kernel_inc1_thread_def Let_def)

lemma inc1by2_thread_eq:
  assumes "a_ya a = a_xa a" "a_shifty a = a_shiftx a" "a_stridey a = a_stridex a" "a_incx a = 1"
    and "ONE_BLOCK \<longrightarrow> gridDim_x = 1"
    and "\<not> (a_T a = Half \<or> a_T a = Bfloat16 \<or> a_T a = Float)"
  shows "dot_kernel_inc1by2_thread cj mem ONE_BLOCK NB WIN a gridDim_x
         = dot_kernel_magsq_thread cj mem ONE_BLOCK NB WIN a gridDim_x"
  using assms
  by (intro ext) (auto simp: dot_kernel_magsq_thread_def dot_kernel_inc1by2_thread_def Let_def)

lemma unit_inc_writes_eq:
  assumes "a_ya a = a_xa a" "a_shifty a = a_shiftx a" "a_stridey a = a_stridex a" "a_incx a = 1"
    and "ONE_BLOCK \<longrightarrow> fst grid = 1"
  shows "dot_kernel_writes cfg warpSize cj mem (Dot_kernel_inc1 ONE_BLOCK NB WIN) grid threads a
         = dot_kernel_writes cfg warpSize cj mem (Dot_kernel_magsq ONE_BLOCK NB WIN) grid threads a"
    and "\<not> (a_T a = Half \<or> a_T a = Bfloat16 \<or> a_T a = Float) \<Longrightarrow>
         dot_kernel_writes cfg warpSize cj mem (Dot_kernel_inc1by2 ONE_BLOCK NB WIN) grid threads a
         = dot_kernel_writes cfg warpSize cj mem (Dot_kernel_magsq ONE_BLOCK NB WIN) grid threads a"
proof -
  obtain gx gy gz where g: "grid = (gx, gy, gz)" by (cases grid) auto
  obtain tx ty tz where t: "threads = (tx, ty, tz)" by (cases threads) auto
  have ob: "ONE_BLOCK \<longrightarrow> gx = 1" using assms(5) g by simp
  show "dot_kernel_writes cfg warpSize cj mem (Dot_kernel_inc1 ONE_BLOCK NB WIN) grid threads a
         = dot_kernel_writes cfg warpSize cj mem (Dot_kernel_magsq ONE_BLOCK NB WIN) grid threads a"
    unfolding g t
    by (simp add: dot_kernel_writes_def dot_loop_block_def inc1_thread_eq[OF assms(1-4) ob])
  show "dot_kernel_writes cfg warpSize cj mem (Dot_kernel_inc1by2 ONE_BLOCK NB WIN) grid threads a
         = dot_kernel_writes cfg warpSize cj mem (Dot_kernel_magsq ONE_BLOCK NB WIN) grid threads a"
    if "\<not> (a_T a = Half \<or> a_T a = Bfloat16 \<or> a_T a = Float)"
    unfolding g t
    by (simp add: dot_kernel_writes_def dot_loop_block_def inc1by2_thread_eq[OF assms(1-4) ob that])
qed


lemma self_dispatch_one_block:
  assumes "0 < n" and "batch_count \<noteq> 0" and "\<not> (n \<le> 1024 \<and> batch_count \<ge> 256)"
    and "n \<le> rocblas_dot_one_block_threshold T"
  shows "filter is_launch (snd (rocblas_internal_dot_launcher cfg hip NB CONJ T V handle
              n x offsetx incx stridex x offsetx incx stridex batch_count))
        = Launch_dot (Dot_kernel_magsq True 1024 32) (1, 1, getBatchGridDim handle batch_count) (1024, 1, 1)
            (dot_call_args CONJ T n x offsetx incx stridex x offsetx incx stridex batch_count
               (dot_output handle (batch_count * fst (1, 1, getBatchGridDim handle batch_count))))
          # filter is_part2 (snd (rocblas_internal_dot_launcher cfg hip NB CONJ T V handle
              n x offsetx incx stridex x offsetx incx stridex batch_count))
      \<and> (\<forall>y' shifty' incy' stridey'.
            exec_action cfg warpSize cj mem st
              (Launch_dot (Dot_kernel_magsq True 1024 32) (1, 1, getBatchGridDim handle batch_count) (1024, 1, 1)
                 ((dot_call_args CONJ T n x offsetx incx stridex x offsetx incx stridex batch_count
               (dot_output handle (batch_count * fst (1, 1, getBatchGridDim handle batch_count))))
                  \<lparr>a_ya := y', a_shifty := shifty', a_incy := incy', a_stridey := stridey'\<rparr>))
            = exec_action cfg warpSize cj mem st
              (Launch_dot (Dot_kernel_magsq True 1024 32) (1, 1, getBatchGridDim handle batch_count) (1024, 1, 1)
                 (dot_call_args CONJ T n x offsetx incx stridex x offsetx incx stridex batch_count
               (dot_output handle (batch_count * fst (1, 1, getBatchGridDim handle batch_count))))))
      \<and> (\<forall>y offsety stridey.
            (operand_addr x \<noteq> operand_addr y \<or> offsetx \<noteq> offsety \<or> stridex \<noteq> stridey)
            \<and> \<not> (getArch handle = 942 \<and> ((V = Float \<and> T = Float) \<or> (V = Double \<and> T = Double))
                   \<and> n > rocblas_dot_one_block_threshold T \<and> n > sddot_gfx942_lower_threshold cfg)
            \<longrightarrow> (\<exists>K. filter is_launch (snd (rocblas_internal_dot_launcher cfg hip NB CONJ T V handle
              n x offsetx incx stridex y offsety incx stridey batch_count))
                       = Launch_dot K (1, 1, getBatchGridDim handle batch_count) (1024, 1, 1)
                           (dot_call_args CONJ T n x offsetx incx stridex y offsety incx stridey batch_count
               (dot_output handle (batch_count * fst (1, 1, getBatchGridDim handle batch_count))))
                         # filter is_part2 (snd (rocblas_internal_dot_launcher cfg hip NB CONJ T V handle
              n x offsetx incx stridex x offsetx incx stridex batch_count))
                     \<and> (\<not> (incx = 1 \<and> n \<le> rocblas_dot_one_block_threshold T
                             \<and> (T = Half \<or> T = Bfloat16 \<or> T = Float))
                          \<longrightarrow> exec_action cfg warpSize cj mem st
                                 (Launch_dot K (1, 1, getBatchGridDim handle batch_count) (1024, 1, 1)
                                    (dot_call_args CONJ T n x offsetx incx stridex x offsetx incx stridex batch_count
               (dot_output handle (batch_count * fst (1, 1, getBatchGridDim handle batch_count)))))
                               = exec_action cfg warpSize cj mem (st :: 'a::{zero,plus,times} dot_state)
                                 (Launch_dot (Dot_kernel_magsq True 1024 32) (1, 1, getBatchGridDim handle batch_count) (1024, 1, 1)
                                    (dot_call_args CONJ T n x offsetx incx stridex x offsetx incx stridex batch_count
               (dot_output handle (batch_count * fst (1, 1, getBatchGridDim handle batch_count))))))))"
proof (intro conjI allI impI)
  show "filter is_launch (snd (rocblas_internal_dot_launcher cfg hip NB CONJ T V handle
              n x offsetx incx stridex x offsetx incx stridex batch_count))
        = Launch_dot (Dot_kernel_magsq True 1024 32) (1, 1, getBatchGridDim handle batch_count) (1024, 1, 1)
            (dot_call_args CONJ T n x offsetx incx stridex x offsetx incx stridex batch_count
               (dot_output handle (batch_count * fst (1, 1, getBatchGridDim handle batch_count))))
          # filter is_part2 (snd (rocblas_internal_dot_launcher cfg hip NB CONJ T V handle
              n x offsetx incx stridex x offsetx incx stridex batch_count))"
    unfolding launcher_one_block[OF assms(1-4)] by (simp add: dot_copy_back_def)
next
  fix y' shifty' incy' stridey'
  show "exec_action cfg warpSize cj mem st
              (Launch_dot (Dot_kernel_magsq True 1024 32) (1, 1, getBatchGridDim handle batch_count) (1024, 1, 1)
                 ((dot_call_args CONJ T n x offsetx incx stridex x offsetx incx stridex batch_count
               (dot_output handle (batch_count * fst (1, 1, getBatchGridDim handle batch_count))))
                  \<lparr>a_ya := y', a_shifty := shifty', a_incy := incy', a_stridey := stridey'\<rparr>))
            = exec_action cfg warpSize cj mem st
              (Launch_dot (Dot_kernel_magsq True 1024 32) (1, 1, getBatchGridDim handle batch_count) (1024, 1, 1)
                 (dot_call_args CONJ T n x offsetx incx stridex x offsetx incx stridex batch_count
               (dot_output handle (batch_count * fst (1, 1, getBatchGridDim handle batch_count)))))"
    by (simp add: magsq_writes_reads_x_only)
next
  fix y offsety stridey
  assume h: "(operand_addr x \<noteq> operand_addr y \<or> offsetx \<noteq> offsety \<or> stridex \<noteq> stridey)
            \<and> \<not> (getArch handle = 942 \<and> ((V = Float \<and> T = Float) \<or> (V = Double \<and> T = Double))
                   \<and> n > rocblas_dot_one_block_threshold T \<and> n > sddot_gfx942_lower_threshold cfg)"
  have d: "(operand_addr x \<noteq> operand_addr y \<or> incx \<noteq> incx \<or> offsetx \<noteq> offsety \<or> stridex \<noteq> stridey) = True"
    using h by simp
  have l: "filter is_launch (snd (rocblas_internal_dot_launcher cfg hip NB CONJ T V handle
              n x offsetx incx stridex y offsety incx stridey batch_count))
                       = Launch_dot (if incx = 1 then Dot_kernel_inc1by2 True 1024 32 else Dot_kernel True 1024 32) (1, 1, getBatchGridDim handle batch_count) (1024, 1, 1)
                           (dot_call_args CONJ T n x offsetx incx stridex y offsety incx stridey batch_count
               (dot_output handle (batch_count * fst (1, 1, getBatchGridDim handle batch_count))))
                         # filter is_part2 (snd (rocblas_internal_dot_launcher cfg hip NB CONJ T V handle
              n x offsetx incx stridex x offsetx incx stridex batch_count))"
    unfolding launcher_one_block[OF assms(1-4)] launcher_one_block[OF assms(1-4)] d
    by (simp add: dot_copy_back_def)
  have e: "exec_action cfg warpSize cj mem st
                                 (Launch_dot (if incx = 1 then Dot_kernel_inc1by2 True 1024 32 else Dot_kernel True 1024 32) (1, 1, getBatchGridDim handle batch_count) (1024, 1, 1)
                                    (dot_call_args CONJ T n x offsetx incx stridex x offsetx incx stridex batch_count
               (dot_output handle (batch_count * fst (1, 1, getBatchGridDim handle batch_count)))))
                               = exec_action cfg warpSize cj mem st
                                 (Launch_dot (Dot_kernel_magsq True 1024 32) (1, 1, getBatchGridDim handle batch_count) (1024, 1, 1)
                                    (dot_call_args CONJ T n x offsetx incx stridex x offsetx incx stridex batch_count
               (dot_output handle (batch_count * fst (1, 1, getBatchGridDim handle batch_count)))))"
    if ne: "\<not> (incx = 1 \<and> n \<le> rocblas_dot_one_block_threshold T
                             \<and> (T = Half \<or> T = Bfloat16 \<or> T = Float))"
      proof (cases "incx = 1")
        case True
        have nf: "\<not> (a_T (dot_call_args CONJ T n x offsetx incx stridex x offsetx incx stridex batch_count
               (dot_output handle (batch_count * fst (1, 1, getBatchGridDim handle batch_count)))) = Half \<or> a_T (dot_call_args CONJ T n x offsetx incx stridex x offsetx incx stridex batch_count
               (dot_output handle (batch_count * fst (1, 1, getBatchGridDim handle batch_count)))) = Bfloat16 \<or> a_T (dot_call_args CONJ T n x offsetx incx stridex x offsetx incx stridex batch_count
               (dot_output handle (batch_count * fst (1, 1, getBatchGridDim handle batch_count)))) = Float)"
          using ne True assms(4) by (simp add: dot_call_args_def)
        have k: "(if incx = 1 then Dot_kernel_inc1by2 True 1024 32 else Dot_kernel True 1024 32)
                 = Dot_kernel_inc1by2 True 1024 32"
          using True by simp
        show ?thesis
          unfolding exec_action.simps k
          by (subst unit_inc_writes_eq(2)[where ONE_BLOCK = True, OF _ _ _ _ _ nf])
             (simp_all add: True dot_call_args_def)
      next
        case False
        then show ?thesis
          by (simp add: magsq_writes_eq dot_call_args_def)
      qed
  show "\<exists>K. filter is_launch (snd (rocblas_internal_dot_launcher cfg hip NB CONJ T V handle
              n x offsetx incx stridex y offsety incx stridey batch_count))
                       = Launch_dot K (1, 1, getBatchGridDim handle batch_count) (1024, 1, 1)
                           (dot_call_args CONJ T n x offsetx incx stridex y offsety incx stridey batch_count
               (dot_output handle (batch_count * fst (1, 1, getBatchGridDim handle batch_count))))
                         # filter is_part2 (snd (rocblas_internal_dot_launcher cfg hip NB CONJ T V handle
              n x offsetx incx stridex x offsetx incx stridex batch_count))
                     \<and> (\<not> (incx = 1 \<and> n \<le> rocblas_dot_one_block_threshold T
                             \<and> (T = Half \<or> T = Bfloat16 \<or> T = Float))
                          \<longrightarrow> exec_action cfg warpSize cj mem st
                                 (Launch_dot K (1, 1, getBatchGridDim handle batch_count) (1024, 1, 1)
                                    (dot_call_args CONJ T n x offsetx incx stridex x offsetx incx stridex batch_count
               (dot_output handle (batch_count * fst (1, 1, getBatchGridDim handle batch_count)))))
                               = exec_action cfg warpSize cj mem st
                                 (Launch_dot (Dot_kernel_magsq True 1024 32) (1, 1, getBatchGridDim handle batch_count) (1024, 1, 1)
                                    (dot_call_args CONJ T n x offsetx incx stridex x offsetx incx stridex batch_count
               (dot_output handle (batch_count * fst (1, 1, getBatchGridDim handle batch_count))))))"
    using l e by blast
qed

lemma self_dispatch_two_phase:
  assumes "0 < n" and "batch_count \<noteq> 0" and "\<not> (n \<le> 1024 \<and> batch_count \<ge> 256)"
    and "\<not> n \<le> rocblas_dot_one_block_threshold T"
  shows "filter is_launch (snd (rocblas_internal_dot_launcher cfg hip NB CONJ T V handle
              n x offsetx incx stridex x offsetx incx stridex batch_count))
        = Launch_dot (Dot_kernel_magsq False NB (rocblas_dot_WIN T)) (rocblas_reduction_kernel_block_count n (NB * rocblas_dot_WIN T), 1,
             getBatchGridDim handle batch_count) (NB, 1, 1)
            (dot_call_args CONJ T n x offsetx incx stridex x offsetx incx stridex batch_count
               (dot_output handle (batch_count * fst (rocblas_reduction_kernel_block_count n (NB * rocblas_dot_WIN T), 1,
             getBatchGridDim handle batch_count))))
          # filter is_part2 (snd (rocblas_internal_dot_launcher cfg hip NB CONJ T V handle
              n x offsetx incx stridex x offsetx incx stridex batch_count))
      \<and> (\<forall>y' shifty' incy' stridey'.
            exec_action cfg warpSize cj mem st
              (Launch_dot (Dot_kernel_magsq False NB (rocblas_dot_WIN T)) (rocblas_reduction_kernel_block_count n (NB * rocblas_dot_WIN T), 1,
             getBatchGridDim handle batch_count) (NB, 1, 1)
                 ((dot_call_args CONJ T n x offsetx incx stridex x offsetx incx stridex batch_count
               (dot_output handle (batch_count * fst (rocblas_reduction_kernel_block_count n (NB * rocblas_dot_WIN T), 1,
             getBatchGridDim handle batch_count))))
                  \<lparr>a_ya := y', a_shifty := shifty', a_incy := incy', a_stridey := stridey'\<rparr>))
            = exec_action cfg warpSize cj mem st
              (Launch_dot (Dot_kernel_magsq False NB (rocblas_dot_WIN T)) (rocblas_reduction_kernel_block_count n (NB * rocblas_dot_WIN T), 1,
             getBatchGridDim handle batch_count) (NB, 1, 1)
                 (dot_call_args CONJ T n x offsetx incx stridex x offsetx incx stridex batch_count
               (dot_output handle (batch_count * fst (rocblas_reduction_kernel_block_count n (NB * rocblas_dot_WIN T), 1,
             getBatchGridDim handle batch_count))))))
      \<and> (\<forall>y offsety stridey.
            (operand_addr x \<noteq> operand_addr y \<or> offsetx \<noteq> offsety \<or> stridex \<noteq> stridey)
            \<and> \<not> (getArch handle = 942 \<and> ((V = Float \<and> T = Float) \<or> (V = Double \<and> T = Double))
                   \<and> n > rocblas_dot_one_block_threshold T \<and> n > sddot_gfx942_lower_threshold cfg)
            \<longrightarrow> (\<exists>K. filter is_launch (snd (rocblas_internal_dot_launcher cfg hip NB CONJ T V handle
              n x offsetx incx stridex y offsety incx stridey batch_count))
                       = Launch_dot K (rocblas_reduction_kernel_block_count n (NB * rocblas_dot_WIN T), 1,
             getBatchGridDim handle batch_count) (NB, 1, 1)
                           (dot_call_args CONJ T n x offsetx incx stridex y offsety incx stridey batch_count
               (dot_output handle (batch_count * fst (rocblas_reduction_kernel_block_count n (NB * rocblas_dot_WIN T), 1,
             getBatchGridDim handle batch_count))))
                         # filter is_part2 (snd (rocblas_internal_dot_launcher cfg hip NB CONJ T V handle
              n x offsetx incx stridex x offsetx incx stridex batch_count))
                     \<and> (\<not> (incx = 1 \<and> n \<le> rocblas_dot_one_block_threshold T
                             \<and> (T = Half \<or> T = Bfloat16 \<or> T = Float))
                          \<longrightarrow> exec_action cfg warpSize cj mem st
                                 (Launch_dot K (rocblas_reduction_kernel_block_count n (NB * rocblas_dot_WIN T), 1,
             getBatchGridDim handle batch_count) (NB, 1, 1)
                                    (dot_call_args CONJ T n x offsetx incx stridex x offsetx incx stridex batch_count
               (dot_output handle (batch_count * fst (rocblas_reduction_kernel_block_count n (NB * rocblas_dot_WIN T), 1,
             getBatchGridDim handle batch_count)))))
                               = exec_action cfg warpSize cj mem (st :: 'a::{zero,plus,times} dot_state)
                                 (Launch_dot (Dot_kernel_magsq False NB (rocblas_dot_WIN T)) (rocblas_reduction_kernel_block_count n (NB * rocblas_dot_WIN T), 1,
             getBatchGridDim handle batch_count) (NB, 1, 1)
                                    (dot_call_args CONJ T n x offsetx incx stridex x offsetx incx stridex batch_count
               (dot_output handle (batch_count * fst (rocblas_reduction_kernel_block_count n (NB * rocblas_dot_WIN T), 1,
             getBatchGridDim handle batch_count))))))))"
proof (intro conjI allI impI)
  have gs: "\<not> (getArch handle = 942 \<and> ((V = Float \<and> T = Float) \<or> (V = Double \<and> T = Double))
        \<and> n > sddot_gfx942_lower_threshold cfg
        \<and> (operand_addr x \<noteq> operand_addr x \<or> incx \<noteq> incx \<or> offsetx \<noteq> offsetx \<or> stridex \<noteq> stridex))"
    by simp
  show "filter is_launch (snd (rocblas_internal_dot_launcher cfg hip NB CONJ T V handle
              n x offsetx incx stridex x offsetx incx stridex batch_count))
        = Launch_dot (Dot_kernel_magsq False NB (rocblas_dot_WIN T)) (rocblas_reduction_kernel_block_count n (NB * rocblas_dot_WIN T), 1,
             getBatchGridDim handle batch_count) (NB, 1, 1)
            (dot_call_args CONJ T n x offsetx incx stridex x offsetx incx stridex batch_count
               (dot_output handle (batch_count * fst (rocblas_reduction_kernel_block_count n (NB * rocblas_dot_WIN T), 1,
             getBatchGridDim handle batch_count))))
          # filter is_part2 (snd (rocblas_internal_dot_launcher cfg hip NB CONJ T V handle
              n x offsetx incx stridex x offsetx incx stridex batch_count))"
    unfolding launcher_two_phase[OF assms(1-4) gs] by (simp add: dot_copy_back_def)
next
  fix y' shifty' incy' stridey'
  show "exec_action cfg warpSize cj mem st
              (Launch_dot (Dot_kernel_magsq False NB (rocblas_dot_WIN T)) (rocblas_reduction_kernel_block_count n (NB * rocblas_dot_WIN T), 1,
             getBatchGridDim handle batch_count) (NB, 1, 1)
                 ((dot_call_args CONJ T n x offsetx incx stridex x offsetx incx stridex batch_count
               (dot_output handle (batch_count * fst (rocblas_reduction_kernel_block_count n (NB * rocblas_dot_WIN T), 1,
             getBatchGridDim handle batch_count))))
                  \<lparr>a_ya := y', a_shifty := shifty', a_incy := incy', a_stridey := stridey'\<rparr>))
            = exec_action cfg warpSize cj mem st
              (Launch_dot (Dot_kernel_magsq False NB (rocblas_dot_WIN T)) (rocblas_reduction_kernel_block_count n (NB * rocblas_dot_WIN T), 1,
             getBatchGridDim handle batch_count) (NB, 1, 1)
                 (dot_call_args CONJ T n x offsetx incx stridex x offsetx incx stridex batch_count
               (dot_output handle (batch_count * fst (rocblas_reduction_kernel_block_count n (NB * rocblas_dot_WIN T), 1,
             getBatchGridDim handle batch_count)))))"
    by (simp add: magsq_writes_reads_x_only)
next
  fix y offsety stridey
  assume h: "(operand_addr x \<noteq> operand_addr y \<or> offsetx \<noteq> offsety \<or> stridex \<noteq> stridey)
            \<and> \<not> (getArch handle = 942 \<and> ((V = Float \<and> T = Float) \<or> (V = Double \<and> T = Double))
                   \<and> n > rocblas_dot_one_block_threshold T \<and> n > sddot_gfx942_lower_threshold cfg)"
  have d: "(operand_addr x \<noteq> operand_addr y \<or> incx \<noteq> incx \<or> offsetx \<noteq> offsety \<or> stridex \<noteq> stridey) = True"
    using h by simp
  have gs: "\<not> (getArch handle = 942 \<and> ((V = Float \<and> T = Float) \<or> (V = Double \<and> T = Double))
        \<and> n > sddot_gfx942_lower_threshold cfg
        \<and> (operand_addr x \<noteq> operand_addr x \<or> incx \<noteq> incx \<or> offsetx \<noteq> offsetx \<or> stridex \<noteq> stridex))"
    by simp
  have gy: "\<not> (getArch handle = 942 \<and> ((V = Float \<and> T = Float) \<or> (V = Double \<and> T = Double))
        \<and> n > sddot_gfx942_lower_threshold cfg
        \<and> (operand_addr x \<noteq> operand_addr y \<or> incx \<noteq> incx \<or> offsetx \<noteq> offsety \<or> stridex \<noteq> stridey))"
    using h assms(4) by auto
  have l: "filter is_launch (snd (rocblas_internal_dot_launcher cfg hip NB CONJ T V handle
              n x offsetx incx stridex y offsety incx stridey batch_count))
                       = Launch_dot (if incx = 1 then Dot_kernel_inc1 False NB (rocblas_dot_WIN T) else Dot_kernel False NB (rocblas_dot_WIN T)) (rocblas_reduction_kernel_block_count n (NB * rocblas_dot_WIN T), 1,
             getBatchGridDim handle batch_count) (NB, 1, 1)
                           (dot_call_args CONJ T n x offsetx incx stridex y offsety incx stridey batch_count
               (dot_output handle (batch_count * fst (rocblas_reduction_kernel_block_count n (NB * rocblas_dot_WIN T), 1,
             getBatchGridDim handle batch_count))))
                         # filter is_part2 (snd (rocblas_internal_dot_launcher cfg hip NB CONJ T V handle
              n x offsetx incx stridex x offsetx incx stridex batch_count))"
    unfolding launcher_two_phase[OF assms(1-4) gy] launcher_two_phase[OF assms(1-4) gs] d
    by (simp add: dot_copy_back_def)
  have e: "exec_action cfg warpSize cj mem st
                                 (Launch_dot (if incx = 1 then Dot_kernel_inc1 False NB (rocblas_dot_WIN T) else Dot_kernel False NB (rocblas_dot_WIN T)) (rocblas_reduction_kernel_block_count n (NB * rocblas_dot_WIN T), 1,
             getBatchGridDim handle batch_count) (NB, 1, 1)
                                    (dot_call_args CONJ T n x offsetx incx stridex x offsetx incx stridex batch_count
               (dot_output handle (batch_count * fst (rocblas_reduction_kernel_block_count n (NB * rocblas_dot_WIN T), 1,
             getBatchGridDim handle batch_count)))))
                               = exec_action cfg warpSize cj mem st
                                 (Launch_dot (Dot_kernel_magsq False NB (rocblas_dot_WIN T)) (rocblas_reduction_kernel_block_count n (NB * rocblas_dot_WIN T), 1,
             getBatchGridDim handle batch_count) (NB, 1, 1)
                                    (dot_call_args CONJ T n x offsetx incx stridex x offsetx incx stridex batch_count
               (dot_output handle (batch_count * fst (rocblas_reduction_kernel_block_count n (NB * rocblas_dot_WIN T), 1,
             getBatchGridDim handle batch_count)))))"
    if ne: "\<not> (incx = 1 \<and> n \<le> rocblas_dot_one_block_threshold T
                             \<and> (T = Half \<or> T = Bfloat16 \<or> T = Float))"
      proof (cases "incx = 1")
        case True
        have k: "(if incx = 1 then Dot_kernel_inc1 False NB (rocblas_dot_WIN T)
                  else Dot_kernel False NB (rocblas_dot_WIN T))
                 = Dot_kernel_inc1 False NB (rocblas_dot_WIN T)"
          using True by simp
        show ?thesis
          unfolding exec_action.simps k
          by (subst unit_inc_writes_eq(1)[where ONE_BLOCK = False])
             (simp_all add: True dot_call_args_def)
      next
        case False
        then show ?thesis
          by (simp add: magsq_writes_eq dot_call_args_def)
      qed
  show "\<exists>K. filter is_launch (snd (rocblas_internal_dot_launcher cfg hip NB CONJ T V handle
              n x offsetx incx stridex y offsety incx stridey batch_count))
                       = Launch_dot K (rocblas_reduction_kernel_block_count n (NB * rocblas_dot_WIN T), 1,
             getBatchGridDim handle batch_count) (NB, 1, 1)
                           (dot_call_args CONJ T n x offsetx incx stridex y offsety incx stridey batch_count
               (dot_output handle (batch_count * fst (rocblas_reduction_kernel_block_count n (NB * rocblas_dot_WIN T), 1,
             getBatchGridDim handle batch_count))))
                         # filter is_part2 (snd (rocblas_internal_dot_launcher cfg hip NB CONJ T V handle
              n x offsetx incx stridex x offsetx incx stridex batch_count))
                     \<and> (\<not> (incx = 1 \<and> n \<le> rocblas_dot_one_block_threshold T
                             \<and> (T = Half \<or> T = Bfloat16 \<or> T = Float))
                          \<longrightarrow> exec_action cfg warpSize cj mem st
                                 (Launch_dot K (rocblas_reduction_kernel_block_count n (NB * rocblas_dot_WIN T), 1,
             getBatchGridDim handle batch_count) (NB, 1, 1)
                                    (dot_call_args CONJ T n x offsetx incx stridex x offsetx incx stridex batch_count
               (dot_output handle (batch_count * fst (rocblas_reduction_kernel_block_count n (NB * rocblas_dot_WIN T), 1,
             getBatchGridDim handle batch_count)))))
                               = exec_action cfg warpSize cj mem st
                                 (Launch_dot (Dot_kernel_magsq False NB (rocblas_dot_WIN T)) (rocblas_reduction_kernel_block_count n (NB * rocblas_dot_WIN T), 1,
             getBatchGridDim handle batch_count) (NB, 1, 1)
                                    (dot_call_args CONJ T n x offsetx incx stridex x offsetx incx stridex batch_count
               (dot_output handle (batch_count * fst (rocblas_reduction_kernel_block_count n (NB * rocblas_dot_WIN T), 1,
             getBatchGridDim handle batch_count))))))"
    using l e by blast
qed

text \<open>
  C5, as stated, fails at three kinds of input.  In the small-n/high-batch case, with
  identical descriptors for \<open>x\<close> and \<open>y\<close>, \<open>n = 5\<close> and \<open>batch_count = 256\<close>, the launcher
  starts the batched kernel, which reads both operands, not the squared-magnitude kernel.
  For \<open>float\<close> with unit increments and \<open>n = 3\<close> the two-operand path is
  \<open>rocblas_dot_kernel_inc1by2\<close>, which partitions the elements differently: on \<open>x = [1, 2, 3]\<close>
  its thread 0 sums \<open>x[0] * x[0] + x[1] * x[1] = 5\<close>, while thread 0 of the squared-magnitude
  kernel sums \<open>x[0] * x[0] = 1\<close>.  On gfx942, for \<open>float\<close> with \<open>n = 2000000\<close> above both
  thresholds, the two-operand path is \<open>rocblas_dot_kernel_gfx942_float_double\<close> with blocks of
  1024 threads, while the aliased call runs the squared-magnitude kernel with blocks of 512.
\<close>

theorem dot_self_dispatch_counterexample:
  "concat (map launch_dot_kernel
     (snd (rocblas_internal_dot_launcher cfg_plain hip_ok 512 False Float Float handle_device
             5 (Ptr 0) 0 1 5 (Ptr 0) 0 1 5 256)))
   = [Dot_batched_4_kernel 64 4]
   \<and> concat (map launch_dot_kernel
     (snd (rocblas_internal_dot_launcher cfg_plain hip_ok 512 False Float Float handle_device
             3 (Ptr 0) 0 1 0 (Ptr 100) 0 1 0 1)))
   = [Dot_kernel_inc1by2 True 1024 32]
   \<and> snd (dot_kernel_inc1by2_thread (\<lambda>v. v) (\<lambda>a. a + 1) True 1024 32
            (dot_call_args False Float 3 (Ptr 0) 0 1 0 (Ptr 0) 0 1 0 1 Out_results) 1 0 0) = (5::int)
   \<and> snd (dot_kernel_magsq_thread (\<lambda>v. v) (\<lambda>a. a + 1) True 1024 32
            (dot_call_args False Float 3 (Ptr 0) 0 1 0 (Ptr 0) 0 1 0 1 Out_results) 1 0 0) = (1::int)
   \<and> concat (map launch_dot_kernel
     (snd (rocblas_internal_dot_launcher cfg_plain hip_ok 512 False Float Float handle_gfx942
             2000000 (Ptr 0) 0 1 0 (Ptr 2000000) 0 1 0 1)))
   = [Dot_kernel_gfx942_float_double 1024]
   \<and> concat (map launch_dot_kernel
     (snd (rocblas_internal_dot_launcher cfg_plain hip_ok 512 False Float Float handle_gfx942
             2000000 (Ptr 0) 0 1 0 (Ptr 0) 0 1 0 1)))
   = [Dot_kernel_magsq False 512 4]"
proof -
  have a: "concat (map launch_dot_kernel
     (snd (rocblas_internal_dot_launcher cfg_plain hip_ok 512 False Float Float handle_device
             5 (Ptr 0) 0 1 5 (Ptr 0) 0 1 5 256)))
   = [Dot_batched_4_kernel 64 4]"
    by (simp add: rocblas_internal_dot_launcher_def Let_def dot_copy_back_def handle_device_def
      WARP_32_def WARP_64_def)
  have b: "concat (map launch_dot_kernel
     (snd (rocblas_internal_dot_launcher cfg_plain hip_ok 512 False Float Float handle_device
             3 (Ptr 0) 0 1 0 (Ptr 100) 0 1 0 1)))
   = [Dot_kernel_inc1by2 True 1024 32]"
    by (simp add: rocblas_internal_dot_launcher_def Let_def dot_copy_back_def handle_device_def
      rocblas_dot_one_block_threshold_def rocblas_reduction_kernel_block_count_def)
  have c: "snd (dot_kernel_inc1by2_thread (\<lambda>v. v) (\<lambda>a. a + 1) True 1024 32
            (dot_call_args False Float 3 (Ptr 0) 0 1 0 (Ptr 0) 0 1 0 1 Out_results) 1 0 0) = (5::int)"
    by (simp add: dot_kernel_inc1by2_thread_def dot_call_args_def Let_def numeral_eq_Suc)
  have d: "snd (dot_kernel_magsq_thread (\<lambda>v. v) (\<lambda>a. a + 1) True 1024 32
            (dot_call_args False Float 3 (Ptr 0) 0 1 0 (Ptr 0) 0 1 0 1 Out_results) 1 0 0) = (1::int)"
    by (simp add: dot_kernel_magsq_thread_def dot_call_args_def Let_def numeral_eq_Suc)
  have e: "concat (map launch_dot_kernel
     (snd (rocblas_internal_dot_launcher cfg_plain hip_ok 512 False Float Float handle_gfx942
             2000000 (Ptr 0) 0 1 0 (Ptr 2000000) 0 1 0 1)))
   = [Dot_kernel_gfx942_float_double 1024]"
    by (simp add: rocblas_internal_dot_launcher_def Let_def dot_copy_back_def handle_gfx942_def
      cfg_plain_def rocblas_dot_one_block_threshold_def rocblas_reduction_kernel_block_count_def)
  have f: "concat (map launch_dot_kernel
     (snd (rocblas_internal_dot_launcher cfg_plain hip_ok 512 False Float Float handle_gfx942
             2000000 (Ptr 0) 0 1 0 (Ptr 0) 0 1 0 1)))
   = [Dot_kernel_magsq False 512 4]"
    by (simp add: rocblas_internal_dot_launcher_def Let_def dot_copy_back_def handle_gfx942_def
      cfg_plain_def rocblas_dot_one_block_threshold_def rocblas_reduction_kernel_block_count_def
      rocblas_dot_WIN_def rocblas_dot_WIN_nb_def)
  show ?thesis by (intro conjI a b c d e f)
qed

lemma self_dispatch_magsq:
  assumes "0 < n" and "batch_count \<noteq> 0" and "\<not> (n \<le> 1024 \<and> batch_count \<ge> 256)"
  shows "\<exists>ONE_BLOCK NB' WIN' grid threads.
      filter is_launch (snd (rocblas_internal_dot_launcher cfg hip NB CONJ T V handle
              n x offsetx incx stridex x offsetx incx stridex batch_count))
        = Launch_dot (Dot_kernel_magsq ONE_BLOCK NB' WIN') grid threads
            (dot_call_args CONJ T n x offsetx incx stridex x offsetx incx stridex batch_count
               (dot_output handle (batch_count * fst grid)))
          # filter is_part2 (snd (rocblas_internal_dot_launcher cfg hip NB CONJ T V handle
              n x offsetx incx stridex x offsetx incx stridex batch_count))
      \<and> (\<forall>y' shifty' incy' stridey'.
            exec_action cfg warpSize cj mem st
              (Launch_dot (Dot_kernel_magsq ONE_BLOCK NB' WIN') grid threads
                 ((dot_call_args CONJ T n x offsetx incx stridex x offsetx incx stridex batch_count
               (dot_output handle (batch_count * fst grid)))
                  \<lparr>a_ya := y', a_shifty := shifty', a_incy := incy', a_stridey := stridey'\<rparr>))
            = exec_action cfg warpSize cj mem st
              (Launch_dot (Dot_kernel_magsq ONE_BLOCK NB' WIN') grid threads
                 (dot_call_args CONJ T n x offsetx incx stridex x offsetx incx stridex batch_count
               (dot_output handle (batch_count * fst grid)))))
      \<and> (\<forall>y offsety stridey.
            (operand_addr x \<noteq> operand_addr y \<or> offsetx \<noteq> offsety \<or> stridex \<noteq> stridey)
            \<and> \<not> (getArch handle = 942 \<and> ((V = Float \<and> T = Float) \<or> (V = Double \<and> T = Double))
                   \<and> n > rocblas_dot_one_block_threshold T \<and> n > sddot_gfx942_lower_threshold cfg)
            \<longrightarrow> (\<exists>K. filter is_launch (snd (rocblas_internal_dot_launcher cfg hip NB CONJ T V handle
              n x offsetx incx stridex y offsety incx stridey batch_count))
                       = Launch_dot K grid threads
                           (dot_call_args CONJ T n x offsetx incx stridex y offsety incx stridey batch_count
               (dot_output handle (batch_count * fst grid)))
                         # filter is_part2 (snd (rocblas_internal_dot_launcher cfg hip NB CONJ T V handle
              n x offsetx incx stridex x offsetx incx stridex batch_count))
                     \<and> (\<not> (incx = 1 \<and> n \<le> rocblas_dot_one_block_threshold T
                             \<and> (T = Half \<or> T = Bfloat16 \<or> T = Float))
                          \<longrightarrow> exec_action cfg warpSize cj mem st
                                 (Launch_dot K grid threads
                                    (dot_call_args CONJ T n x offsetx incx stridex x offsetx incx stridex batch_count
               (dot_output handle (batch_count * fst grid))))
                               = exec_action cfg warpSize cj mem (st :: 'a::{zero,plus,times} dot_state)
                                 (Launch_dot (Dot_kernel_magsq ONE_BLOCK NB' WIN') grid threads
                                    (dot_call_args CONJ T n x offsetx incx stridex x offsetx incx stridex batch_count
               (dot_output handle (batch_count * fst grid)))))))"
proof (cases "n \<le> rocblas_dot_one_block_threshold T")
  case True
  show ?thesis
    by (intro exI) (rule self_dispatch_one_block[OF assms True])
next
  case False
  show ?thesis
    by (intro exI) (rule self_dispatch_two_phase[OF assms False])
qed

text \<open>
  C5, amended.  For a dot call that is not a quick return and not the small-n/high-batch
  case (\<open>n \<le> 1024\<close> and \<open>batch_count \<ge> 256\<close>), with identical descriptors for \<open>x\<close> and \<open>y\<close>, the
  first kernel launched is the squared-magnitude kernel, followed at most by the finalize
  kernel; it does not use the descriptor of \<open>y\<close>.  In the small-n/high-batch case the launcher
  starts the batched kernel whatever the operands.  Otherwise take any second operand \<open>y\<close> whose
  descriptor differs from that of \<open>x\<close> in pointer, offset or stride, the increment being the
  same, outside the gfx942 case (\<open>float\<close> or \<open>double\<close> on gfx942 with \<open>n\<close> above both
  thresholds): for it the launcher starts a two-operand kernel \<open>K\<close> on the same grid and
  blocks, followed by the same finalize launches.  Unless \<open>K\<close> is the pairing kernel
  (\<open>half\<close>, \<open>bfloat16\<close> or \<open>float\<close> with unit increments in the one-block branch), running \<open>K\<close>
  on the aliased operands has the same effect on \<open>results\<close> and \<open>workspace\<close> as the
  squared-magnitude kernel, for every element type: the two kernels form the same per-thread
  sums in the same order and reduce them alike.
\<close>

theorem dot_self_dispatch:
  assumes "0 < n" and "batch_count \<noteq> 0"
  shows "(\<not> (n \<le> 1024 \<and> batch_count \<ge> 256) \<longrightarrow>
     (\<exists>ONE_BLOCK NB' WIN' grid threads.
      filter is_launch (snd (rocblas_internal_dot_launcher cfg hip NB CONJ T V handle
              n x offsetx incx stridex x offsetx incx stridex batch_count))
        = Launch_dot (Dot_kernel_magsq ONE_BLOCK NB' WIN') grid threads
            (dot_call_args CONJ T n x offsetx incx stridex x offsetx incx stridex batch_count
               (dot_output handle (batch_count * fst grid)))
          # filter is_part2 (snd (rocblas_internal_dot_launcher cfg hip NB CONJ T V handle
              n x offsetx incx stridex x offsetx incx stridex batch_count))
      \<and> (\<forall>y' shifty' incy' stridey'.
            exec_action cfg warpSize cj mem st
              (Launch_dot (Dot_kernel_magsq ONE_BLOCK NB' WIN') grid threads
                 ((dot_call_args CONJ T n x offsetx incx stridex x offsetx incx stridex batch_count
               (dot_output handle (batch_count * fst grid)))
                  \<lparr>a_ya := y', a_shifty := shifty', a_incy := incy', a_stridey := stridey'\<rparr>))
            = exec_action cfg warpSize cj mem st
              (Launch_dot (Dot_kernel_magsq ONE_BLOCK NB' WIN') grid threads
                 (dot_call_args CONJ T n x offsetx incx stridex x offsetx incx stridex batch_count
               (dot_output handle (batch_count * fst grid)))))
      \<and> (\<forall>y offsety stridey.
            (operand_addr x \<noteq> operand_addr y \<or> offsetx \<noteq> offsety \<or> stridex \<noteq> stridey)
            \<and> \<not> (getArch handle = 942 \<and> ((V = Float \<and> T = Float) \<or> (V = Double \<and> T = Double))
                   \<and> n > rocblas_dot_one_block_threshold T \<and> n > sddot_gfx942_lower_threshold cfg)
            \<longrightarrow> (\<exists>K. filter is_launch (snd (rocblas_internal_dot_launcher cfg hip NB CONJ T V handle
              n x offsetx incx stridex y offsety incx stridey batch_count))
                       = Launch_dot K grid threads
                           (dot_call_args CONJ T n x offsetx incx stridex y offsety incx stridey batch_count
               (dot_output handle (batch_count * fst grid)))
                         # filter is_part2 (snd (rocblas_internal_dot_launcher cfg hip NB CONJ T V handle
              n x offsetx incx stridex x offsetx incx stridex batch_count))
                     \<and> (\<not> (incx = 1 \<and> n \<le> rocblas_dot_one_block_threshold T
                             \<and> (T = Half \<or> T = Bfloat16 \<or> T = Float))
                          \<longrightarrow> exec_action cfg warpSize cj mem st
                                 (Launch_dot K grid threads
                                    (dot_call_args CONJ T n x offsetx incx stridex x offsetx incx stridex batch_count
               (dot_output handle (batch_count * fst grid))))
                               = exec_action cfg warpSize cj mem (st :: 'a::{zero,plus,times} dot_state)
                                 (Launch_dot (Dot_kernel_magsq ONE_BLOCK NB' WIN') grid threads
                                    (dot_call_args CONJ T n x offsetx incx stridex x offsetx incx stridex batch_count
               (dot_output handle (batch_count * fst grid)))))))))
   \<and> (n \<le> 1024 \<and> batch_count \<ge> 256 \<longrightarrow>
     (\<forall>y offsety incy stridey.
        concat (map launch_dot_kernel
          (snd (rocblas_internal_dot_launcher cfg hip NB CONJ T V handle
                  n x offsetx incx stridex y offsety incy stridey batch_count)))
        = [Dot_batched_4_kernel (if getWarpSize handle = WARP_32 then WARP_32 else WARP_64) 4]))"
proof (intro conjI impI allI)
  assume "\<not> (n \<le> 1024 \<and> batch_count \<ge> 256)"
  from self_dispatch_magsq[OF assms this]
  show "\<exists>ONE_BLOCK NB' WIN' grid threads.
      filter is_launch (snd (rocblas_internal_dot_launcher cfg hip NB CONJ T V handle
              n x offsetx incx stridex x offsetx incx stridex batch_count))
        = Launch_dot (Dot_kernel_magsq ONE_BLOCK NB' WIN') grid threads
            (dot_call_args CONJ T n x offsetx incx stridex x offsetx incx stridex batch_count
               (dot_output handle (batch_count * fst grid)))
          # filter is_part2 (snd (rocblas_internal_dot_launcher cfg hip NB CONJ T V handle
              n x offsetx incx stridex x offsetx incx stridex batch_count))
      \<and> (\<forall>y' shifty' incy' stridey'.
            exec_action cfg warpSize cj mem st
              (Launch_dot (Dot_kernel_magsq ONE_BLOCK NB' WIN') grid threads
                 ((dot_call_args CONJ T n x offsetx incx stridex x offsetx incx stridex batch_count
               (dot_output handle (batch_count * fst grid)))
                  \<lparr>a_ya := y', a_shifty := shifty', a_incy := incy', a_stridey := stridey'\<rparr>))
            = exec_action cfg warpSize cj mem st
              (Launch_dot (Dot_kernel_magsq ONE_BLOCK NB' WIN') grid threads
                 (dot_call_args CONJ T n x offsetx incx stridex x offsetx incx stridex batch_count
               (dot_output handle (batch_count * fst grid)))))
      \<and> (\<forall>y offsety stridey.
            (operand_addr x \<noteq> operand_addr y \<or> offsetx \<noteq> offsety \<or> stridex \<noteq> stridey)
            \<and> \<not> (getArch handle = 942 \<and> ((V = Float \<and> T = Float) \<or> (V = Double \<and> T = Double))
                   \<and> n > rocblas_dot_one_block_threshold T \<and> n > sddot_gfx942_lower_threshold cfg)
            \<longrightarrow> (\<exists>K. filter is_launch (snd (rocblas_internal_dot_launcher cfg hip NB CONJ T V handle
              n x offsetx incx stridex y offsety incx stridey batch_count))
                       = Launch_dot K grid threads
                           (dot_call_args CONJ T n x offsetx incx stridex y offsety incx stridey batch_count
               (dot_output handle (batch_count * fst grid)))
                         # filter is_part2 (snd (rocblas_internal_dot_launcher cfg hip NB CONJ T V handle
              n x offsetx incx stridex x offsetx incx stridex batch_count))
                     \<and> (\<not> (incx = 1 \<and> n \<le> rocblas_dot_one_block_threshold T
                             \<and> (T = Half \<or> T = Bfloat16 \<or> T = Float))
                          \<longrightarrow> exec_action cfg warpSize cj mem st
                                 (Launch_dot K grid threads
                                    (dot_call_args CONJ T n x offsetx incx stridex x offsetx incx stridex batch_count
               (dot_output handle (batch_count * fst grid))))
                               = exec_action cfg warpSize cj mem (st :: 'a::{zero,plus,times} dot_state)
                                 (Launch_dot (Dot_kernel_magsq ONE_BLOCK NB' WIN') grid threads
                                    (dot_call_args CONJ T n x offsetx incx stridex x offsetx incx stridex batch_count
               (dot_output handle (batch_count * fst grid)))))))" .
next
  fix y offsety incy stridey
  assume "n \<le> 1024 \<and> batch_count \<ge> 256"
  then have s: "n \<le> 1024" "batch_count \<ge> 256" by simp_all
  show "concat (map launch_dot_kernel
          (snd (rocblas_internal_dot_launcher cfg hip NB CONJ T V handle
                  n x offsetx incx stridex y offsety incy stridey batch_count)))
        = [Dot_batched_4_kernel (if getWarpSize handle = WARP_32 then WARP_32 else WARP_64) 4]"
    unfolding launcher_batched_4[OF assms s] by simp
qed

theorem dot_self_dispatch_witness:
  "concat (map launch_dot_kernel
        (snd (rocblas_internal_dot_launcher cfg_plain hip_ok 512 False Double Double handle_device
                5000 (Ptr 0) 0 1 0 (Ptr 0) 0 1 0 1)))
      = [Dot_kernel_magsq True 1024 32]
   \<and> exec_action cfg_plain 64 (\<lambda>v. v) (\<lambda>a. a + 1) (\<lambda>l. (0::int))
        (Launch_dot (Dot_kernel_inc1by2 True 1024 32) (1, 1, 1) (1024, 1, 1)
           (dot_call_args False Double 5000 (Ptr 0) 0 1 0 (Ptr 0) 0 1 0 1 Out_results))
     = exec_action cfg_plain 64 (\<lambda>v. v) (\<lambda>a. a + 1) (\<lambda>l. (0::int))
        (Launch_dot (Dot_kernel_magsq True 1024 32) (1, 1, 1) (1024, 1, 1)
           (dot_call_args False Double 5000 (Ptr 0) 0 1 0 (Ptr 0) 0 1 0 1 Out_results))"
proof -
  have h: "(0::int) < 5000" "(1::int) \<noteq> 0" "\<not> ((5000::int) \<le> 1024 \<and> (1::int) \<ge> 256)"
    by simp_all
  have self: "filter is_launch (snd (rocblas_internal_dot_launcher cfg_plain hip_ok 512 False Double
              Double handle_device 5000 (Ptr 0) 0 1 0 (Ptr 0) 0 1 0 1))
      = [Launch_dot (Dot_kernel_magsq True 1024 32) (1, 1, 1) (1024, 1, 1)
           (dot_call_args False Double 5000 (Ptr 0) 0 1 0 (Ptr 0) 0 1 0 1 Out_results)]"
    by (simp add: rocblas_internal_dot_launcher_def Let_def dot_copy_back_def handle_device_def
        rocblas_dot_one_block_threshold_def rocblas_reduction_kernel_block_count_def
        dot_call_args_def dot_output_def)
  have other: "filter is_launch (snd (rocblas_internal_dot_launcher cfg_plain hip_ok 512 False Double
              Double handle_device 5000 (Ptr 0) 0 1 0 (Ptr 100000) 0 1 0 1))
      = [Launch_dot (Dot_kernel_inc1by2 True 1024 32) (1, 1, 1) (1024, 1, 1)
           (dot_call_args False Double 5000 (Ptr 0) 0 1 0 (Ptr 100000) 0 1 0 1 Out_results)]"
    by (simp add: rocblas_internal_dot_launcher_def Let_def dot_copy_back_def handle_device_def
        rocblas_dot_one_block_threshold_def rocblas_reduction_kernel_block_count_def
        dot_call_args_def dot_output_def)
  obtain ONE_BLOCK NB' WIN' grid threads where
    l: "filter is_launch (snd (rocblas_internal_dot_launcher cfg_plain hip_ok 512 False Double Double
              handle_device 5000 (Ptr 0) 0 1 0 (Ptr 0) 0 1 0 1))
        = Launch_dot (Dot_kernel_magsq ONE_BLOCK NB' WIN') grid threads
            (dot_call_args False Double 5000 (Ptr 0) 0 1 0 (Ptr 0) 0 1 0 1
               (dot_output handle_device (1 * fst grid)))
          # filter is_part2 (snd (rocblas_internal_dot_launcher cfg_plain hip_ok 512 False Double
              Double handle_device 5000 (Ptr 0) 0 1 0 (Ptr 0) 0 1 0 1))"
    and t: "\<And>y offsety stridey.
            (operand_addr (Ptr 0) \<noteq> operand_addr y \<or> (0::int) \<noteq> offsety \<or> (0::int) \<noteq> stridey)
            \<and> \<not> (getArch handle_device = 942
                   \<and> ((Double = Float \<and> Double = Float) \<or> (Double = Double \<and> Double = Double))
                   \<and> 5000 > rocblas_dot_one_block_threshold Double
                   \<and> 5000 > sddot_gfx942_lower_threshold cfg_plain)
            \<Longrightarrow> (\<exists>K. filter is_launch (snd (rocblas_internal_dot_launcher cfg_plain hip_ok 512 False
                          Double Double handle_device 5000 (Ptr 0) 0 1 0 y offsety 1 stridey 1))
                       = Launch_dot K grid threads
                           (dot_call_args False Double 5000 (Ptr 0) 0 1 0 y offsety 1 stridey 1
                              (dot_output handle_device (1 * fst grid)))
                         # filter is_part2 (snd (rocblas_internal_dot_launcher cfg_plain hip_ok 512
                              False Double Double handle_device 5000 (Ptr 0) 0 1 0 (Ptr 0) 0 1 0 1))
                     \<and> (\<not> ((1::int) = 1 \<and> 5000 \<le> rocblas_dot_one_block_threshold Double
                             \<and> (Double = Half \<or> Double = Bfloat16 \<or> Double = Float))
                          \<longrightarrow> exec_action cfg_plain 64 (\<lambda>v. v) (\<lambda>a. a + 1) (\<lambda>l. (0::int))
                                 (Launch_dot K grid threads
                                    (dot_call_args False Double 5000 (Ptr 0) 0 1 0 (Ptr 0) 0 1 0 1
                                       (dot_output handle_device (1 * fst grid))))
                               = exec_action cfg_plain 64 (\<lambda>v. v) (\<lambda>a. a + 1) (\<lambda>l. (0::int))
                                 (Launch_dot (Dot_kernel_magsq ONE_BLOCK NB' WIN') grid threads
                                    (dot_call_args False Double 5000 (Ptr 0) 0 1 0 (Ptr 0) 0 1 0 1
                                       (dot_output handle_device (1 * fst grid))))))"
    using dot_self_dispatch[OF h(1,2), of cfg_plain hip_ok 512 False Double Double handle_device
        "Ptr 0" 0 1 0 64 "\<lambda>v. v" "\<lambda>a. a + 1" "\<lambda>l. (0::int)", THEN conjunct1, THEN mp, OF h(3)]
    by blast
  have m: "ONE_BLOCK = True" "NB' = 1024" "WIN' = 32" "grid = (1, 1, 1)" "threads = (1024, 1, 1)"
    using l unfolding self by simp_all
  have o: "dot_output handle_device (1 * fst (1::int, 1::int, 1::int)) = Out_results"
    by (simp add: dot_output_def handle_device_def)
  have hy: "(operand_addr (Ptr 0) \<noteq> operand_addr (Ptr 100000) \<or> (0::int) \<noteq> 0 \<or> (0::int) \<noteq> 0)
            \<and> \<not> (getArch handle_device = 942
                   \<and> ((Double = Float \<and> Double = Float) \<or> (Double = Double \<and> Double = Double))
                   \<and> 5000 > rocblas_dot_one_block_threshold Double
                   \<and> 5000 > sddot_gfx942_lower_threshold cfg_plain)"
    by (simp add: handle_device_def)
  obtain K where
    k: "filter is_launch (snd (rocblas_internal_dot_launcher cfg_plain hip_ok 512 False
                          Double Double handle_device 5000 (Ptr 0) 0 1 0 (Ptr 100000) 0 1 0 1))
                       = Launch_dot K grid threads
                           (dot_call_args False Double 5000 (Ptr 0) 0 1 0 (Ptr 100000) 0 1 0 1
                              (dot_output handle_device (1 * fst grid)))
                         # filter is_part2 (snd (rocblas_internal_dot_launcher cfg_plain hip_ok 512
                              False Double Double handle_device 5000 (Ptr 0) 0 1 0 (Ptr 0) 0 1 0 1))"
    and e: "\<not> ((1::int) = 1 \<and> 5000 \<le> rocblas_dot_one_block_threshold Double
                             \<and> (Double = Half \<or> Double = Bfloat16 \<or> Double = Float))
                          \<longrightarrow> exec_action cfg_plain 64 (\<lambda>v. v) (\<lambda>a. a + 1) (\<lambda>l. (0::int))
                                 (Launch_dot K grid threads
                                    (dot_call_args False Double 5000 (Ptr 0) 0 1 0 (Ptr 0) 0 1 0 1
                                       (dot_output handle_device (1 * fst grid))))
                               = exec_action cfg_plain 64 (\<lambda>v. v) (\<lambda>a. a + 1) (\<lambda>l. (0::int))
                                 (Launch_dot (Dot_kernel_magsq ONE_BLOCK NB' WIN') grid threads
                                    (dot_call_args False Double 5000 (Ptr 0) 0 1 0 (Ptr 0) 0 1 0 1
                                       (dot_output handle_device (1 * fst grid))))"
    using t[OF hy] by blast
  have kk: "K = Dot_kernel_inc1by2 True 1024 32"
    using k unfolding other by simp
  have ex: "\<not> ((1::int) = 1 \<and> 5000 \<le> rocblas_dot_one_block_threshold Double
                             \<and> (Double = Half \<or> Double = Bfloat16 \<or> Double = Float))"
    by simp
  have one: "concat (map launch_dot_kernel
        (snd (rocblas_internal_dot_launcher cfg_plain hip_ok 512 False Double Double handle_device
                5000 (Ptr 0) 0 1 0 (Ptr 0) 0 1 0 1)))
      = [Dot_kernel_magsq True 1024 32]"
    by (simp add: rocblas_internal_dot_launcher_def Let_def dot_copy_back_def handle_device_def
        rocblas_dot_one_block_threshold_def rocblas_reduction_kernel_block_count_def)
  show ?thesis
    using e[THEN mp, OF ex] unfolding kk m o by (intro conjI one)
qed

subsection \<open>ger with alpha = 0\<close>


lemma set_launch_effects:
  "set (launch_effects (gx, gy, gz) (tx, ty) f) =
     (\<Union>bz \<in> {0..gz - 1}. \<Union>by \<in> {0..gy - 1}. \<Union>bx \<in> {0..gx - 1}.
        \<Union>y \<in> {0..ty - 1}. \<Union>x \<in> {0..tx - 1}. set (f (bx, by, bz) (x, y)))"
  by (simp add: launch_effects_def)





lemma list_all2_map_same:
  "(\<And>x. x \<in> set xs \<Longrightarrow> R (f x) (g x)) \<Longrightarrow> list_all2 R (map f xs) (map g xs)"
  by (induction xs) auto



lemma undone_by_addr:
  "list_all2 (undone_by mem mem1 W) es1 es2 \<Longrightarrow> map effect_addr es2 = map effect_addr es1"
  by (induction rule: list_all2_induct) (auto simp: undone_by_def)


lemma undone_by_addrs:
  "list_all2 (undone_by mem mem1 W) es1 es2 \<Longrightarrow> effect_addr ` set es1 \<subseteq> W"
  by (induction rule: list_all2_induct) (auto simp: undone_by_def)






























subsection \<open>gemv with alpha = 0\<close>

lemma foldl_stores:
  assumes "\<forall>e \<in> set es. e = Store (effect_addr e) (F (effect_addr e))"
  shows "foldl apply_effect mem es = (\<lambda>a. if a \<in> effect_addr ` set es then F a else mem a)"
  using assms
proof (induction es arbitrary: mem)
  case Nil
  then show ?case by simp
next
  case (Cons e es)
  have e: "e = Store (effect_addr e) (F (effect_addr e))" using Cons.prems by simp
  have "foldl apply_effect mem (e # es) = foldl apply_effect (apply_effect mem e) es" by simp
  also have "\<dots> = (\<lambda>a. if a \<in> effect_addr ` set es then F a else (apply_effect mem e) a)"
    using Cons.IH[of "apply_effect mem e"] Cons.prems by simp
  also have "\<dots> = (\<lambda>a. if a \<in> effect_addr ` set (e # es) then F a else mem a)"
    by (subst e) (auto simp: fun_eq_iff)
  finally show ?case .
qed

lemma gemvn_thread_alpha_zero:
  assumes "load_scalar mem (v_alpha v) batch (v_stride_alpha v) = 0"
  shows "rocblas_gemvn_kernel cond_ptr mem DIM_X DIM_Y v blockDim blockIdx_x threadIdx_x threadIdx_y batch
     = (if DIM_X * DIM_Y \<noteq> fst blockDim * snd blockDim
           \<or> load_scalar mem (v_beta v) batch (v_stride_beta v) = 1
           \<or> \<not> threadIdx_x + threadIdx_y * DIM_X < DIM_X * 4
           \<or> \<not> blockIdx_x * DIM_X * 4 + (threadIdx_x + threadIdx_y * DIM_X) < v_m v
        then []
        else [Store (load_ptr_batch (v_ya v) batch (v_shifty v) (v_stridey v)
                       + (blockIdx_x * DIM_X * 4 + (threadIdx_x + threadIdx_y * DIM_X)) * v_incy v)
                (if load_scalar mem (v_beta v) batch (v_stride_beta v) \<noteq> 0
                 then load_scalar mem (v_beta v) batch (v_stride_beta v)
                      * mem (load_ptr_batch (v_ya v) batch (v_shifty v) (v_stridey v)
                             + (blockIdx_x * DIM_X * 4 + (threadIdx_x + threadIdx_y * DIM_X)) * v_incy v)
                 else 0)])"
  using assms by (simp add: rocblas_gemvn_kernel_def rocblas_gemvn_kernel_calc_def Let_def)

lemma gemvt_thread_alpha_zero:
  assumes "load_scalar mem (v_alpha v) batch (v_stride_alpha v) = 0"
  shows "rocblas_gemvt_kernel cond_ptr cj mem CONJ NB_X v blockDim_x blockIdx_x threadIdx_x batch
     = (if load_scalar mem (v_beta v) batch (v_stride_beta v) = 1 \<or> threadIdx_x \<noteq> 0
        then []
        else [Store (load_ptr_batch (v_ya v) batch (v_shifty v) (v_stridey v) + blockIdx_x * v_incy v)
                (if load_scalar mem (v_beta v) batch (v_stride_beta v) \<noteq> 0
                 then load_scalar mem (v_beta v) batch (v_stride_beta v)
                      * mem (load_ptr_batch (v_ya v) batch (v_shifty v) (v_stridey v)
                             + blockIdx_x * v_incy v)
                 else 0)])"
  using assms by (simp add: rocblas_gemvt_kernel_def rocblas_gemvt_kernel_calc_def Let_def)

lemma gemvn_cover:
  fixes ind DIM_X DIM_Y gridDim_x m :: int
  assumes "0 < DIM_X" "4 \<le> DIM_Y" "m \<le> gridDim_x * (DIM_X * 4)" "0 \<le> ind" "ind < m"
  shows "\<exists>bx \<in> {0..gridDim_x - 1}. \<exists>ty \<in> {0..DIM_Y - 1}. \<exists>tx \<in> {0..DIM_X - 1}.
           tx + ty * DIM_X < DIM_X * 4 \<and> bx * DIM_X * 4 + (tx + ty * DIM_X) = ind"
proof -
  let ?q = "DIM_X * 4"
  let ?bx = "ind div ?q" and ?r = "ind mod ?q"
  have q: "0 < ?q" using assms by simp
  have r: "0 \<le> ?r" "?r < ?q" using q by (simp_all add: pos_mod_sign pos_mod_bound)
  have bx0: "0 \<le> ?bx" using assms q by (simp add: pos_imp_zdiv_nonneg_iff)
  have "ind < gridDim_x * ?q" using assms by linarith
  moreover have "?q * ?bx \<le> ind" using r(1) by (simp add: minus_mod_eq_mult_div[symmetric])
  ultimately have "?q * ?bx < gridDim_x * ?q" by linarith
  then have "?q * ?bx < ?q * gridDim_x" by (simp only: mult.commute[of gridDim_x])
  then have bx1: "?bx < gridDim_x" using q by (simp only: mult_less_cancel_left_pos)
  let ?ty = "?r div DIM_X" and ?tx = "?r mod DIM_X"
  have tx: "0 \<le> ?tx" "?tx < DIM_X" using assms by (simp_all add: pos_mod_sign pos_mod_bound)
  have ty0: "0 \<le> ?ty" using r assms by (simp add: pos_imp_zdiv_nonneg_iff)
  have "DIM_X * ?ty \<le> ?r" using tx(1) by (simp add: minus_mod_eq_mult_div[symmetric])
  then have "DIM_X * ?ty < DIM_X * 4" using r(2) by linarith
  then have "?ty < 4" using assms(1) by (simp only: mult_less_cancel_left_pos)
  then have ty1: "?ty \<le> DIM_Y - 1" using assms by linarith
  have rec: "?tx + ?ty * DIM_X = ?r" by (simp add: mult.commute)
  have "?q * ?bx + ?r = ind" by (rule mult_div_mod_eq)
  then have rec2: "?bx * DIM_X * 4 + ?r = ind" by (simp only: mult.assoc mult.commute)
  show ?thesis
    apply (rule bexI[of _ ?bx])
     apply (rule bexI[of _ ?ty])
      apply (rule bexI[of _ ?tx])
    using tx ty0 ty1 bx0 bx1 rec rec2 r by auto
qed

lemma gemvn_launch_alpha_zero:
  fixes mem :: "int \<Rightarrow> 'a::{zero,one,plus,times}"
  assumes a0: "load_scalar mem (v_alpha v) batch (v_stride_alpha v) = 0"
    and dims: "0 < DIM_X" "4 \<le> DIM_Y" "v_m v \<le> gridDim_x * (DIM_X * 4)"
  shows "foldl apply_effect mem (gemvn_kernel_effects cond_ptr mem DIM_X DIM_Y v gridDim_x (DIM_X, DIM_Y) batch)
     = scaled_y mem (load_scalar mem (v_beta v) batch (v_stride_beta v))
         (load_ptr_batch (v_ya v) batch (v_shifty v) (v_stridey v)) (v_incy v) (v_m v)"
proof -
  let ?beta = "load_scalar mem (v_beta v) batch (v_stride_beta v)"
  let ?y = "load_ptr_batch (v_ya v) batch (v_shifty v) (v_stridey v)"
  let ?F = "\<lambda>a. if ?beta \<noteq> 0 then ?beta * mem a else 0"
  let ?es = "gemvn_kernel_effects cond_ptr mem DIM_X DIM_Y v gridDim_x (DIM_X, DIM_Y) batch"
  have set_es: "set ?es = (\<Union>bx \<in> {0..gridDim_x - 1}. \<Union>ty \<in> {0..DIM_Y - 1}. \<Union>tx \<in> {0..DIM_X - 1}.
      set (rocblas_gemvn_kernel cond_ptr mem DIM_X DIM_Y v (DIM_X, DIM_Y) bx tx ty batch))"
    unfolding gemvn_kernel_effects_def set_launch_effects by simp
  have stores: "\<forall>e \<in> set ?es. e = Store (effect_addr e) (?F (effect_addr e))"
    unfolding set_es by (auto simp: gemvn_thread_alpha_zero[OF a0] split: if_splits)
  have addrs: "a \<in> effect_addr ` set ?es \<longleftrightarrow>
      ?beta \<noteq> 1 \<and> (\<exists>ind. 0 \<le> ind \<and> ind < v_m v \<and> a = ?y + ind * v_incy v)" for a
  proof
    assume "a \<in> effect_addr ` set ?es"
    then obtain bx ty tx where i: "0 \<le> bx" "0 \<le> ty" "0 \<le> tx"
      and e: "a \<in> effect_addr ` set (rocblas_gemvn_kernel cond_ptr mem DIM_X DIM_Y v (DIM_X, DIM_Y) bx tx ty batch)"
      unfolding set_es by auto
    from e have b: "?beta \<noteq> 1" and lt: "bx * DIM_X * 4 + (tx + ty * DIM_X) < v_m v"
      and a: "a = ?y + (bx * DIM_X * 4 + (tx + ty * DIM_X)) * v_incy v"
      by (auto simp: gemvn_thread_alpha_zero[OF a0] split: if_splits)
    have "0 \<le> bx * DIM_X * 4 + (tx + ty * DIM_X)" using i dims by simp
    with b lt a show "?beta \<noteq> 1 \<and> (\<exists>ind. 0 \<le> ind \<and> ind < v_m v \<and> a = ?y + ind * v_incy v)"
      by blast
  next
    assume "?beta \<noteq> 1 \<and> (\<exists>ind. 0 \<le> ind \<and> ind < v_m v \<and> a = ?y + ind * v_incy v)"
    then obtain ind where b: "?beta \<noteq> 1" and ind: "0 \<le> ind" "ind < v_m v"
      and a: "a = ?y + ind * v_incy v" by blast
    obtain bx ty tx where r: "bx \<in> {0..gridDim_x - 1}" "ty \<in> {0..DIM_Y - 1}" "tx \<in> {0..DIM_X - 1}"
      "tx + ty * DIM_X < DIM_X * 4" "bx * DIM_X * 4 + (tx + ty * DIM_X) = ind"
      using gemvn_cover[OF dims ind] by blast
    have "a \<in> effect_addr ` set (rocblas_gemvn_kernel cond_ptr mem DIM_X DIM_Y v (DIM_X, DIM_Y) bx tx ty batch)"
      using b ind a r(4,5) by (simp add: gemvn_thread_alpha_zero[OF a0])
    then show "a \<in> effect_addr ` set ?es" unfolding set_es using r(1,2,3) by blast
  qed
  show ?thesis
    unfolding foldl_stores[OF stores] scaled_y_def
    by (rule ext) (simp add: addrs)
qed

lemma gemvt_launch_alpha_zero:
  fixes mem :: "int \<Rightarrow> 'a::{zero,one,plus,times}"
  assumes a0: "load_scalar mem (v_alpha v) batch (v_stride_alpha v) = 0"
    and dims: "0 < blockDim_x"
  shows "foldl apply_effect mem (gemvt_kernel_effects cond_ptr cj mem CONJ NB_X v (v_n v) blockDim_x batch)
     = scaled_y mem (load_scalar mem (v_beta v) batch (v_stride_beta v))
         (load_ptr_batch (v_ya v) batch (v_shifty v) (v_stridey v)) (v_incy v) (v_n v)"
proof -
  let ?beta = "load_scalar mem (v_beta v) batch (v_stride_beta v)"
  let ?y = "load_ptr_batch (v_ya v) batch (v_shifty v) (v_stridey v)"
  let ?F = "\<lambda>a. if ?beta \<noteq> 0 then ?beta * mem a else 0"
  let ?es = "gemvt_kernel_effects cond_ptr cj mem CONJ NB_X v (v_n v) blockDim_x batch"
  have set_es: "set ?es = (\<Union>bx \<in> {0..v_n v - 1}. \<Union>tx \<in> {0..blockDim_x - 1}.
      set (rocblas_gemvt_kernel cond_ptr cj mem CONJ NB_X v blockDim_x bx tx batch))"
    unfolding gemvt_kernel_effects_def set_launch_effects by simp
  have stores: "\<forall>e \<in> set ?es. e = Store (effect_addr e) (?F (effect_addr e))"
    unfolding set_es by (auto simp: gemvt_thread_alpha_zero[OF a0] split: if_splits)
  have addrs: "a \<in> effect_addr ` set ?es \<longleftrightarrow>
      ?beta \<noteq> 1 \<and> (\<exists>ind. 0 \<le> ind \<and> ind < v_n v \<and> a = ?y + ind * v_incy v)" for a
  proof
    assume "a \<in> effect_addr ` set ?es"
    then obtain bx tx e where i: "0 \<le> bx" "bx < v_n v"
      and e: "e \<in> set (rocblas_gemvt_kernel cond_ptr cj mem CONJ NB_X v blockDim_x bx tx batch)"
        "a = effect_addr e"
      unfolding set_es by auto
    from e have b: "?beta \<noteq> 1" and a: "a = ?y + bx * v_incy v"
      by (auto simp: gemvt_thread_alpha_zero[OF a0] split: if_splits)
    with i show "?beta \<noteq> 1 \<and> (\<exists>ind. 0 \<le> ind \<and> ind < v_n v \<and> a = ?y + ind * v_incy v)"
      by (intro conjI exI[of _ bx]) auto
  next
    assume "?beta \<noteq> 1 \<and> (\<exists>ind. 0 \<le> ind \<and> ind < v_n v \<and> a = ?y + ind * v_incy v)"
    then obtain ind where b: "?beta \<noteq> 1" and ind: "0 \<le> ind" "ind < v_n v"
      and a: "a = ?y + ind * v_incy v" by blast
    have "a \<in> effect_addr ` set (rocblas_gemvt_kernel cond_ptr cj mem CONJ NB_X v blockDim_x ind 0 batch)"
      using b a by (simp add: gemvt_thread_alpha_zero[OF a0])
    moreover have "ind \<in> {0..v_n v - 1}" "0 \<in> {0..blockDim_x - 1}" using ind dims by auto
    ultimately show "a \<in> effect_addr ` set ?es" unfolding set_es by blast
  qed
  show ?thesis
    unfolding foldl_stores[OF stores] scaled_y_def
    by (rule ext) (simp add: addrs)
qed

lemma gemv_effects_noninterference:
  fixes mem mem' :: "int \<Rightarrow> 'a::{zero,one,plus,times}"
  assumes a0: "load_scalar mem (v_alpha v) batch (v_stride_alpha v) = 0"
    and a0': "load_scalar mem' (v_alpha v) batch (v_stride_alpha v) = 0"
    and b: "load_scalar mem' (v_beta v) batch (v_stride_beta v)
             = load_scalar mem (v_beta v) batch (v_stride_beta v)"
    and y: "\<forall>ind. mem' (load_ptr_batch (v_ya v) batch (v_shifty v) (v_stridey v) + ind * v_incy v)
                 = mem (load_ptr_batch (v_ya v) batch (v_shifty v) (v_stridey v) + ind * v_incy v)"
  shows "gemvn_kernel_effects cond_ptr' mem' DIM_X DIM_Y v gridDim_x blockDim batch
           = gemvn_kernel_effects cond_ptr mem DIM_X DIM_Y v gridDim_x blockDim batch"
    and "gemvt_kernel_effects cond_ptr' cj' mem' CONJ NB_X v gridDim_x blockDim_x batch
           = gemvt_kernel_effects cond_ptr cj mem CONJ NB_X v gridDim_x blockDim_x batch"
  unfolding gemvn_kernel_effects_def gemvt_kernel_effects_def
  by (simp_all add: gemvn_thread_alpha_zero[OF a0] gemvn_thread_alpha_zero[OF a0']
      gemvt_thread_alpha_zero[OF a0] gemvt_thread_alpha_zero[OF a0'] b y cong: if_cong)

text \<open>
  C2.  Take a batch element whose effective \<open>alpha\<close> is zero.  A launch of the non-transpose
  kernel \<open>rocblas_gemvn_kernel\<close> whose grid covers the \<open>m\<close> rows, and a launch of the transpose
  kernel \<open>rocblas_gemvt_kernel\<close> with one block per column, leave the memory with every
  element of \<open>y\<close> set to \<open>beta * y\<close>, or to zero when \<open>beta\<close> is zero, and every other cell as
  it was; when \<open>beta\<close> is one nothing is written at all.  The stores of the launch are the
  same for every content of \<open>A\<close> and \<open>x\<close> and for every result of the pointer resolution of
  \<open>A\<close> and \<open>x\<close>: they depend on the memory only through \<open>alpha\<close>, \<open>beta\<close> and the elements of
  \<open>y\<close>, so nothing stored in \<open>A\<close> or \<open>x\<close> can reach \<open>y\<close>.
\<close>

theorem gemv_alpha_zero:
  fixes mem :: "int \<Rightarrow> 'a::{zero,one,plus,times}"
  assumes "load_scalar mem (v_alpha v) batch (v_stride_alpha v) = 0"
  shows "(0 < DIM_X \<and> 4 \<le> DIM_Y \<and> v_m v \<le> gridDim_x * (DIM_X * 4) \<longrightarrow>
            foldl apply_effect mem
              (gemvn_kernel_effects cond_ptr mem DIM_X DIM_Y v gridDim_x (DIM_X, DIM_Y) batch)
            = scaled_y mem (load_scalar mem (v_beta v) batch (v_stride_beta v))
                (load_ptr_batch (v_ya v) batch (v_shifty v) (v_stridey v)) (v_incy v) (v_m v))
    \<and> (0 < blockDim_x \<longrightarrow>
            foldl apply_effect mem
              (gemvt_kernel_effects cond_ptr cj mem CONJ NB_X v (v_n v) blockDim_x batch)
            = scaled_y mem (load_scalar mem (v_beta v) batch (v_stride_beta v))
                (load_ptr_batch (v_ya v) batch (v_shifty v) (v_stridey v)) (v_incy v) (v_n v))
    \<and> (load_scalar mem (v_beta v) batch (v_stride_beta v) = 1 \<longrightarrow>
            (\<forall>rows. scaled_y mem (load_scalar mem (v_beta v) batch (v_stride_beta v))
                (load_ptr_batch (v_ya v) batch (v_shifty v) (v_stridey v)) (v_incy v) rows = mem))
    \<and> (\<forall>mem' cond_ptr' cj'.
          load_scalar mem' (v_alpha v) batch (v_stride_alpha v) = 0
          \<and> load_scalar mem' (v_beta v) batch (v_stride_beta v)
              = load_scalar mem (v_beta v) batch (v_stride_beta v)
          \<and> (\<forall>ind. mem' (load_ptr_batch (v_ya v) batch (v_shifty v) (v_stridey v) + ind * v_incy v)
                 = mem (load_ptr_batch (v_ya v) batch (v_shifty v) (v_stridey v) + ind * v_incy v)) \<longrightarrow>
          gemvn_kernel_effects cond_ptr' mem' DIM_X DIM_Y v gridDim_x (DIM_X, DIM_Y) batch
            = gemvn_kernel_effects cond_ptr mem DIM_X DIM_Y v gridDim_x (DIM_X, DIM_Y) batch
          \<and> gemvt_kernel_effects cond_ptr' cj' mem' CONJ NB_X v (v_n v) blockDim_x batch
            = gemvt_kernel_effects cond_ptr cj mem CONJ NB_X v (v_n v) blockDim_x batch)"
proof (intro conjI impI allI)
  assume "0 < DIM_X \<and> 4 \<le> DIM_Y \<and> v_m v \<le> gridDim_x * (DIM_X * 4)"
  then show "foldl apply_effect mem
              (gemvn_kernel_effects cond_ptr mem DIM_X DIM_Y v gridDim_x (DIM_X, DIM_Y) batch)
            = scaled_y mem (load_scalar mem (v_beta v) batch (v_stride_beta v))
                (load_ptr_batch (v_ya v) batch (v_shifty v) (v_stridey v)) (v_incy v) (v_m v)"
    using gemvn_launch_alpha_zero[OF assms] by blast
next
  assume "0 < blockDim_x"
  then show "foldl apply_effect mem
              (gemvt_kernel_effects cond_ptr cj mem CONJ NB_X v (v_n v) blockDim_x batch)
            = scaled_y mem (load_scalar mem (v_beta v) batch (v_stride_beta v))
                (load_ptr_batch (v_ya v) batch (v_shifty v) (v_stridey v)) (v_incy v) (v_n v)"
    using gemvt_launch_alpha_zero[OF assms] by blast
next
  fix rows
  assume "load_scalar mem (v_beta v) batch (v_stride_beta v) = 1"
  then show "scaled_y mem (load_scalar mem (v_beta v) batch (v_stride_beta v))
                (load_ptr_batch (v_ya v) batch (v_shifty v) (v_stridey v)) (v_incy v) rows = mem"
    by (simp add: scaled_y_def)
next
  fix mem' :: "int \<Rightarrow> 'a" and cond_ptr' cj'
  assume h: "load_scalar mem' (v_alpha v) batch (v_stride_alpha v) = 0
          \<and> load_scalar mem' (v_beta v) batch (v_stride_beta v)
              = load_scalar mem (v_beta v) batch (v_stride_beta v)
          \<and> (\<forall>ind. mem' (load_ptr_batch (v_ya v) batch (v_shifty v) (v_stridey v) + ind * v_incy v)
                 = mem (load_ptr_batch (v_ya v) batch (v_shifty v) (v_stridey v) + ind * v_incy v))"
  show "gemvn_kernel_effects cond_ptr' mem' DIM_X DIM_Y v gridDim_x (DIM_X, DIM_Y) batch
            = gemvn_kernel_effects cond_ptr mem DIM_X DIM_Y v gridDim_x (DIM_X, DIM_Y) batch"
    using gemv_effects_noninterference(1)[OF assms] h by blast
  show "gemvt_kernel_effects cond_ptr' cj' mem' CONJ NB_X v (v_n v) blockDim_x batch
            = gemvt_kernel_effects cond_ptr cj mem CONJ NB_X v (v_n v) blockDim_x batch"
    using gemv_effects_noninterference(2)[OF assms] h by blast
qed

theorem gemv_alpha_zero_witness:
  "load_scalar (\<lambda>a. 5) (v_alpha gemv_example) 0 (v_stride_alpha gemv_example) = 0
   \<and> foldl apply_effect (\<lambda>a. 5)
        (gemvn_kernel_effects (\<lambda>alpha p b off st. 0) (\<lambda>a. 5) 64 16 gemv_example 1 (64, 16) 0) 11 = 10
   \<and> foldl apply_effect (\<lambda>a. 5)
        (gemvn_kernel_effects (\<lambda>alpha p b off st. 0) (\<lambda>a. 5) 64 16 gemv_example 1 (64, 16) 0) 12 = 5"
proof -
  have h: "load_scalar (\<lambda>a. 5) (v_alpha gemv_example) 0 (v_stride_alpha gemv_example) = 0"
    by (simp add: gemv_example_def)
  have d: "(0::int) < 64 \<and> (4::int) \<le> 16 \<and> v_m gemv_example \<le> 1 * (64 * 4)"
    by (simp add: gemv_example_def)
  have e: "foldl apply_effect (\<lambda>a. 5)
        (gemvn_kernel_effects (\<lambda>alpha p b off st. 0) (\<lambda>a. 5) 64 16 gemv_example 1 (64, 16) 0)
      = scaled_y (\<lambda>a. 5) (load_scalar (\<lambda>a. 5) (v_beta gemv_example) 0 (v_stride_beta gemv_example))
                (load_ptr_batch (v_ya gemv_example) 0 (v_shifty gemv_example) (v_stridey gemv_example))
                (v_incy gemv_example) (v_m gemv_example)"
    using gemv_alpha_zero[OF h, where DIM_X=64 and DIM_Y=16 and gridDim_x=1
        and cond_ptr="\<lambda>alpha p b off st. 0" and blockDim_x=1 and cj="\<lambda>v. v" and CONJ=False
        and NB_X=64, THEN conjunct1, THEN mp, OF d] .
  have f: "scaled_y (\<lambda>a. 5) (load_scalar (\<lambda>a. 5) (v_beta gemv_example) 0 (v_stride_beta gemv_example))
                (load_ptr_batch (v_ya gemv_example) 0 (v_shifty gemv_example) (v_stridey gemv_example))
                (v_incy gemv_example) (v_m gemv_example) = scaled_y (\<lambda>a. 5) 2 10 1 2"
    by (simp add: gemv_example_def)
  have "\<exists>ind::int. 0 \<le> ind \<and> ind < 2 \<and> (11::int) = 10 + ind * 1" by (rule exI[of _ 1]) simp
  moreover have "\<not> (\<exists>ind::int. 0 \<le> ind \<and> ind < 2 \<and> (12::int) = 10 + ind * 1)" by auto
  ultimately have "scaled_y (\<lambda>a. 5) 2 10 1 2 11 = (10::int) \<and> scaled_y (\<lambda>a. 5) 2 10 1 2 12 = (5::int)"
    unfolding scaled_y_def by simp
  then show ?thesis using h unfolding e f by simp
qed

subsection \<open>Atomic additions\<close>





























subsection \<open>Banded and packed Hermitian storage\<close>

lemma col_loop_sum:
  "(\<And>col acc. step col acc = acc + f col)
   \<Longrightarrow> col_loop step bound DIM_Y col (acc::'a::monoid_add)
         = acc + sum_list (map f (thread_cols DIM_Y col bound))"
proof (induction step bound DIM_Y col acc rule: col_loop.induct)
  case (1 step bound DIM_Y col res_A)
  note st = 1(2)
  show ?case
  proof (cases "col < bound \<and> 0 < DIM_Y")
    case True
    have "col_loop step bound DIM_Y col res_A
          = col_loop step bound DIM_Y (col + DIM_Y) (step col res_A)"
      using True by (subst col_loop.simps) simp
    also have "\<dots> = step col res_A + sum_list (map f (thread_cols DIM_Y (col + DIM_Y) bound))"
      using 1(1)[OF True st] .
    also have "\<dots> = res_A + sum_list (map f (thread_cols DIM_Y col bound))"
      using True by (subst (2) thread_cols.simps) (simp add: st add.assoc del: thread_cols.simps)
    finally show ?thesis .
  next
    case False
    have a: "col_loop step bound DIM_Y col res_A = res_A"
      by (subst col_loop.simps) (simp only: False if_False)
    have b: "thread_cols DIM_Y col bound = []"
      by (subst thread_cols.simps) (simp only: False if_False)
    show ?thesis unfolding a b by simp
  qed
qed

lemma set_thread_cols:
  "set (thread_cols DIM_Y ty n) = (if 0 < DIM_Y then {col. ty \<le> col \<and> col < n \<and> (col - ty) mod DIM_Y = 0} else {})"
proof (induction DIM_Y ty n rule: thread_cols.induct)
  case (1 DIM_Y col n)
  show ?case
  proof (cases "col < n \<and> 0 < DIM_Y")
    case True
    have step: "{c. col \<le> c \<and> c < n \<and> (c - col) mod DIM_Y = 0}
                = insert col {c. col + DIM_Y \<le> c \<and> c < n \<and> (c - (col + DIM_Y)) mod DIM_Y = 0}"
    proof (intro set_eqI iffI)
      fix c assume "c \<in> {c. col \<le> c \<and> c < n \<and> (c - col) mod DIM_Y = 0}"
      then have c: "col \<le> c" "c < n" "(c - col) mod DIM_Y = 0" by auto
      from c(3) obtain q where q: "c - col = DIM_Y * q" by (auto simp: mod_eq_0_iff_dvd)
      show "c \<in> insert col {c. col + DIM_Y \<le> c \<and> c < n \<and> (c - (col + DIM_Y)) mod DIM_Y = 0}"
      proof (cases "c = col")
        case False
        then have "0 < DIM_Y * q" using c(1) q by simp
        then have "1 \<le> q" using True by (simp add: zero_less_mult_iff)
        then have "DIM_Y * 1 \<le> DIM_Y * q" using True by (intro mult_left_mono) simp_all
        then have "col + DIM_Y \<le> c" using q by simp
        moreover have "c - (col + DIM_Y) = DIM_Y * (q - 1)" using q by (simp add: algebra_simps)
        then have "(c - (col + DIM_Y)) mod DIM_Y = 0" by simp
        ultimately show ?thesis using c(2) by simp
      qed simp
    next
      fix c assume "c \<in> insert col {c. col + DIM_Y \<le> c \<and> c < n \<and> (c - (col + DIM_Y)) mod DIM_Y = 0}"
      then consider "c = col" | "col + DIM_Y \<le> c" "c < n" "(c - (col + DIM_Y)) mod DIM_Y = 0" by auto
      then show "c \<in> {c. col \<le> c \<and> c < n \<and> (c - col) mod DIM_Y = 0}"
      proof cases
        case 1 then show ?thesis using True by simp
      next
        case 2
        from 2(3) obtain q where "c - (col + DIM_Y) = DIM_Y * q" by (auto simp: mod_eq_0_iff_dvd)
        then have "c - col = DIM_Y * (q + 1)" by (simp add: algebra_simps)
        then have "(c - col) mod DIM_Y = 0" by simp
        then show ?thesis using 2 True by simp
      qed
    qed
    show ?thesis
      using True 1[OF True] step
      by (subst thread_cols.simps) (simp del: thread_cols.simps)
  next
    case False
    have b: "thread_cols DIM_Y col n = []"
      by (subst thread_cols.simps) (simp only: False if_False)
    show ?thesis unfolding b using False by auto
  qed
qed

lemma hbmvn_step_element:
  assumes "ind < m" and "0 \<le> k"
  shows "hbmvn_step mem is_upper m k A lda x incx ind col res_A
         = res_A + spec_hb_element mem is_upper k A lda ind col * mem (x + col * incx)"
  using assms
  by (cases is_upper)
     (auto simp: hbmvn_step_def spec_hb_element_def spec_banded_row_def in_stored_triangle_def Let_def)

lemma hpmv_step_element:
  assumes "ind < n"
  shows "hpmv_step mem is_upper n AP x incx ind col res_A
         = res_A + spec_hp_element mem is_upper n AP ind col * mem (x + col * incx)"
  using assms
  by (cases is_upper)
     (auto simp: hpmv_step_def spec_hp_element_def spec_packed_index_def in_stored_triangle_def Let_def)


text \<open>
  C8.  For a row \<open>ind < n\<close> and a band width \<open>k \<ge> 0\<close>, one pass of the column loop of
  \<open>rocblas_hbmvn_kernel_helper\<close> adds to the partial sum the logical element \<open>(ind, col)\<close> of
  the Hermitian band matrix times \<open>x[col]\<close>, the element being read at the banded row
  \<open>upper ? ind + (k - col) : ind - col\<close> of column \<open>col\<close> (its conjugate mirror image in the
  opposite triangle, zero outside the band); one pass of the column loop of
  \<open>rocblas_hpmv_kernel_calc\<close> adds the logical element \<open>(ind, col)\<close> of the packed Hermitian
  matrix times \<open>x[col]\<close>, read at the packed index
  \<open>upper ? col * (col + 1) / 2 + row : col * (2n - col + 1) / 2 + (row - col)\<close>.  So the partial
  sum of a thread is the sum of these products over the columns it visits.  On the main
  diagonal, \<open>col = ind\<close>, both kernels add \<open>real(stored) * x[ind]\<close>: the imaginary part stored
  there does not enter the product.
\<close>

theorem hermitian_banded_packed_remapping:
  assumes "ind < n" and "0 \<le> k"
  shows
    "hbmvn_step mem is_upper n k A lda x incx ind col res_A
       = res_A + spec_hb_element mem is_upper k A lda ind col * mem (x + col * incx)
     \<and> hpmv_step mem is_upper n AP x incx ind col res_A
       = res_A + spec_hp_element mem is_upper n AP ind col * mem (x + col * incx)
     \<and> rocblas_hbmvn_kernel_helper mem DIM_Y ty ind is_upper n k A lda x incx
       = sum_list (map (\<lambda>col. spec_hb_element mem is_upper k A lda ind col * mem (x + col * incx))
                       (thread_cols DIM_Y ty n))
     \<and> hpmv_res_A mem DIM_Y is_upper n AP x incx ind ty
       = sum_list (map (\<lambda>col. spec_hp_element mem is_upper n AP ind col * mem (x + col * incx))
                       (thread_cols DIM_Y ty n))
     \<and> hbmvn_step mem is_upper n k A lda x incx ind ind res_A
       = res_A + complex_of_real (Re (mem (A + (spec_banded_row is_upper k ind ind + ind * lda))))
                 * mem (x + ind * incx)
     \<and> hpmv_step mem is_upper n AP x incx ind ind res_A
       = res_A + complex_of_real (Re (mem (AP + spec_packed_index is_upper n ind ind)))
                 * mem (x + ind * incx)"
proof -
  note hb = hbmvn_step_element[OF assms]
  note hp = hpmv_step_element[OF assms(1)]
  have three: "rocblas_hbmvn_kernel_helper mem DIM_Y ty ind is_upper n k A lda x incx
       = sum_list (map (\<lambda>col. spec_hb_element mem is_upper k A lda ind col * mem (x + col * incx))
                       (thread_cols DIM_Y ty n))"
    unfolding rocblas_hbmvn_kernel_helper_def
    by (subst col_loop_sum[where f = "\<lambda>col. spec_hb_element mem is_upper k A lda ind col
                                             * mem (x + col * incx)"])
       (simp_all add: hb)
  have four: "hpmv_res_A mem DIM_Y is_upper n AP x incx ind ty
       = sum_list (map (\<lambda>col. spec_hp_element mem is_upper n AP ind col * mem (x + col * incx))
                       (thread_cols DIM_Y ty n))"
    unfolding hpmv_res_A_def
    by (subst col_loop_sum[where f = "\<lambda>col. spec_hp_element mem is_upper n AP ind col
                                             * mem (x + col * incx)"])
       (simp_all add: hp)
  have five: "hbmvn_step mem is_upper n k A lda x incx ind ind res_A
       = res_A + complex_of_real (Re (mem (A + (spec_banded_row is_upper k ind ind + ind * lda))))
                 * mem (x + ind * incx)"
    using assms(2) by (simp add: hb spec_hb_element_def)
  have six: "hpmv_step mem is_upper n AP x incx ind ind res_A
       = res_A + complex_of_real (Re (mem (AP + spec_packed_index is_upper n ind ind)))
                 * mem (x + ind * incx)"
    by (simp add: hp spec_hp_element_def)
  show ?thesis
    by (intro conjI hb hp three four five six)
qed

theorem hermitian_banded_packed_remapping_witness:
  "rocblas_hbmvn_kernel_helper hermitian_example 1 0 0 False 2 1 0 2 10 1 = Complex 5 (- 4)
   \<and> hpmv_res_A hermitian_example 1 False 2 0 10 1 0 0 = Complex 5 (- 4)"
proof -
  have i: "(0::int) < 2" by simp
  have k: "(0::int) \<le> 1" by simp
  have cols: "thread_cols 1 0 2 = [0, 1]" by simp
  have hb: "rocblas_hbmvn_kernel_helper hermitian_example 1 0 0 False 2 1 0 2 10 1
       = sum_list (map (\<lambda>col. spec_hb_element hermitian_example False 1 0 2 0 col
                                 * hermitian_example (10 + col * 1)) (thread_cols 1 0 2))"
    using hermitian_banded_packed_remapping[OF i k, where mem = hermitian_example
        and is_upper = False and A = 0 and lda = 2 and x = 10 and incx = 1 and DIM_Y = 1 and ty = 0,
        THEN conjunct2, THEN conjunct2, THEN conjunct1] .
  have hp: "hpmv_res_A hermitian_example 1 False 2 0 10 1 0 0
       = sum_list (map (\<lambda>col. spec_hp_element hermitian_example False 2 0 0 col
                                 * hermitian_example (10 + col * 1)) (thread_cols 1 0 2))"
    using hermitian_banded_packed_remapping[OF i k, where mem = hermitian_example
        and is_upper = False and AP = 0 and x = 10 and incx = 1 and DIM_Y = 1 and ty = 0,
        THEN conjunct2, THEN conjunct2, THEN conjunct2, THEN conjunct1] .
  have e1: "sum_list (map (\<lambda>col. spec_hb_element hermitian_example False 1 0 2 0 col
                                 * hermitian_example (10 + col * 1)) [0, 1]) = Complex 5 (- 4)"
    by (simp add: spec_hb_element_def spec_banded_row_def in_stored_triangle_def
        hermitian_example_def complex_eq_iff)
  have e2: "sum_list (map (\<lambda>col. spec_hp_element hermitian_example False 2 0 0 col
                                 * hermitian_example (10 + col * 1)) [0, 1]) = Complex 5 (- 4)"
    by (simp add: spec_hp_element_def spec_packed_index_def in_stored_triangle_def
        hermitian_example_def complex_eq_iff)
  show ?thesis unfolding hb hp cols e1 e2 by simp
qed

subsection \<open>The batch loop of the dot kernels\<close>

text \<open>
  \<open>rocblas_dot_kernel_inc1\<close>, \<open>rocblas_dot_kernel_inc1by2\<close>, \<open>rocblas_dot_kernel\<close> and
  \<open>rocblas_dot_kernel_magsq\<close> declare \<open>int i\<close> before the loop
  \<open>for(; batch < batch_count; batch += c_YZ_grid_launch_limit)\<close> and never reset it, so a
  thread enters the second pass of the loop with the \<open>i\<close> the first pass left.
\<close>

lemma win_loop_stale:
  "bound \<le> i \<Longrightarrow> win_loop body bound inc k i acc = (i, acc)"
  by (cases k) simp_all

lemma win_loop_fst:
  "bound \<le> i + int k * inc \<Longrightarrow> bound \<le> fst (win_loop body bound inc k i acc)"
proof (induction k arbitrary: i acc)
  case 0
  then show ?case by simp
next
  case (Suc k)
  show ?case
  proof (cases "i < bound")
    case True
    have "bound \<le> (i + inc) + int k * inc" using Suc.prems by (simp add: algebra_simps)
    from Suc.IH[OF this] show ?thesis using True by simp
  next
    case False
    then show ?thesis by simp
  qed
qed

lemma win_loop_one:
  assumes "i < bound" and "bound \<le> i + inc" and "0 < k"
  shows "win_loop body bound inc k i acc = (i + inc, body i acc)"
proof -
  obtain k' where k: "k = Suc k'" using assms(3) by (cases k) auto
  show ?thesis unfolding k using assms(1) win_loop_stale[OF assms(2)] by simp
qed

lemma win_loop_two:
  assumes "i + inc < bound" and "0 < inc" and "bound \<le> i + 2 * inc" and "1 < k"
  shows "win_loop body bound inc k i acc = (i + 2 * inc, body (i + inc) (body i acc))"
proof -
  obtain k' where k: "k = Suc k'" and k': "0 < k'" using assms(4) by (cases k) auto
  have "i < bound" using assms(1,2) by simp
  moreover have "bound \<le> (i + inc) + inc" using assms(3) by simp
  ultimately show ?thesis
    unfolding k using win_loop_one[OF assms(1) _ k', of inc body "body i acc"] by simp
qed

lemma wavefront_reduce_zeros:
  "(\<And>v. v \<in> set xs \<Longrightarrow> v = 0) \<Longrightarrow> wavefront_reduce xs = (0::'a::monoid_add)"
proof (induction xs rule: wavefront_reduce.induct)
  case 1
  then show ?case by simp
next
  case (2 v)
  then show ?case by simp
next
  case (3 v w vs)
  define xs where "xs = v # w # vs"
  define h where "h = length xs div 2"
  have eq: "wavefront_reduce (v # w # vs)
            = wavefront_reduce (map (\<lambda>l. xs ! l + xs ! (l + h)) [0..<h])"
    unfolding xs_def h_def by (rule wavefront_reduce.simps(3))
  have z: "xs ! l = 0" if "l < length xs" for l
    using 3(2)[of "xs ! l"] nth_mem[OF that] unfolding xs_def by blast
  have hl: "h + h \<le> length xs" unfolding h_def by presburger
  have "wavefront_reduce (map (\<lambda>l. xs ! l + xs ! (l + h)) [0..<h]) = 0"
  proof (rule 3(1)[folded xs_def h_def])
    fix u assume "u \<in> set (map (\<lambda>l. xs ! l + xs ! (l + h)) [0..<h])"
    then obtain l where l: "l < h" and u: "u = xs ! l + xs ! (l + h)" by auto
    have "l < length xs" "l + h < length xs" using l hl by auto
    then show "u = 0" unfolding u using z by simp
  qed
  then show ?case unfolding eq .
qed

lemma block_reduce_zeros:
  assumes "\<And>v. v \<in> set vals \<Longrightarrow> v = 0"
  shows "rocblas_dot_block_reduce WARP vals = (0::'a::monoid_add)"
  unfolding rocblas_dot_block_reduce_def
proof (rule wavefront_reduce_zeros)
  fix u
  assume "u \<in> set (map (\<lambda>w. wavefront_reduce (take (nat WARP) (drop (w * nat WARP) vals)))
                     [0..<length vals div nat WARP])"
  then obtain w where u: "u = wavefront_reduce (take (nat WARP) (drop (w * nat WARP) vals))" by auto
  show "u = 0" unfolding u
  proof (rule wavefront_reduce_zeros)
    fix v assume "v \<in> set (take (nat WARP) (drop (w * nat WARP) vals))"
    then have "v \<in> set vals" by (meson in_set_dropD in_set_takeD)
    then show "v = 0" by (rule assms)
  qed
qed

lemma wavefront_reduce_sum:
  "length xs = 2 ^ k \<Longrightarrow> wavefront_reduce xs = (sum_list xs :: 'a::comm_monoid_add)"
proof (induction k arbitrary: xs)
  case 0
  then obtain v where "xs = [v]" by (cases xs) auto
  then show ?case by simp
next
  case (Suc k)
  let ?h = "(2::nat) ^ k"
  have len: "length xs = 2 * ?h" using Suc.prems by simp
  have "1 \<le> ?h" by simp
  then have "2 \<le> length xs" using len by simp
  then obtain v w vs where xs: "xs = v # w # vs"
    by (cases xs; cases "tl xs") auto
  have h: "length xs div 2 = ?h" using len by simp
  let ?new = "map (\<lambda>l. xs ! l + xs ! (l + ?h)) [0..<?h]"
  have "wavefront_reduce (v # w # vs)
        = wavefront_reduce (map (\<lambda>l. (v # w # vs) ! l + (v # w # vs) ! (l + length (v # w # vs) div 2))
                           [0..<length (v # w # vs) div 2])"
    by (rule wavefront_reduce.simps(3))
  then have "wavefront_reduce xs = wavefront_reduce ?new"
    unfolding xs[symmetric] h .
  also have "\<dots> = sum_list ?new" by (rule Suc.IH) simp
  also have "\<dots> = (\<Sum>l = 0..<?h. xs ! l + xs ! (l + ?h))"
    by (simp add: interv_sum_list_conv_sum_set_nat)
  also have "\<dots> = (\<Sum>l = 0..<?h. xs ! l) + (\<Sum>l = 0..<?h. xs ! (l + ?h))"
    by (simp add: sum.distrib)
  also have "(\<Sum>l = 0..<?h. xs ! (l + ?h)) = (\<Sum>l = ?h..<2 * ?h. xs ! l)"
    using sum.shift_bounds_nat_ivl[of "\<lambda>l. xs ! l" 0 ?h ?h] by (simp add: mult_2)
  also have "(\<Sum>l = 0..<?h. xs ! l) + (\<Sum>l = ?h..<2 * ?h. xs ! l) = (\<Sum>l = 0..<2 * ?h. xs ! l)"
    by (rule sum.atLeastLessThan_concat) simp_all
  also have "\<dots> = sum_list xs" using len by (simp add: sum_list_sum_nth)
  finally show ?case .
qed

lemma sum_list_chunks:
  "sum_list (map (\<lambda>w. sum_list (take W (drop (w * W) vals))) [0..<m])
   = (sum_list (take (m * W) vals) :: 'a::comm_monoid_add)"
proof (induction m)
  case 0
  then show ?case by simp
next
  case (Suc m)
  have "Suc m * W = m * W + W" by simp
  then have "take (Suc m * W) vals = take (m * W) vals @ take W (drop (m * W) vals)"
    by (simp only: take_add)
  then show ?case using Suc by simp
qed

lemma block_reduce_sum:
  assumes "length vals = 2 ^ j * 2 ^ k" and "nat WARP = 2 ^ k"
  shows "rocblas_dot_block_reduce WARP vals = (sum_list vals :: 'a::comm_monoid_add)"
proof -
  define W where "W = nat WARP"
  have W: "W = 2 ^ k" unfolding W_def by (rule assms(2))
  have len: "length vals = 2 ^ j * W" unfolding W by (rule assms(1))
  have m: "length vals div W = 2 ^ j" unfolding len W by simp
  have chunk: "wavefront_reduce (take W (drop (w * W) vals)) = sum_list (take W (drop (w * W) vals))"
    if "w < 2 ^ j" for w
  proof (rule wavefront_reduce_sum[where k = k])
    have "Suc w \<le> 2 ^ j" using that by simp
    then have "Suc w * W \<le> 2 ^ j * W" by (rule mult_le_mono1)
    then have "w * W + W \<le> length vals" unfolding len by simp
    then have "length (take W (drop (w * W) vals)) = W" by simp
    then show "length (take W (drop (w * W) vals)) = 2 ^ k" unfolding W .
  qed
  have "rocblas_dot_block_reduce WARP vals
        = wavefront_reduce (map (\<lambda>w. wavefront_reduce (take W (drop (w * W) vals))) [0..<2 ^ j])"
    unfolding rocblas_dot_block_reduce_def W_def[symmetric] m ..
  also have "\<dots> = wavefront_reduce (map (\<lambda>w. sum_list (take W (drop (w * W) vals))) [0..<2 ^ j])"
  proof -
    have "map (\<lambda>w. wavefront_reduce (take W (drop (w * W) vals))) [0..<2 ^ j]
          = map (\<lambda>w. sum_list (take W (drop (w * W) vals))) [0..<2 ^ j]"
      by (rule map_cong[OF refl]) (simp add: chunk)
    then show ?thesis by (simp only:)
  qed
  also have "\<dots> = sum_list (map (\<lambda>w. sum_list (take W (drop (w * W) vals))) [0..<2 ^ j])"
    by (rule wavefront_reduce_sum[where k = j]) simp
  also have "\<dots> = sum_list (take (2 ^ j * W) vals)" by (rule sum_list_chunks)
  also have "\<dots> = sum_list vals" using len by simp
  finally show ?thesis .
qed

lemma foldl_apply_write_other:
  "l \<notin> fst ` set ws \<Longrightarrow> foldl apply_write st ws l = st l"
proof (induction ws arbitrary: st)
  case Nil
  then show ?case by simp
next
  case (Cons w ws)
  have "foldl apply_write st (w # ws) l = foldl apply_write (apply_write st w) ws l" by simp
  also have "\<dots> = apply_write st w l" using Cons by simp
  also have "\<dots> = st l" using Cons.prems by (simp add: apply_write_def)
  finally show ?case .
qed

lemma foldl_apply_write_const:
  assumes "(l, c) \<in> set ws" and "\<And>v. (l, v) \<in> set ws \<Longrightarrow> v = c"
  shows "foldl apply_write st ws l = c"
  using assms
proof (induction ws arbitrary: st rule: rev_induct)
  case Nil
  then show ?case by simp
next
  case (snoc w ws)
  have step: "foldl apply_write st (ws @ [w]) l = apply_write (foldl apply_write st ws) w l"
    by simp
  show ?case
  proof (cases "fst w = l")
    case True
    then have "(l, snd w) \<in> set (ws @ [w])" by (cases w) simp
    then have "snd w = c" by (rule snoc.prems(2))
    then show ?thesis unfolding step using True by (simp add: apply_write_def)
  next
    case False
    have in_ws: "(l, c) \<in> set ws" using snoc.prems(1) False by (cases w) auto
    have "\<And>v. (l, v) \<in> set ws \<Longrightarrow> v = c" using snoc.prems(2) by simp
    from snoc.IH[OF in_ws this] have "foldl apply_write st ws l = c" .
    then show ?thesis unfolding step using False by (simp add: apply_write_def)
  qed
qed

lemma yz_batches_nil:
  "batch_count \<le> batch \<Longrightarrow> yz_batches limit batch_count batch = []"
  by (subst yz_batches.simps) (simp del: yz_batches.simps)

lemma yz_batches_cons:
  "batch < batch_count \<Longrightarrow> 0 < limit \<Longrightarrow>
   yz_batches limit batch_count batch = batch # yz_batches limit batch_count (batch + limit)"
  by (subst yz_batches.simps) (simp del: yz_batches.simps)

lemma yz_batches_one:
  assumes "0 < limit" and "batch < batch_count" and "batch_count \<le> batch + limit"
  shows "yz_batches limit batch_count batch = [batch]"
  unfolding yz_batches_cons[OF assms(2,1)] yz_batches_nil[OF assms(3)] ..

lemma yz_batches_two:
  assumes "0 < limit" and "batch + limit < batch_count" and "batch_count \<le> batch + limit + limit"
  shows "yz_batches limit batch_count batch = [batch, batch + limit]"
proof -
  have "batch < batch_count" using assms by simp
  from yz_batches_cons[OF this assms(1)] yz_batches_one[OF assms(1,2,3)]
  show ?thesis by (simp del: yz_batches.simps)
qed

lemma ones_thread:
  "dot_kernel_inc1by2_thread (\<lambda>v. v) (\<lambda>a. (1::int)) True 1024 32 dot_ones_args 1 b i
   = win_loop (\<lambda>i acc. acc + 1) 1025 1024 32 i 0"
  by (simp add: dot_kernel_inc1by2_thread_def dot_ones_args_def dot_call_args_def Let_def)

lemma ones_thread_first:
  "win_loop (\<lambda>i acc. acc + 1) 1025 1024 32 0 (0::int) = (2048, 2)"
  using win_loop_two[of 0 1024 1025 32 "\<lambda>i acc. acc + 1" "0::int"] by simp

lemma ones_thread_other:
  "1 \<le> t \<Longrightarrow> t \<le> 1023 \<Longrightarrow> win_loop (\<lambda>i acc. acc + 1) 1025 1024 32 t (0::int) = (t + 1024, 1)"
  using win_loop_one[of t 1025 1024 32 "\<lambda>i acc. acc + 1" "0::int"] by simp

lemma ones_threads:
  "map (\<lambda>t. win_loop (\<lambda>i acc. acc + 1) 1025 1024 32 t (0::int)) [0..1023]
   = (2048, 2) # map (\<lambda>t. (t + 1024, 1)) [1..1023]"
proof -
  have u: "[0..1023] = 0 # [1..1023::int]" by (subst upto_rec1) simp_all
  have "map (\<lambda>t. win_loop (\<lambda>i acc. acc + 1) 1025 1024 32 t (0::int)) [1..1023]
        = map (\<lambda>t. (t + 1024, 1)) [1..1023]"
    by (rule map_cong[OF refl]) (simp add: ones_thread_other)
  then show ?thesis unfolding u by (simp add: ones_thread_first del: upto.simps)
qed

lemma ones_first_pass:
  "rocblas_dot_block_reduce 32
     (map snd (map (\<lambda>t. win_loop (\<lambda>i acc. acc + 1) 1025 1024 32 t (0::int)) [0..1023])) = 1025"
proof -
  have l: "length (map snd (map (\<lambda>t. win_loop (\<lambda>i acc. acc + 1) 1025 1024 32 t (0::int)) [0..1023]))
           = 2 ^ 5 * 2 ^ 5"
    by simp
  have w: "nat 32 = 2 ^ 5" by simp
  have "sum_list (map snd ((2048, 2) # map (\<lambda>t. (t + 1024, 1::int)) [1..1023])) = 1025"
    by (simp add: comp_def sum_list_triv del: upto.simps)
  then show ?thesis
    by (subst block_reduce_sum[OF l w]) (simp only: ones_threads)
qed

lemma ones_second_pass:
  "rocblas_dot_block_reduce 32
     (map snd (map (\<lambda>t. win_loop (\<lambda>i acc. acc + 1) 1025 1024 32 t (0::int))
        (map fst (map (\<lambda>t. win_loop (\<lambda>i acc. acc + 1) 1025 1024 32 t (0::int)) [0..1023])))) = 0"
proof (rule block_reduce_zeros)
  fix v
  assume "v \<in> set (map snd (map (\<lambda>t. win_loop (\<lambda>i acc. acc + 1) 1025 1024 32 t (0::int))
        (map fst (map (\<lambda>t. win_loop (\<lambda>i acc. acc + 1) 1025 1024 32 t (0::int)) [0..1023]))))"
  then obtain t where t: "0 \<le> t" "t \<le> 1023"
    and v: "v = snd (win_loop (\<lambda>i acc. acc + 1) 1025 1024 32
                      (fst (win_loop (\<lambda>i acc. acc + 1) 1025 1024 32 t (0::int))) (0::int))"
    by auto
  have "1025 \<le> t + int 32 * 1024" using t by simp
  then have "1025 \<le> fst (win_loop (\<lambda>i acc. acc + 1) 1025 1024 32 t (0::int))"
    by (rule win_loop_fst)
  then show "v = 0" unfolding v by (simp add: win_loop_stale)
qed

lemma ones_thread_fun:
  "dot_kernel_inc1by2_thread (\<lambda>v. v) (\<lambda>a. (1::int)) True 1024 32 dot_ones_args 1
   = (\<lambda>b i. win_loop (\<lambda>i acc. acc + 1) 1025 1024 32 i 0)"
  by (intro ext) (rule ones_thread)

lemma ones_batches:
  assumes "0 \<le> z" and "z \<le> 65534"
  shows "block_batches cfg_yz16 (a_batch_count dot_ones_args) z
         = (if z = 0 then [0, 65535] else [z])"
proof -
  have b: "block_batches cfg_yz16 (a_batch_count dot_ones_args) z = yz_batches 65535 65536 z"
    by (simp add: block_batches_def cfg_yz16_def dot_ones_args_def dot_call_args_def
             del: yz_batches.simps)
  show ?thesis
  proof (cases "z = 0")
    case True
    have "yz_batches 65535 65536 0 = [0, 0 + 65535]"
      by (rule yz_batches_two) simp_all
    then show ?thesis unfolding b using True by (simp del: yz_batches.simps)
  next
    case False
    have "yz_batches 65535 65536 z = [z]"
      by (rule yz_batches_one) (use assms False in simp_all)
    then show ?thesis unfolding b using False by (simp del: yz_batches.simps)
  qed
qed

lemma ones_save:
  "rocblas_dot_save_sum True 1 0 (a_out dot_ones_args) v b = (Results b, v)"
  by (simp add: rocblas_dot_save_sum_def dot_ones_args_def dot_call_args_def)

lemma ones_block:
  assumes "0 \<le> z" and "z \<le> 65534"
  shows "dot_loop_block cfg_yz16 32
           (dot_kernel_inc1by2_thread (\<lambda>v. v) (\<lambda>a. (1::int)) True 1024 32 dot_ones_args)
           True 1024 dot_ones_args 1 1024 0 z
         = (Results z, 1025) # (if z = 0 then [(Results 65535, 0)] else [])"
proof -
  have i: "map (\<lambda>threadIdx_x. if \<not> True then 0 * 1024 + threadIdx_x else threadIdx_x)
             [0..1024 - 1] = [0..1023]"
    by simp
  have w: "(if (32::int) = WARP_32 then WARP_32 else WARP_64) = 32"
    by (simp add: WARP_32_def)
  show ?thesis
    unfolding dot_loop_block_def ones_batches[OF assms] ones_thread_fun i w
    apply (simp only: dot_block_batches.simps Let_def ones_save ones_first_pass ones_second_pass
                   if_distrib[of "\<lambda>bs. dot_block_batches _ _ _ bs _"] split: if_splits)
    apply simp
    done
qed

lemma ones_writes:
  "dot_kernel_writes cfg_yz16 32 (\<lambda>v. v) (\<lambda>a. (1::int)) (Dot_kernel_inc1by2 True 1024 32)
     (1, 1, 65535) (1024, 1, 1) dot_ones_args
   = concat (map (\<lambda>z. (Results z, 1025) # (if z = 0 then [(Results 65535, 0)] else []))
                 [0..65534])"
proof -
  have x: "[0..(1::int) - 1] = [0]" by (simp add: upto.simps)
  have z: "[0..(65535::int) - 1] = [0..65534]" by simp
  have "map (\<lambda>blockIdx_z. concat (map (\<lambda>blockIdx_x.
            dot_loop_block cfg_yz16 32
              (dot_kernel_inc1by2_thread (\<lambda>v. v) (\<lambda>a. (1::int)) True 1024 32 dot_ones_args)
              True 1024 dot_ones_args 1 1024 blockIdx_x blockIdx_z) [0])) [0..65534]
        = map (\<lambda>z. (Results z, 1025) # (if z = 0 then [(Results 65535, 0)] else [])) [0..65534]"
    by (rule map_cong[OF refl]) (simp add: ones_block)
  then show ?thesis
    unfolding dot_kernel_writes_def
    by (simp only: prod.case dot_kernel_id.case x z)
qed

lemma ones_launcher:
  "rocblas_internal_dot_launcher cfg_yz16 hip_ok 512 False Double Double handle_yz16
     1025 (Ptr 0) 0 1 1025 (Ptr 67174400) 0 1 1025 65536
   = (Status_success,
      [Launch_dot (Dot_kernel_inc1by2 True 1024 32) (1, 1, 65535) (1024, 1, 1) dot_ones_args])"
proof -
  have "rocblas_internal_dot_launcher cfg_yz16 hip_ok 512 False Double Double handle_yz16
     1025 (Ptr 0) 0 1 1025 (Ptr 67174400) 0 1 1025 65536
     = dot_copy_back handle_yz16 hip_ok (dot_output handle_yz16 65536) 65536
       [Launch_dot
          (if operand_addr (Ptr 0) \<noteq> operand_addr (Ptr 67174400) \<or> (1::int) \<noteq> 1 \<or> (0::int) \<noteq> 0
              \<or> (1025::int) \<noteq> 1025
           then (if (1::int) = 1 \<and> (1::int) = 1 then Dot_kernel_inc1by2 True 1024 32
                 else Dot_kernel True 1024 32)
           else Dot_kernel_magsq True 1024 32)
          (1, 1, getBatchGridDim handle_yz16 65536) (1024, 1, 1)
          (dot_call_args False Double 1025 (Ptr 0) 0 1 1025 (Ptr 67174400) 0 1 1025 65536
             (dot_output handle_yz16 65536))]"
    by (rule launcher_one_block) (simp_all add: rocblas_dot_one_block_threshold_def)
  then show ?thesis
    by (simp add: dot_copy_back_def dot_output_def handle_yz16_def dot_ones_args_def)
qed

lemma ones_call:
  "rocblas_dot cfg_yz16 hip_ok (\<lambda>v. v) (\<lambda>a. (1::int)) 512 False Double Double handle_yz16
     1025 (Ptr 0) 0 1 1025 (Ptr 67174400) 0 1 1025 65536 st
   = (Status_success,
      foldl apply_write st
        (concat (map (\<lambda>z. (Results z, 1025) # (if z = 0 then [(Results 65535, 0)] else []))
                     [0..65534])))"
proof -
  have w: "getWarpSize handle_yz16 = 32" by (simp add: handle_yz16_def)
  show ?thesis
    unfolding rocblas_dot_def ones_launcher
    by (simp only: prod.case foldl.simps exec_action.simps w ones_writes)
qed


text \<open>
  C1.  The dot launcher does not compute \<open>result[b] = sum_i x[i] * y[i]\<close> for every batch
  \<open>b\<close>.  In a build with \<open>DEVICE_GRID_YZ_16BIT\<close> and a handle whose \<open>getBatchGridDim\<close>
  caps the grid at \<open>c_YZ_grid_launch_limit = 65535\<close>, the double-precision call with
  \<open>n = 1025\<close>, unit increments, \<open>batch_count = 65536\<close> and every element of \<open>x\<close> and \<open>y\<close>
  equal to one returns success and stores \<open>1025\<close> in \<open>result[0]\<close> but \<open>0\<close> in
  \<open>result[65535]\<close>, whose dot product is \<open>1025\<close> as well: block 0 handles the batches 0 and
  65535, and in its second pass every thread still has \<open>i \<ge> n\<close>, so it adds nothing.
\<close>

theorem dot_batch_loop_stale_index:
  "fst (rocblas_dot cfg_yz16 hip_ok (\<lambda>v. v) (\<lambda>a. (1::int)) 512 False Double Double handle_yz16
          1025 (Ptr 0) 0 1 1025 (Ptr 67174400) 0 1 1025 65536 st) = Status_success
   \<and> snd (rocblas_dot cfg_yz16 hip_ok (\<lambda>v. v) (\<lambda>a. (1::int)) 512 False Double Double handle_yz16
          1025 (Ptr 0) 0 1 1025 (Ptr 67174400) 0 1 1025 65536 st) (Results 0) = 1025
   \<and> snd (rocblas_dot cfg_yz16 hip_ok (\<lambda>v. v) (\<lambda>a. (1::int)) 512 False Double Double handle_yz16
          1025 (Ptr 0) 0 1 1025 (Ptr 67174400) 0 1 1025 65536 st) (Results 65535) = 0"
proof -
  let ?ws = "concat (map (\<lambda>z. (Results z, 1025::int) # (if z = 0 then [(Results 65535, 0)] else []))
                     [0..65534])"
  have a: "foldl apply_write st ?ws (Results 0) = 1025"
  proof (rule foldl_apply_write_const)
    show "(Results 0, 1025) \<in> set ?ws" by (auto intro!: bexI[of _ 0])
    show "\<And>v. (Results 0, v) \<in> set ?ws \<Longrightarrow> v = 1025" by (auto split: if_splits)
  qed
  have b: "foldl apply_write st ?ws (Results 65535) = 0"
  proof (rule foldl_apply_write_const)
    show "(Results 65535, 0) \<in> set ?ws" by (auto intro!: bexI[of _ 0])
    show "\<And>v. (Results 65535, v) \<in> set ?ws \<Longrightarrow> v = 0" by (auto split: if_splits)
  qed
  show ?thesis unfolding ones_call using a b by simp
qed

end
